theory Spec2Isabelle
  imports Complex_Main
begin

section \<open>Tensors\<close>

text \<open>
  The notebook computes on PyTorch tensors. A tensor is modelled as its shape together
  with the map from index tuples to entries; only the entries at indices inside the
  shape are meaningful. In the sections on the modules the entries of floating-point
  tensors are exact reals: nothing is rounded and nothing overflows, and a cast between
  floating-point dtypes (\<^verbatim>\<open>.float()\<close>, \<^verbatim>\<open>.to(dtype=...)\<close>) is the identity. The one non-finite
  value the code writes itself, \<^verbatim>\<open>-torch.inf\<close> in the attention scores, is modelled
  explicitly there. Three later sections write forward passes again with what the reals
  leave out: over an explicit store, with the storage that tensors share; over float32
  numbers that overflow to \<open>inf\<close> and \<open>nan\<close>; and with the dtype and the device of a tensor,
  for which the library raises errors.

  Every exception the code or the library can raise is a value of type \<open>error\<close>.
\<close>

datatype error = AssertionError | ZeroDivisionError | ValueError | IndexError | RuntimeError

record 'a tensor =
  shape :: "nat list"
  elem :: "nat list \<Rightarrow> 'a"

definition then_do :: "error + 'a \<Rightarrow> ('a \<Rightarrow> error + 'b) \<Rightarrow> error + 'b" where
  "then_do r f = (case r of Inl e \<Rightarrow> Inl e | Inr v \<Rightarrow> f v)"

text \<open>An index tuple lies inside a shape when it has the shape's rank and every
  component is below the size of its axis.\<close>

definition in_range :: "nat list \<Rightarrow> nat list \<Rightarrow> bool" where
  "in_range s idx = list_all2 (<) idx s"

definition tmap :: "('a \<Rightarrow> 'b) \<Rightarrow> 'a tensor \<Rightarrow> 'b tensor" where
  "tmap f x = \<lparr>shape = shape x, elem = (\<lambda>idx. f (elem x idx))\<rparr>"

subsection \<open>Broadcasting\<close>

text \<open>
  PyTorch aligns two shapes at their last axis; two axis sizes are compatible when they
  are equal or one of them is 1, and a missing leading axis counts as size 1.
  \<open>broadcast_rev\<close> works on the reversed shapes.
\<close>

fun broadcast_rev :: "nat list \<Rightarrow> nat list \<Rightarrow> nat list option" where
  "broadcast_rev [] ys = Some ys"
| "broadcast_rev xs [] = Some xs"
| "broadcast_rev (x # xs) (y # ys) =
     (if x = y \<or> y = 1 then map_option ((#) x) (broadcast_rev xs ys)
      else if x = 1 then map_option ((#) y) (broadcast_rev xs ys)
      else None)"

definition broadcast_shapes :: "nat list \<Rightarrow> nat list \<Rightarrow> error + nat list" where
  "broadcast_shapes s t =
     (case broadcast_rev (rev s) (rev t) of
        None \<Rightarrow> Inl RuntimeError
      | Some r \<Rightarrow> Inr (rev r))"

text \<open>The index at which an operand of shape \<open>s\<close> is read for the index \<open>idx\<close> of the
  broadcast result: leading axes the operand lacks are dropped, an axis of size 1 is
  read at 0.\<close>

definition bindex :: "nat list \<Rightarrow> nat list \<Rightarrow> nat list" where
  "bindex s idx =
     map2 (\<lambda>n i. if n = 1 then 0 else i) s (drop (length idx - length s) idx)"

definition binop :: "('a \<Rightarrow> 'b \<Rightarrow> 'c) \<Rightarrow> 'a tensor \<Rightarrow> 'b tensor \<Rightarrow> error + 'c tensor" where
  "binop f a b =
     then_do (broadcast_shapes (shape a) (shape b)) (\<lambda>s.
       Inr \<lparr>shape = s,
            elem = (\<lambda>idx. f (elem a (bindex (shape a) idx)) (elem b (bindex (shape b) idx)))\<rparr>)"

definition mul :: "real tensor \<Rightarrow> real tensor \<Rightarrow> error + real tensor" where
  "mul = binop (*)"

definition add :: "real tensor \<Rightarrow> real tensor \<Rightarrow> error + real tensor" where
  "add = binop (+)"

subsection \<open>Reductions over the last axis\<close>

text \<open>\<^verbatim>\<open>t.mean(dim=-1, keepdim=True)\<close>. On a 0-dimensional tensor \<^verbatim>\<open>dim=-1\<close> names the
  scalar itself.\<close>

definition mean_keepdim :: "real tensor \<Rightarrow> real tensor" where
  "mean_keepdim x =
     (case shape x of
        [] \<Rightarrow> x
      | _ # _ \<Rightarrow>
          \<lparr>shape = butlast (shape x) @ [1],
           elem = (\<lambda>idx. (\<Sum>k\<leftarrow>[0..<last (shape x)]. elem x (butlast idx @ [k]))
                           / real (last (shape x)))\<rparr>)"

definition rsqrt :: "real \<Rightarrow> real" where
  "rsqrt v = 1 / sqrt v"

section \<open>RMSNorm\<close>

text \<open>
  \<^verbatim>\<open>
  class RMSNorm(nn.Module):
      def __init__(self, embd_dim:int, eps=1e-5):
          self.eps = eps
          self.embd_dim = embd_dim
          self.weight = nn.Parameter(torch.ones(embd_dim)).float()
      def forward(self, x):
          means = x.pow(2).mean(dim=-1, keepdim=True)
          x_norm = x * torch.rsqrt(means + self.eps)
          return (x_norm * self.weight).to(dtype=x.dtype)
  \<close>
  The learnable weight vector is kept as the map from positions to entries; its shape
  \<open>[embd_dim]\<close> is fixed by the constructor. \<open>RMSNorm_forward\<close> is the computation on the
  entries of a floating-point input on the device of the weight; the RuntimeError that
  \<^verbatim>\<open>mean\<close> raises on an integer or boolean input, and the one for an input on another
  device, are in \<open>RMSNorm_forward_typed\<close>.
\<close>

record RMSNorm =
  eps :: real
  embd_dim :: nat
  weight :: "nat \<Rightarrow> real"

definition RMSNorm_init :: "nat \<Rightarrow> real \<Rightarrow> RMSNorm" where
  "RMSNorm_init n e = \<lparr>eps = e, embd_dim = n, weight = (\<lambda>_. 1)\<rparr>"

definition weight_tensor :: "RMSNorm \<Rightarrow> real tensor" where
  "weight_tensor self = \<lparr>shape = [embd_dim self], elem = (\<lambda>idx. weight self (hd idx))\<rparr>"

definition RMSNorm_forward :: "RMSNorm \<Rightarrow> real tensor \<Rightarrow> error + real tensor" where
  "RMSNorm_forward self x =
     (let means = mean_keepdim (tmap (\<lambda>v. v ^ 2) x) in
      then_do (mul x (tmap rsqrt (tmap (\<lambda>v. v + eps self) means))) (\<lambda>x_norm.
      mul x_norm (weight_tensor self)))"

section \<open>Linear layers\<close>

text \<open>
  \<^verbatim>\<open>nn.Linear(in_features, out_features, bias=...)\<close> computes \<open>x W\<^sup>T + b\<close> over the last
  axis of its input and raises a RuntimeError when that axis does not have size
  \<open>in_features\<close> (or the input has no axis at all). Its parameters are drawn at random
  by the constructor: their values are arguments of \<open>Linear_init\<close>. \<open>Linear_forward\<close> is the
  computation on the entries of an input that has the dtype and the device of the weight;
  the RuntimeError for another dtype or device is in \<open>Linear_forward_typed\<close>.
\<close>

record Linear =
  in_features :: nat
  out_features :: nat
  W :: "nat \<Rightarrow> nat \<Rightarrow> real"
  bias :: "(nat \<Rightarrow> real) option"

definition Linear_init :: "nat \<Rightarrow> nat \<Rightarrow> bool \<Rightarrow> (nat \<Rightarrow> nat \<Rightarrow> real) \<Rightarrow> (nat \<Rightarrow> real) \<Rightarrow> Linear" where
  "Linear_init n_in n_out use_bias w0 b0 =
     \<lparr>in_features = n_in, out_features = n_out, W = w0,
      bias = (if use_bias then Some b0 else None)\<rparr>"

text \<open>The layer on one vector \<open>v\<close>: component \<open>j\<close> of \<open>W v + b\<close>.\<close>

definition affine :: "Linear \<Rightarrow> (nat \<Rightarrow> real) \<Rightarrow> nat \<Rightarrow> real" where
  "affine l v j =
     (\<Sum>k\<leftarrow>[0..<in_features l]. v k * W l j k)
     + (case bias l of None \<Rightarrow> 0 | Some b \<Rightarrow> b j)"

text \<open>The vector along the last axis of \<open>x\<close> that the index \<open>idx\<close> lies in.\<close>

definition row :: "'a tensor \<Rightarrow> nat list \<Rightarrow> nat \<Rightarrow> 'a" where
  "row x idx k = elem x (butlast idx @ [k])"

definition Linear_forward :: "Linear \<Rightarrow> real tensor \<Rightarrow> error + real tensor" where
  "Linear_forward l x =
     (if shape x = [] \<or> last (shape x) \<noteq> in_features l then Inl RuntimeError
      else Inr \<lparr>shape = butlast (shape x) @ [out_features l],
                elem = (\<lambda>idx. affine l (row x idx) (last idx))\<rparr>)"

section \<open>Rotary positional embeddings\<close>

subsection \<open>The tensor operations used\<close>

text \<open>\<^verbatim>\<open>torch.arange(start, end, step)\<close> for natural numbers; a zero step is refused.\<close>

definition arange :: "nat \<Rightarrow> nat \<Rightarrow> nat \<Rightarrow> error + real tensor" where
  "arange a b step =
     (if step = 0 then Inl RuntimeError
      else Inr \<lparr>shape = [(b - a + step - 1) div step],
                elem = (\<lambda>idx. real (a + hd idx * step))\<rparr>)"

text \<open>Basic slicing along one axis: \<open>slice_to ax k\<close> keeps the entries before position
  \<open>k\<close> of axis \<open>ax\<close> (\<^verbatim>\<open>t[:k]\<close>, \<^verbatim>\<open>t[..., :k]\<close>), \<open>slice_from ax k\<close> those from position \<open>k\<close> on
  (\<^verbatim>\<open>t[..., k:]\<close>). As in Python, a bound beyond the axis is clamped to its size. Indexing
  an axis the tensor does not have raises an IndexError.\<close>

definition slice_to :: "nat \<Rightarrow> nat \<Rightarrow> 'a tensor \<Rightarrow> error + 'a tensor" where
  "slice_to ax k x =
     (if ax < length (shape x)
      then Inr \<lparr>shape = (shape x)[ax := min k (shape x ! ax)], elem = elem x\<rparr>
      else Inl IndexError)"

definition slice_from :: "nat \<Rightarrow> nat \<Rightarrow> 'a tensor \<Rightarrow> error + 'a tensor" where
  "slice_from ax k x =
     (if ax < length (shape x)
      then Inr \<lparr>shape = (shape x)[ax := shape x ! ax - k],
                elem = (\<lambda>idx. elem x (idx[ax := idx ! ax + k]))\<rparr>
      else Inl IndexError)"

text \<open>\<^verbatim>\<open>t[:k, :]\<close>: two index positions need a tensor of rank at least 2.\<close>

definition rows_to :: "nat \<Rightarrow> 'a tensor \<Rightarrow> error + 'a tensor" where
  "rows_to k x = (if length (shape x) < 2 then Inl IndexError else slice_to 0 k x)"

text \<open>\<^verbatim>\<open>t.unsqueeze(d)\<close> inserts an axis of size 1 at position \<open>d\<close>; \<^verbatim>\<open>t[None, :]\<close> is
  \<open>unsqueeze 0\<close> and \<^verbatim>\<open>t[:, None]\<close> is \<open>unsqueeze 1\<close>. Every use has \<open>d\<close> at most the rank
  of \<open>t\<close>, where the library cannot fail.\<close>

definition unsqueeze :: "nat \<Rightarrow> 'a tensor \<Rightarrow> 'a tensor" where
  "unsqueeze d x =
     \<lparr>shape = take d (shape x) @ [1] @ drop d (shape x),
      elem = (\<lambda>idx. elem x (take d idx @ drop (Suc d) idx))\<rparr>"

text \<open>\<^verbatim>\<open>torch.cat((a, b), dim=-1)\<close>, concatenation along the last axis (in
  \<open>precompute_rope_params\<close> the tensors are 2-dimensional and \<^verbatim>\<open>dim=1\<close> is the last
  axis). The operands must agree on all other axes.\<close>

definition cat_last :: "'a tensor \<Rightarrow> 'a tensor \<Rightarrow> error + 'a tensor" where
  "cat_last a b =
     (if shape a = [] \<or> shape b = [] \<or> butlast (shape a) \<noteq> butlast (shape b)
      then Inl RuntimeError
      else Inr \<lparr>shape = butlast (shape a) @ [last (shape a) + last (shape b)],
                elem = (\<lambda>idx. if last idx < last (shape a) then elem a idx
                              else elem b (butlast idx @ [last idx - last (shape a)]))\<rparr>)"

subsection \<open>precompute_rope_params and compute_rope\<close>

text \<open>
  \<^verbatim>\<open>
  def precompute_rope_params(head_dim, theta_base=10_000, context_length=4096):
      assert head_dim % 2 == 0, "Embedding dimension must be even"
      inv_freq = 1.0 / ( theta_base ** (torch.arange(0, head_dim, 2)[: (head_dim // 2)].float() / head_dim))
      positions = torch.arange(context_length)
      angles = positions[:, None] * inv_freq[None, :]
      angles = torch.cat([angles, angles], dim=1)
      cos = torch.cos(angles)
      sin = torch.sin(angles)
      return cos, sin
  \<close>
  The power \<^verbatim>\<open>theta_base ** e\<close> is \<open>theta_base powr e\<close>, which is Python's power for a
  positive base.
\<close>

definition precompute_rope_params :: "nat \<Rightarrow> real \<Rightarrow> nat \<Rightarrow> error + (real tensor \<times> real tensor)" where
  "precompute_rope_params head_dim theta_base context_length =
     (if head_dim mod 2 \<noteq> 0 then Inl AssertionError
      else
        then_do (arange 0 head_dim 2) (\<lambda>evens.
        then_do (slice_to 0 (head_dim div 2) evens) (\<lambda>evens.
        let inv_freq = tmap (\<lambda>e. 1 / (theta_base powr e)) (tmap (\<lambda>v. v / real head_dim) evens) in
        then_do (arange 0 context_length 1) (\<lambda>positions.
        then_do (mul (unsqueeze 1 positions) (unsqueeze 0 inv_freq)) (\<lambda>angles.
        then_do (cat_last angles angles) (\<lambda>angles.
        Inr (tmap cos angles, tmap sin angles)))))))"

text \<open>
  \<^verbatim>\<open>
  def compute_rope(x, cos, sin):
      batch_size, num_heads, seq_len, head_dim = x.shape
      assert head_dim % 2 == 0, "Head dimension must be even"
      x1 = x[..., : head_dim // 2]
      x2 = x[..., head_dim // 2 :]
      rotated = torch.cat((-x2, x1), dim=-1)
      cos = cos[:seq_len, :].unsqueeze(0).unsqueeze(0)
      sin = sin[:seq_len, :].unsqueeze(0).unsqueeze(0)
      x_rotated = (x * cos) + (rotated * sin)
      return x_rotated.to(dtype=x.dtype)
  \<close>
  Unpacking \<^verbatim>\<open>x.shape\<close> into four names raises a ValueError unless \<open>x\<close> has rank 4.
\<close>

definition compute_rope :: "real tensor \<Rightarrow> real tensor \<Rightarrow> real tensor \<Rightarrow> error + real tensor" where
  "compute_rope x cos_t sin_t =
     (case shape x of
        [batch_size, num_heads, seq_len, head_dim] \<Rightarrow>
          if head_dim mod 2 \<noteq> 0 then Inl AssertionError
          else
            then_do (slice_to 3 (head_dim div 2) x) (\<lambda>x1.
            then_do (slice_from 3 (head_dim div 2) x) (\<lambda>x2.
            then_do (cat_last (tmap uminus x2) x1) (\<lambda>rotated.
            then_do (rows_to seq_len cos_t) (\<lambda>c.
            then_do (rows_to seq_len sin_t) (\<lambda>s.
            then_do (mul x (unsqueeze 0 (unsqueeze 0 c))) (\<lambda>xc.
            then_do (mul rotated (unsqueeze 0 (unsqueeze 0 s))) (\<lambda>rs.
            add xc rs)))))))
      | _ \<Rightarrow> Inl ValueError)"

text \<open>The angle by which the specification rotates the coordinate pair \<open>(j, j + head_dim/2)\<close>
  at sequence position \<open>m\<close>: \<open>m * theta_base\<^sup>-\<^sup>2\<^sup>j\<^sup>/\<^sup>h\<^sup>e\<^sup>a\<^sup>d\<^sup>_\<^sup>d\<^sup>i\<^sup>m\<close>.\<close>

definition rope_angle :: "nat \<Rightarrow> real \<Rightarrow> nat \<Rightarrow> nat \<Rightarrow> real" where
  "rope_angle head_dim theta_base m j = real m * theta_base powr (- (2 * real j / real head_dim))"

text \<open>The Euclidean norm of the first \<open>n\<close> components of a vector.\<close>

definition euclidean_norm :: "(nat \<Rightarrow> real) \<Rightarrow> nat \<Rightarrow> real" where
  "euclidean_norm v n = sqrt (\<Sum>j\<leftarrow>[0..<n]. (v j) ^ 2)"

section \<open>The feed-forward block\<close>

definition sigmoid :: "real \<Rightarrow> real" where
  "sigmoid z = 1 / (1 + exp (- z))"

definition SiLU :: "real \<Rightarrow> real" where
  "SiLU z = z * sigmoid z"

text \<open>The configuration dataclass (\<^verbatim>\<open>Llama2Config7B\<close>, \<^verbatim>\<open>ExConfig\<close>). The \<^verbatim>\<open>dtype\<close> field has
  no counterpart over exact reals; it is the \<open>param_dtype\<close> of the section on dtypes and
  devices.\<close>

record config =
  vocab_size :: nat
  context_length :: nat
  emb_dim :: nat
  n_heads :: nat
  ff_bias :: bool
  n_layers :: nat
  hidden_dim :: nat

text \<open>
  \<^verbatim>\<open>
  class FeedForward(nn.Module):
      def __init__(self, config):
          self.fc1 = nn.Linear(config.emb_dim, config.hidden_dim, dtype=config.dtype, bias=config.ff_bias)
          self.fc2 = nn.Linear(config.emb_dim, config.hidden_dim, dtype=config.dtype, bias=config.ff_bias)
          self.fc3 = nn.Linear(config.hidden_dim, config.emb_dim, dtype=config.dtype, bias=config.ff_bias)
          self.silu = nn.SiLU()
      def forward(self, x):
          x_fc1 = self.fc1(x)
          x_fc2 = self.fc2(x)
          x = self.silu(x_fc1) * x_fc2
          return self.fc3(x)
  \<close>
\<close>

record FeedForward =
  fc1 :: Linear
  fc2 :: Linear
  fc3 :: Linear

type_synonym linear_params = "(nat \<Rightarrow> nat \<Rightarrow> real) \<times> (nat \<Rightarrow> real)"

definition FeedForward_init :: "config \<Rightarrow> linear_params \<Rightarrow> linear_params \<Rightarrow> linear_params \<Rightarrow> FeedForward" where
  "FeedForward_init cfg p1 p2 p3 =
     \<lparr>fc1 = Linear_init (emb_dim cfg) (hidden_dim cfg) (ff_bias cfg) (fst p1) (snd p1),
      fc2 = Linear_init (emb_dim cfg) (hidden_dim cfg) (ff_bias cfg) (fst p2) (snd p2),
      fc3 = Linear_init (hidden_dim cfg) (emb_dim cfg) (ff_bias cfg) (fst p3) (snd p3)\<rparr>"

definition FeedForward_forward :: "FeedForward \<Rightarrow> real tensor \<Rightarrow> error + real tensor" where
  "FeedForward_forward self x =
     then_do (Linear_forward (fc1 self) x) (\<lambda>x_fc1.
     then_do (Linear_forward (fc2 self) x) (\<lambda>x_fc2.
     then_do (mul (tmap SiLU x_fc1) x_fc2) (\<lambda>x.
     Linear_forward (fc3 self) x)))"

text \<open>The block on one token vector \<open>v\<close>, as the specification words it:
  \<open>fc3 (SiLU (fc1 v) * fc2 v)\<close>, component \<open>j\<close>.\<close>

definition FeedForward_token :: "FeedForward \<Rightarrow> (nat \<Rightarrow> real) \<Rightarrow> nat \<Rightarrow> real" where
  "FeedForward_token self v j =
     affine (fc3 self) (\<lambda>i. SiLU (affine (fc1 self) v i) * affine (fc2 self) v i) j"

section \<open>Multi-headed attention\<close>

subsection \<open>The tensor operations used\<close>

text \<open>\<^verbatim>\<open>torch.ones(s)\<close> and \<^verbatim>\<open>torch.triu(t, diagonal=d)\<close>: the entries of the last two axes with
  column minus row below \<open>d\<close> are set to zero.\<close>

definition ones :: "nat list \<Rightarrow> real tensor" where
  "ones s = \<lparr>shape = s, elem = (\<lambda>_. 1)\<rparr>"

definition triu :: "real tensor \<Rightarrow> nat \<Rightarrow> real tensor" where
  "triu x d =
     \<lparr>shape = shape x,
      elem = (\<lambda>idx. if idx ! (length idx - 2) + d \<le> last idx then elem x idx else 0)\<rparr>"

text \<open>
  \<^verbatim>\<open>t.view(s)\<close> and \<^verbatim>\<open>t.reshape(s)\<close> keep the entries in row-major order: the entry at an
  index of the new shape is the entry of \<open>t\<close> with the same row-major position. Both raise a
  RuntimeError when the numbers of entries differ. (\<^verbatim>\<open>view\<close> also refuses some tensors
  that are not contiguous in memory; the code applies it to the fresh output of a linear
  layer only, and memory layout is not part of this model.)
\<close>

fun ravel :: "nat list \<Rightarrow> nat list \<Rightarrow> nat" where
  "ravel (n # s) (i # idx) = i * prod_list s + ravel s idx"
| "ravel _ _ = 0"

fun unravel :: "nat list \<Rightarrow> nat \<Rightarrow> nat list" where
  "unravel [] k = []"
| "unravel (n # s) k = (k div prod_list s) # unravel s (k mod prod_list s)"

definition reshape :: "'a tensor \<Rightarrow> nat list \<Rightarrow> error + 'a tensor" where
  "reshape x s =
     (if prod_list s = prod_list (shape x)
      then Inr \<lparr>shape = s, elem = (\<lambda>idx. elem x (unravel (shape x) (ravel s idx)))\<rparr>
      else Inl RuntimeError)"

definition view :: "'a tensor \<Rightarrow> nat list \<Rightarrow> error + 'a tensor" where
  "view = reshape"

text \<open>\<^verbatim>\<open>t.transpose(d0, d1)\<close> swaps two axes. Every use names two axes of a 4-dimensional
  tensor, where the library cannot fail.\<close>

definition swap_axes :: "nat \<Rightarrow> nat \<Rightarrow> 'b list \<Rightarrow> 'b list" where
  "swap_axes d0 d1 xs = xs[d0 := xs ! d1, d1 := xs ! d0]"

definition transpose_dims :: "nat \<Rightarrow> nat \<Rightarrow> 'a tensor \<Rightarrow> 'a tensor" where
  "transpose_dims d0 d1 x =
     \<lparr>shape = swap_axes d0 d1 (shape x), elem = (\<lambda>idx. elem x (swap_axes d0 d1 idx))\<rparr>"

text \<open>
  \<^verbatim>\<open>a @ b\<close> for operands of rank at least 2: the matrix product over the last two axes,
  with the leading (batch) axes broadcast. Operands of lower rank, which the library
  treats as vectors, never reach a product in this code (both operands are
  4-dimensional) and are not covered: the model reports them as a RuntimeError.
\<close>

definition matmul :: "real tensor \<Rightarrow> real tensor \<Rightarrow> error + real tensor" where
  "matmul a b =
     (let sa = shape a; sb = shape b in
      if length sa < 2 \<or> length sb < 2 then Inl RuntimeError
      else if last sa \<noteq> sb ! (length sb - 2) then Inl RuntimeError
      else
        then_do (broadcast_shapes (take (length sa - 2) sa) (take (length sb - 2) sb)) (\<lambda>batch.
        Inr \<lparr>shape = batch @ [sa ! (length sa - 2), last sb],
             elem = (\<lambda>idx.
               let bi = take (length idx - 2) idx;
                   i = idx ! (length idx - 2);
                   j = last idx
               in \<Sum>k\<leftarrow>[0..<last sa].
                    elem a (bindex (take (length sa - 2) sa) bi @ [i, k])
                    * elem b (bindex (take (length sb - 2) sb) bi @ [k, j]))\<rparr>))"

text \<open>
  Attention scores are floating-point numbers that may be \<^verbatim>\<open>-torch.inf\<close>: a real number
  or \<open>NegInf\<close>. Dividing \<open>NegInf\<close> by the (non-negative) scale leaves it, and its exponential
  is 0.
\<close>

datatype xreal = Finite real | NegInf

fun xdiv :: "xreal \<Rightarrow> real \<Rightarrow> xreal" where
  "xdiv (Finite r) c = Finite (r / c)"
| "xdiv NegInf c = NegInf"

fun xexp :: "xreal \<Rightarrow> real" where
  "xexp (Finite r) = exp r"
| "xexp NegInf = 0"

text \<open>\<^verbatim>\<open>t.masked_fill_(mask, v)\<close> writes \<open>v\<close> where the mask, broadcast to the shape of \<open>t\<close>,
  is true. The operation is in place: the mask must broadcast to the shape of \<open>t\<close> itself.\<close>

definition masked_fill :: "'a tensor \<Rightarrow> bool tensor \<Rightarrow> 'a \<Rightarrow> error + 'a tensor" where
  "masked_fill x m v =
     then_do (broadcast_shapes (shape x) (shape m)) (\<lambda>s.
       if s \<noteq> shape x then Inl RuntimeError
       else Inr \<lparr>shape = shape x,
                 elem = (\<lambda>idx. if elem m (bindex (shape m) idx) then v else elem x idx)\<rparr>)"

text \<open>\<^verbatim>\<open>torch.softmax(t, dim=-1)\<close>.\<close>

definition softmax :: "xreal tensor \<Rightarrow> real tensor" where
  "softmax x =
     \<lparr>shape = shape x,
      elem = (\<lambda>idx. xexp (elem x idx)
                     / (\<Sum>k\<leftarrow>[0..<last (shape x)]. xexp (elem x (butlast idx @ [k]))))\<rparr>"

subsection \<open>The module\<close>

text \<open>
  \<^verbatim>\<open>
  class MultiHeadedAttention(nn.Module):
      def __init__(self, d_in, d_out, context_length, num_heads, dtype=None):
          super().__init__()
          assert d_out % num_heads == 0, "The output dimension (d_out) mus be divisible by n_heads"
          self.d_out = d_out
          self.num_heads = num_heads
          self.head_dim = d_out // num_heads
          self.W_query = nn.Linear(d_in, d_out, bias=False, dtype=dtype)
          self.W_key = nn.Linear(d_in, d_out, bias=False, dtype=dtype)
          self.W_value = nn.Linear(d_in, d_out, bias=False, dtype=dtype)
          self.out_proj = nn.Linear(d_out, d_out, bias=False, dtype=dtype)
          self.register_buffer("mask", torch.triu(torch.ones(context_length, context_length), diagonal=1))
          cos, sin = precompute_rope_params(head_dim=self.head_dim, context_length=context_length)
          self.register_buffer("cos", cos)
          self.register_buffer("sin", sin)
  \<close>
  The dimensions are natural numbers. The remainder \<^verbatim>\<open>d_out % num_heads\<close> raises a
  ZeroDivisionError when \<open>num_heads\<close> is 0. The four weight matrices the constructor draws
  are its last four arguments. \<open>precompute_rope_params\<close> is called with its default
  \<^verbatim>\<open>theta_base=10_000\<close>.
\<close>

record MultiHeadedAttention =
  d_out :: nat
  num_heads :: nat
  head_dim :: nat
  W_query :: Linear
  W_key :: Linear
  W_value :: Linear
  out_proj :: Linear
  mask :: "real tensor"
  rope_cos :: "real tensor"
  rope_sin :: "real tensor"

definition MultiHeadedAttention_init ::
  "nat \<Rightarrow> nat \<Rightarrow> nat \<Rightarrow> nat \<Rightarrow> (nat \<Rightarrow> nat \<Rightarrow> real) \<Rightarrow> (nat \<Rightarrow> nat \<Rightarrow> real) \<Rightarrow>
   (nat \<Rightarrow> nat \<Rightarrow> real) \<Rightarrow> (nat \<Rightarrow> nat \<Rightarrow> real) \<Rightarrow> error + MultiHeadedAttention" where
  "MultiHeadedAttention_init d_in d_out' context_length' num_heads' wq wk wv wo =
     (if num_heads' = 0 then Inl ZeroDivisionError
      else if d_out' mod num_heads' \<noteq> 0 then Inl AssertionError
      else
        then_do (precompute_rope_params (d_out' div num_heads') 10000 context_length') (\<lambda>(c, s).
        Inr \<lparr>d_out = d_out',
             num_heads = num_heads',
             head_dim = d_out' div num_heads',
             W_query = Linear_init d_in d_out' False wq (\<lambda>_. 0),
             W_key = Linear_init d_in d_out' False wk (\<lambda>_. 0),
             W_value = Linear_init d_in d_out' False wv (\<lambda>_. 0),
             out_proj = Linear_init d_out' d_out' False wo (\<lambda>_. 0),
             mask = triu (ones [context_length', context_length']) 1,
             rope_cos = c,
             rope_sin = s\<rparr>))"

text \<open>
  \<^verbatim>\<open>
      def forward(self, x):
          b, num_tokens, d_in = x.shape
          queries = self.W_query(x)
          keys = self.W_key(x)
          values = self.W_value(x)
          queries = queries.view(b, num_tokens, self.num_heads, self.head_dim)
          keys = keys.view(b, num_tokens, self.num_heads, self.head_dim)
          values = values.view(b, num_tokens, self.num_heads, self.head_dim)
          queries = queries.transpose(1,2)
          keys = keys.transpose(1,2)
          values = values.transpose(1,2)
          keys = compute_rope(keys, self.cos, self.sin)
          queries = compute_rope(queries, self.cos, self.sin)
          attn_scores = queries @ keys.transpose(2,3)
          mask_bool = self.mask.bool()[:num_tokens, :num_tokens]
          attn_scores.masked_fill_(mask_bool, -torch.inf)
          attn_weights = torch.softmax(attn_scores / keys.size(-1)**0.5, dim=-1)
          context_vec = (attn_weights @ values).transpose(1,2)
          context_vec = context_vec.reshape(b, num_tokens, self.d_out)
          context_vec = self.out_proj(context_vec)
          return context_vec
  \<close>
\<close>

text \<open>Over exact reals a weight 0 times any value is 0. On float32 numbers a value can be
  \<open>inf\<close>, and \<open>0 * inf\<close> is \<open>nan\<close>: \<open>MultiHeadedAttention_forward_f32\<close> is the same forward pass
  over numbers that overflow.\<close>

definition MultiHeadedAttention_forward ::
  "MultiHeadedAttention \<Rightarrow> real tensor \<Rightarrow> error + real tensor" where
  "MultiHeadedAttention_forward self x =
     (case shape x of
        [b, num_tokens, d_in] \<Rightarrow>
          then_do (Linear_forward (W_query self) x) (\<lambda>queries.
          then_do (Linear_forward (W_key self) x) (\<lambda>keys.
          then_do (Linear_forward (W_value self) x) (\<lambda>values.
          then_do (view queries [b, num_tokens, num_heads self, head_dim self]) (\<lambda>queries.
          then_do (view keys [b, num_tokens, num_heads self, head_dim self]) (\<lambda>keys.
          then_do (view values [b, num_tokens, num_heads self, head_dim self]) (\<lambda>values.
          let queries = transpose_dims 1 2 queries;
              keys = transpose_dims 1 2 keys;
              values = transpose_dims 1 2 values
          in
          then_do (compute_rope keys (rope_cos self) (rope_sin self)) (\<lambda>keys.
          then_do (compute_rope queries (rope_cos self) (rope_sin self)) (\<lambda>queries.
          then_do (matmul queries (transpose_dims 2 3 keys)) (\<lambda>attn_scores.
          then_do (rows_to num_tokens (tmap (\<lambda>v. v \<noteq> 0) (mask self))) (\<lambda>mask_rows.
          then_do (slice_to 1 num_tokens mask_rows) (\<lambda>mask_bool.
          then_do (masked_fill (tmap Finite attn_scores) mask_bool NegInf) (\<lambda>attn_scores.
          let attn_weights =
                softmax (tmap (\<lambda>v. xdiv v (sqrt (real (last (shape keys))))) attn_scores)
          in
          then_do (matmul attn_weights values) (\<lambda>context_vec.
          let context_vec = transpose_dims 1 2 context_vec in
          then_do (reshape context_vec [b, num_tokens, d_out self]) (\<lambda>context_vec.
          Linear_forward (out_proj self) context_vec))))))))))))))
      | _ \<Rightarrow> Inl ValueError)"

subsection \<open>The forward pass as the specification words it\<close>

text \<open>
  The rotation of a vector \<open>v\<close> of length \<open>head_dim\<close> at sequence position \<open>m\<close>: the pair of
  components \<open>j\<close> and \<open>j + head_dim/2\<close> is rotated by \<open>rope_angle head_dim theta_base m j\<close>.
\<close>

definition rope_rotate :: "nat \<Rightarrow> real \<Rightarrow> nat \<Rightarrow> (nat \<Rightarrow> real) \<Rightarrow> nat \<Rightarrow> real" where
  "rope_rotate n theta_base m v j =
     (if j < n div 2
      then v j * cos (rope_angle n theta_base m j)
           - v (j + n div 2) * sin (rope_angle n theta_base m j)
      else v j * cos (rope_angle n theta_base m (j - n div 2))
           + v (j - n div 2) * sin (rope_angle n theta_base m (j - n div 2)))"

text \<open>Component \<open>j\<close> of the slice for head \<open>a\<close> of a projection of token \<open>t\<close> in batch entry
  \<open>i\<close>: the projected vector is cut into \<open>num_heads\<close> slices of size \<open>head_dim\<close>.\<close>

definition head_slice :: "Linear \<Rightarrow> nat \<Rightarrow> real tensor \<Rightarrow> nat \<Rightarrow> nat \<Rightarrow> nat \<Rightarrow> nat \<Rightarrow> real" where
  "head_slice l n x i t a j = affine l (\<lambda>k. elem x [i, t, k]) (a * n + j)"

text \<open>The score of query position \<open>t\<close> against key position \<open>u\<close> in head \<open>a\<close>: the dot product
  of the rotated query and key divided by \<open>sqrt head_dim\<close>, and \<open>-inf\<close> where the key position
  is after the query position.\<close>

definition attn_score :: "MultiHeadedAttention \<Rightarrow> real tensor \<Rightarrow> nat \<Rightarrow> nat \<Rightarrow> nat \<Rightarrow> nat \<Rightarrow> xreal" where
  "attn_score self x i a t u =
     (if t < u then NegInf
      else Finite
        ((\<Sum>j\<leftarrow>[0..<head_dim self].
            rope_rotate (head_dim self) 10000 t (head_slice (W_query self) (head_dim self) x i t a) j
            * rope_rotate (head_dim self) 10000 u (head_slice (W_key self) (head_dim self) x i u a) j)
         / sqrt (real (head_dim self))))"

text \<open>The softmax over the \<open>n\<close> key positions.\<close>

definition attn_weight :: "MultiHeadedAttention \<Rightarrow> real tensor \<Rightarrow> nat \<Rightarrow> nat \<Rightarrow> nat \<Rightarrow> nat \<Rightarrow> nat \<Rightarrow> real" where
  "attn_weight self x n i a t u =
     xexp (attn_score self x i a t u) / (\<Sum>k\<leftarrow>[0..<n]. xexp (attn_score self x i a t k))"

text \<open>The weights times the values (which are not rotated), per head.\<close>

definition head_output :: "MultiHeadedAttention \<Rightarrow> real tensor \<Rightarrow> nat \<Rightarrow> nat \<Rightarrow> nat \<Rightarrow> nat \<Rightarrow> nat \<Rightarrow> real" where
  "head_output self x n i a t j =
     (\<Sum>u\<leftarrow>[0..<n]. attn_weight self x n i a t u
                     * head_slice (W_value self) (head_dim self) x i u a j)"

text \<open>The heads concatenated again and passed through \<open>out_proj\<close>: output component \<open>j\<close> of
  token \<open>t\<close> in batch entry \<open>i\<close>, for an input of \<open>n\<close> tokens.\<close>

definition attention_spec :: "MultiHeadedAttention \<Rightarrow> real tensor \<Rightarrow> nat \<Rightarrow> nat \<Rightarrow> nat \<Rightarrow> nat \<Rightarrow> real" where
  "attention_spec self x n i t j =
     affine (out_proj self)
       (\<lambda>c. head_output self x n i (c div head_dim self) t (c mod head_dim self)) j"

section \<open>The transformer block\<close>

text \<open>
  \<^verbatim>\<open>
  class TransformerBlock(nn.Module):
      def __init__(self, cfg):
          self.att = MultiHeadedAttention(d_in=cfg.emb_dim, d_out=cfg.emb_dim,
              context_length=cfg.context_length, num_heads=cfg.n_heads, dtype=cfg.dtype)
          self.ff = FeedForward(cfg)
          self.norm1 = RMSNorm(cfg.emb_dim)
          self.norm2 = RMSNorm(cfg.emb_dim)
      def forward(self, x):
          residual = x
          x = self.norm1(x)
          x = self.att(x)
          x = x + residual
          residual = x
          x = self.norm2(x)
          x = self.ff(x)
          x = x + residual
          return x
  \<close>
  \<open>RMSNorm\<close> is built with its default \<^verbatim>\<open>eps=1e-5\<close>.
\<close>

record TransformerBlock =
  att :: MultiHeadedAttention
  ff :: FeedForward
  norm1 :: RMSNorm
  norm2 :: RMSNorm

definition TransformerBlock_init ::
  "config \<Rightarrow> (nat \<Rightarrow> nat \<Rightarrow> real) \<Rightarrow> (nat \<Rightarrow> nat \<Rightarrow> real) \<Rightarrow> (nat \<Rightarrow> nat \<Rightarrow> real) \<Rightarrow>
   (nat \<Rightarrow> nat \<Rightarrow> real) \<Rightarrow> linear_params \<Rightarrow> linear_params \<Rightarrow> linear_params \<Rightarrow>
   error + TransformerBlock" where
  "TransformerBlock_init cfg wq wk wv wo p1 p2 p3 =
     then_do (MultiHeadedAttention_init (emb_dim cfg) (emb_dim cfg) (context_length cfg)
                (n_heads cfg) wq wk wv wo) (\<lambda>a.
     Inr \<lparr>att = a,
          ff = FeedForward_init cfg p1 p2 p3,
          norm1 = RMSNorm_init (emb_dim cfg) (1 / 100000),
          norm2 = RMSNorm_init (emb_dim cfg) (1 / 100000)\<rparr>)"

definition TransformerBlock_forward :: "TransformerBlock \<Rightarrow> real tensor \<Rightarrow> error + real tensor" where
  "TransformerBlock_forward self x =
     (let residual = x in
      then_do (RMSNorm_forward (norm1 self) x) (\<lambda>x.
      then_do (MultiHeadedAttention_forward (att self) x) (\<lambda>x.
      then_do (add x residual) (\<lambda>x.
      let residual = x in
      then_do (RMSNorm_forward (norm2 self) x) (\<lambda>x.
      then_do (FeedForward_forward (ff self) x) (\<lambda>x.
      add x residual))))))"

section \<open>The forward passes on tensors in a store\<close>

text \<open>
  In PyTorch a tensor is an object that refers to a storage. An operation such as \<^verbatim>\<open>a * b\<close>
  or \<^verbatim>\<open>a @ b\<close> writes its result to a new storage; \<^verbatim>\<open>view\<close>, \<^verbatim>\<open>transpose\<close>, \<^verbatim>\<open>unsqueeze\<close> and
  slicing return a tensor that shares the storage of their operand; and an in-place
  operation (\<^verbatim>\<open>masked_fill_\<close>) overwrites the storage of its target, which every tensor
  sharing it then sees. To decide what a forward pass changes, the forward passes are
  written a second time over an explicit store.

  A store holds the storages at the addresses below \<open>fresh\<close>. A storage holds floating
  point numbers (\<open>Floats\<close>; \<open>Scores\<close> once \<^verbatim>\<open>-inf\<close> may have been written to it) or booleans.
  A tensor object is a reference: the address of its storage, its own shape, the map
  from its indices to the indices of the storage, and the partial inverse of that map
  (the index under which an entry of the storage is seen, if it is).
\<close>

datatype cell = Floats "real tensor" | Scores "xreal tensor" | Bools "bool tensor"

record heap =
  cells :: "nat \<Rightarrow> cell"
  fresh :: nat

record tref =
  base :: nat
  view_shape :: "nat list"
  view_index :: "nat list \<Rightarrow> nat list"
  view_inverse :: "nat list \<Rightarrow> nat list option"

text \<open>A computation runs on a store and returns an error or a value, and the store it
  leaves.\<close>

type_synonym 'a prog = "heap \<Rightarrow> (error + 'a) \<times> heap"

definition ret :: "'a \<Rightarrow> 'a prog" where
  "ret v h = (Inr v, h)"

definition lift :: "error + 'a \<Rightarrow> 'a prog" where
  "lift r h = (r, h)"

definition and_then :: "'a prog \<Rightarrow> ('a \<Rightarrow> 'b prog) \<Rightarrow> 'b prog" where
  "and_then m f h = (case m h of (Inl e, h') \<Rightarrow> (Inl e, h') | (Inr v, h') \<Rightarrow> f v h')"

subsection \<open>Reading, allocating, aliasing, overwriting\<close>

text \<open>The tensor seen through a reference whose storage holds \<open>t\<close>.\<close>

definition through :: "tref \<Rightarrow> 'a tensor \<Rightarrow> 'a tensor" where
  "through r t = \<lparr>shape = view_shape r, elem = (\<lambda>idx. elem t (view_index r idx))\<rparr>"

text \<open>Reading a tensor of the wrong dtype is a RuntimeError of the library. A storage of
  floats is also read where scores are expected.\<close>

definition cell_floats :: "cell \<Rightarrow> error + real tensor" where
  "cell_floats c = (case c of Floats t \<Rightarrow> Inr t | _ \<Rightarrow> Inl RuntimeError)"

definition cell_scores :: "cell \<Rightarrow> error + xreal tensor" where
  "cell_scores c =
     (case c of Floats t \<Rightarrow> Inr (tmap Finite t) | Scores t \<Rightarrow> Inr t | Bools t \<Rightarrow> Inl RuntimeError)"

definition cell_bools :: "cell \<Rightarrow> error + bool tensor" where
  "cell_bools c = (case c of Bools t \<Rightarrow> Inr t | _ \<Rightarrow> Inl RuntimeError)"

definition load :: "(cell \<Rightarrow> error + 'a tensor) \<Rightarrow> tref \<Rightarrow> 'a tensor prog" where
  "load as r h = (then_do (as (cells h (base r))) (\<lambda>t. Inr (through r t)), h)"

text \<open>A new storage at the first free address, and the tensor object that owns it.\<close>

definition whole :: "nat \<Rightarrow> nat list \<Rightarrow> tref" where
  "whole a s = \<lparr>base = a, view_shape = s, view_index = (\<lambda>idx. idx), view_inverse = Some\<rparr>"

definition new_cell :: "cell \<Rightarrow> nat list \<Rightarrow> tref prog" where
  "new_cell c s h =
     (Inr (whole (fresh h) s), h\<lparr>cells := (cells h)(fresh h := c), fresh := Suc (fresh h)\<rparr>)"

definition new_floats :: "real tensor \<Rightarrow> tref prog" where
  "new_floats t = new_cell (Floats t) (shape t)"

definition new_scores :: "xreal tensor \<Rightarrow> tref prog" where
  "new_scores t = new_cell (Scores t) (shape t)"

definition new_bools :: "bool tensor \<Rightarrow> tref prog" where
  "new_bools t = new_cell (Bools t) (shape t)"

text \<open>An operation that reads its operands and returns a new tensor.\<close>

definition float_op1 :: "(real tensor \<Rightarrow> error + real tensor) \<Rightarrow> tref \<Rightarrow> tref prog" where
  "float_op1 f a = and_then (load cell_floats a) (\<lambda>x. and_then (lift (f x)) new_floats)"

definition float_op2 ::
  "(real tensor \<Rightarrow> real tensor \<Rightarrow> error + real tensor) \<Rightarrow> tref \<Rightarrow> tref \<Rightarrow> tref prog" where
  "float_op2 f a b =
     and_then (load cell_floats a) (\<lambda>x.
     and_then (load cell_floats b) (\<lambda>y.
     and_then (lift (f x y)) new_floats))"

text \<open>\<^verbatim>\<open>t.bool()\<close> of a float tensor, \<^verbatim>\<open>t / c\<close> and \<^verbatim>\<open>torch.softmax(t, dim=-1)\<close> of a tensor that
  may hold \<^verbatim>\<open>-inf\<close>: each returns a new tensor.\<close>

definition to_bool :: "tref \<Rightarrow> tref prog" where
  "to_bool a = and_then (load cell_floats a) (\<lambda>t. new_bools (tmap (\<lambda>v. v \<noteq> 0) t))"

definition div_scalar :: "tref \<Rightarrow> real \<Rightarrow> tref prog" where
  "div_scalar a c = and_then (load cell_scores a) (\<lambda>t. new_scores (tmap (\<lambda>v. xdiv v c) t))"

definition softmax_st :: "tref \<Rightarrow> tref prog" where
  "softmax_st a = and_then (load cell_scores a) (\<lambda>t. new_floats (softmax t))"

text \<open>A tensor object on the storage of \<open>r\<close>, with shape \<open>s\<close>, whose index \<open>idx\<close> is index
  \<open>fwd idx\<close> of \<open>r\<close>; \<open>back\<close> is the partial inverse of \<open>fwd\<close>.\<close>

definition sub_view ::
  "tref \<Rightarrow> nat list \<Rightarrow> (nat list \<Rightarrow> nat list) \<Rightarrow> (nat list \<Rightarrow> nat list option) \<Rightarrow> tref" where
  "sub_view r s fwd back =
     \<lparr>base = base r, view_shape = s,
      view_index = (\<lambda>idx. view_index r (fwd idx)),
      view_inverse = (\<lambda>i. case view_inverse r i of None \<Rightarrow> None | Some j \<Rightarrow> back j)\<rparr>"

text \<open>The storage \<open>t\<close> after the tensor \<open>v\<close> has been written through the reference \<open>r\<close>.\<close>

definition write_back :: "tref \<Rightarrow> 'a tensor \<Rightarrow> 'a tensor \<Rightarrow> 'a tensor" where
  "write_back r v t =
     \<lparr>shape = shape t,
      elem = (\<lambda>i. case view_inverse r i of None \<Rightarrow> elem t i | Some idx \<Rightarrow> elem v idx)\<rparr>"

subsection \<open>The tensor operations on references\<close>

definition slice_to_st :: "nat \<Rightarrow> nat \<Rightarrow> tref \<Rightarrow> error + tref" where
  "slice_to_st ax k r =
     (if ax < length (view_shape r)
      then Inr (sub_view r ((view_shape r)[ax := min k (view_shape r ! ax)]) (\<lambda>idx. idx)
                  (\<lambda>j. if j ! ax < k then Some j else None))
      else Inl IndexError)"

definition slice_from_st :: "nat \<Rightarrow> nat \<Rightarrow> tref \<Rightarrow> error + tref" where
  "slice_from_st ax k r =
     (if ax < length (view_shape r)
      then Inr (sub_view r ((view_shape r)[ax := view_shape r ! ax - k])
                  (\<lambda>idx. idx[ax := idx ! ax + k])
                  (\<lambda>j. if k \<le> j ! ax then Some (j[ax := j ! ax - k]) else None))
      else Inl IndexError)"

definition rows_to_st :: "nat \<Rightarrow> tref \<Rightarrow> error + tref" where
  "rows_to_st k r = (if length (view_shape r) < 2 then Inl IndexError else slice_to_st 0 k r)"

definition unsqueeze_st :: "nat \<Rightarrow> tref \<Rightarrow> tref" where
  "unsqueeze_st d r =
     sub_view r (take d (view_shape r) @ [1] @ drop d (view_shape r))
       (\<lambda>idx. take d idx @ drop (Suc d) idx)
       (\<lambda>j. Some (take d j @ [0] @ drop d j))"

definition transpose_st :: "nat \<Rightarrow> nat \<Rightarrow> tref \<Rightarrow> tref" where
  "transpose_st d0 d1 r =
     sub_view r (swap_axes d0 d1 (view_shape r)) (swap_axes d0 d1) (\<lambda>j. Some (swap_axes d0 d1 j))"

definition view_st :: "tref \<Rightarrow> nat list \<Rightarrow> error + tref" where
  "view_st r s =
     (if prod_list s = prod_list (view_shape r)
      then Inr (sub_view r s (\<lambda>idx. unravel (view_shape r) (ravel s idx))
                  (\<lambda>j. Some (unravel s (ravel (view_shape r) j))))
      else Inl RuntimeError)"

text \<open>\<^verbatim>\<open>t.masked_fill_(mask, v)\<close> computes the filled tensor and writes it back to the storage
  of \<open>t\<close>; it returns \<open>t\<close> itself.\<close>

definition masked_fill_st :: "tref \<Rightarrow> tref \<Rightarrow> xreal \<Rightarrow> tref prog" where
  "masked_fill_st r m v =
     and_then (load cell_scores r) (\<lambda>x.
     and_then (load cell_bools m) (\<lambda>mb.
     and_then (lift (masked_fill x mb v)) (\<lambda>filled h.
       (Inr r,
        h\<lparr>cells := (cells h)(base r :=
             Scores (write_back r filled
               (case cell_scores (cells h (base r)) of Inr t \<Rightarrow> t | Inl _ \<Rightarrow> filled)))\<rparr>))))"

subsection \<open>The modules and their forward passes\<close>

text \<open>A module object holds references to its parameters and buffers, and its Python
  numbers. Each forward pass follows the source statement by statement. The cast
  \<^verbatim>\<open>.to(dtype=x.dtype)\<close> returns the tensor it is applied to when the dtype is unchanged,
  as modelled; a cast that changes the dtype returns a new tensor.\<close>

record RMSNorm_obj =
  eps_of :: real
  embd_dim_of :: nat
  weight_at :: tref

definition RMSNorm_forward_st :: "RMSNorm_obj \<Rightarrow> tref \<Rightarrow> tref prog" where
  "RMSNorm_forward_st self x =
     and_then (float_op1 (\<lambda>t. Inr (tmap (\<lambda>v. v ^ 2) t)) x) (\<lambda>squares.
     and_then (float_op1 (\<lambda>t. Inr (mean_keepdim t)) squares) (\<lambda>means.
     and_then (float_op1 (\<lambda>t. Inr (tmap (\<lambda>v. v + eps_of self) t)) means) (\<lambda>shifted.
     and_then (float_op1 (\<lambda>t. Inr (tmap rsqrt t)) shifted) (\<lambda>scale.
     and_then (float_op2 mul x scale) (\<lambda>x_norm.
     and_then (float_op2 mul x_norm (weight_at self)) (\<lambda>y.
     ret y))))))"

record Linear_obj =
  in_features_of :: nat
  out_features_of :: nat
  W_at :: tref
  bias_at :: "tref option"

text \<open>The layer whose weight matrix and bias vector are the tensors \<open>w\<close> and \<open>b\<close>.\<close>

definition as_Linear :: "Linear_obj \<Rightarrow> real tensor \<Rightarrow> real tensor option \<Rightarrow> Linear" where
  "as_Linear l w b =
     \<lparr>in_features = in_features_of l, out_features = out_features_of l,
      W = (\<lambda>j k. elem w [j, k]),
      bias = (case b of None \<Rightarrow> None | Some t \<Rightarrow> Some (\<lambda>j. elem t [j]))\<rparr>"

definition Linear_forward_st :: "Linear_obj \<Rightarrow> tref \<Rightarrow> tref prog" where
  "Linear_forward_st l x =
     and_then (load cell_floats (W_at l)) (\<lambda>w.
     and_then (case bias_at l of
                 None \<Rightarrow> ret None
               | Some r \<Rightarrow> and_then (load cell_floats r) (\<lambda>b. ret (Some b))) (\<lambda>b.
     float_op1 (Linear_forward (as_Linear l w b)) x))"

record FeedForward_obj =
  fc1_of :: Linear_obj
  fc2_of :: Linear_obj
  fc3_of :: Linear_obj

definition FeedForward_forward_st :: "FeedForward_obj \<Rightarrow> tref \<Rightarrow> tref prog" where
  "FeedForward_forward_st self x =
     and_then (Linear_forward_st (fc1_of self) x) (\<lambda>x_fc1.
     and_then (Linear_forward_st (fc2_of self) x) (\<lambda>x_fc2.
     and_then (float_op1 (\<lambda>t. Inr (tmap SiLU t)) x_fc1) (\<lambda>gate.
     and_then (float_op2 mul gate x_fc2) (\<lambda>x.
     Linear_forward_st (fc3_of self) x))))"

definition compute_rope_st :: "tref \<Rightarrow> tref \<Rightarrow> tref \<Rightarrow> tref prog" where
  "compute_rope_st x cos_t sin_t =
     (case view_shape x of
        [batch_size, num_heads', seq_len, head_dim'] \<Rightarrow>
          if head_dim' mod 2 \<noteq> 0 then lift (Inl AssertionError)
          else
            and_then (lift (slice_to_st 3 (head_dim' div 2) x)) (\<lambda>x1.
            and_then (lift (slice_from_st 3 (head_dim' div 2) x)) (\<lambda>x2.
            and_then (float_op1 (\<lambda>t. Inr (tmap uminus t)) x2) (\<lambda>minus_x2.
            and_then (float_op2 cat_last minus_x2 x1) (\<lambda>rotated.
            and_then (lift (rows_to_st seq_len cos_t)) (\<lambda>c.
            and_then (lift (rows_to_st seq_len sin_t)) (\<lambda>s.
            and_then (float_op2 mul x (unsqueeze_st 0 (unsqueeze_st 0 c))) (\<lambda>xc.
            and_then (float_op2 mul rotated (unsqueeze_st 0 (unsqueeze_st 0 s))) (\<lambda>rs.
            and_then (float_op2 add xc rs) (\<lambda>x_rotated.
            ret x_rotated)))))))))
      | _ \<Rightarrow> lift (Inl ValueError))"

record MultiHeadedAttention_obj =
  d_out_of :: nat
  num_heads_of :: nat
  head_dim_of :: nat
  W_query_of :: Linear_obj
  W_key_of :: Linear_obj
  W_value_of :: Linear_obj
  out_proj_of :: Linear_obj
  mask_at :: tref
  cos_at :: tref
  sin_at :: tref

text \<open>In the attention module \<^verbatim>\<open>view\<close> and \<^verbatim>\<open>transpose\<close> return tensors on the storage of
  their operand, \<^verbatim>\<open>self.mask.bool()\<close> returns a new tensor of which the slice
  \<^verbatim>\<open>[:num_tokens, :num_tokens]\<close> is a view, and \<^verbatim>\<open>attn_scores.masked_fill_\<close> overwrites the
  storage that \<^verbatim>\<open>queries @ keys.transpose(2, 3)\<close> allocated. \<^verbatim>\<open>reshape\<close> of the transposed
  context vectors is modelled as a copy: PyTorch returns a view instead when the strides
  allow it, which is a view of the storage that \<^verbatim>\<open>attn_weights @ values\<close> allocated in the
  same call. Storages are never freed.\<close>

definition MultiHeadedAttention_forward_st :: "MultiHeadedAttention_obj \<Rightarrow> tref \<Rightarrow> tref prog" where
  "MultiHeadedAttention_forward_st self x =
     (case view_shape x of
        [b, num_tokens, d_in] \<Rightarrow>
          and_then (Linear_forward_st (W_query_of self) x) (\<lambda>queries.
          and_then (Linear_forward_st (W_key_of self) x) (\<lambda>keys.
          and_then (Linear_forward_st (W_value_of self) x) (\<lambda>values.
          and_then (lift (view_st queries [b, num_tokens, num_heads_of self, head_dim_of self])) (\<lambda>queries.
          and_then (lift (view_st keys [b, num_tokens, num_heads_of self, head_dim_of self])) (\<lambda>keys.
          and_then (lift (view_st values [b, num_tokens, num_heads_of self, head_dim_of self])) (\<lambda>values.
          and_then (ret (transpose_st 1 2 queries)) (\<lambda>queries.
          and_then (ret (transpose_st 1 2 keys)) (\<lambda>keys.
          and_then (ret (transpose_st 1 2 values)) (\<lambda>values.
          and_then (compute_rope_st keys (cos_at self) (sin_at self)) (\<lambda>keys.
          and_then (compute_rope_st queries (cos_at self) (sin_at self)) (\<lambda>queries.
          and_then (float_op2 matmul queries (transpose_st 2 3 keys)) (\<lambda>attn_scores.
          and_then (to_bool (mask_at self)) (\<lambda>mask_as_bool.
          and_then (lift (rows_to_st num_tokens mask_as_bool)) (\<lambda>mask_rows.
          and_then (lift (slice_to_st 1 num_tokens mask_rows)) (\<lambda>mask_bool.
          and_then (masked_fill_st attn_scores mask_bool NegInf) (\<lambda>_.
          and_then (div_scalar attn_scores (sqrt (real (last (view_shape keys))))) (\<lambda>scaled.
          and_then (softmax_st scaled) (\<lambda>attn_weights.
          and_then (float_op2 matmul attn_weights values) (\<lambda>context_vec.
          and_then (ret (transpose_st 1 2 context_vec)) (\<lambda>context_vec.
          and_then (float_op1 (\<lambda>t. reshape t [b, num_tokens, d_out_of self]) context_vec) (\<lambda>context_vec.
          and_then (Linear_forward_st (out_proj_of self) context_vec) (\<lambda>context_vec.
          ret context_vec))))))))))))))))))))))
      | _ \<Rightarrow> lift (Inl ValueError))"

record TransformerBlock_obj =
  att_of :: MultiHeadedAttention_obj
  ff_of :: FeedForward_obj
  norm1_of :: RMSNorm_obj
  norm2_of :: RMSNorm_obj

definition TransformerBlock_forward_st :: "TransformerBlock_obj \<Rightarrow> tref \<Rightarrow> tref prog" where
  "TransformerBlock_forward_st self x =
     and_then (ret x) (\<lambda>residual.
     and_then (RMSNorm_forward_st (norm1_of self) x) (\<lambda>x.
     and_then (MultiHeadedAttention_forward_st (att_of self) x) (\<lambda>x.
     and_then (float_op2 add x residual) (\<lambda>x.
     and_then (ret x) (\<lambda>residual.
     and_then (RMSNorm_forward_st (norm2_of self) x) (\<lambda>x.
     and_then (FeedForward_forward_st (ff_of self) x) (\<lambda>x.
     and_then (float_op2 add x residual) (\<lambda>x.
     ret x))))))))"

subsection \<open>What a call leaves behind\<close>

text \<open>The reference \<open>r\<close> is allocated in the store \<open>h\<close> and the tensor read through it is
  \<open>t\<close>.\<close>

definition holds :: "(cell \<Rightarrow> error + 'a tensor) \<Rightarrow> heap \<Rightarrow> tref \<Rightarrow> 'a tensor \<Rightarrow> bool" where
  "holds as h r t \<longleftrightarrow> base r < fresh h \<and> fst (load as r h) = Inr t"

text \<open>Every storage allocated in \<open>h\<close> is allocated in \<open>h'\<close> with the same content.\<close>

definition unchanged :: "heap \<Rightarrow> heap \<Rightarrow> bool" where
  "unchanged h h' \<longleftrightarrow> fresh h \<le> fresh h' \<and> (\<forall>a<fresh h. cells h' a = cells h a)"

text \<open>The output of a call: the error, or the tensor read through the returned reference
  in the store the call leaves.\<close>

definition outcome :: "(error + tref) \<times> heap \<Rightarrow> error + real tensor" where
  "outcome p = (case p of (Inl e, h) \<Rightarrow> Inl e | (Inr r, h) \<Rightarrow> fst (load cell_floats r h))"

text \<open>Running \<open>m\<close> on \<open>h\<close> leaves all that is allocated in \<open>h\<close> unchanged, and running it a
  second time, on the store the first run leaves, returns an equal output.\<close>

definition pure_call :: "heap \<Rightarrow> tref prog \<Rightarrow> bool" where
  "pure_call h m \<longleftrightarrow> unchanged h (snd (m h)) \<and> outcome (m (snd (m h))) = outcome (m h)"

text \<open>The reference \<open>r\<close> owns a storage that was allocated after \<open>h\<close>, holds \<open>t\<close> in \<open>h'\<close>,
  and all that is allocated in \<open>h\<close> is unchanged in \<open>h'\<close>.\<close>

definition fresh_result ::
  "(cell \<Rightarrow> error + 'a tensor) \<Rightarrow> heap \<Rightarrow> heap \<Rightarrow> tref \<Rightarrow> 'a tensor \<Rightarrow> bool" where
  "fresh_result as h h' r t \<longleftrightarrow>
     unchanged h h' \<and> fresh h \<le> base r \<and> base r < fresh h' \<and>
     r = whole (base r) (shape t) \<and> as (cells h' (base r)) = Inr t"

text \<open>Running \<open>m\<close> on \<open>h\<close> raises the error \<open>v\<close>, or returns a tensor \<open>v\<close> in a storage of its
  own; either way all that is allocated in \<open>h0\<close> is left unchanged.\<close>

definition finishes ::
  "(cell \<Rightarrow> error + 'a tensor) \<Rightarrow> heap \<Rightarrow> heap \<Rightarrow> tref prog \<Rightarrow> error + 'a tensor \<Rightarrow> bool" where
  "finishes as h0 h m v \<longleftrightarrow>
     (case m h of
        (Inl e, h') \<Rightarrow> unchanged h0 h' \<and> v = Inl e
      | (Inr r, h') \<Rightarrow> (\<exists>t. v = Inr t \<and> fresh_result as h0 h' r t))"

definition computes :: "heap \<Rightarrow> tref prog \<Rightarrow> error + real tensor \<Rightarrow> bool" where
  "computes h m v \<longleftrightarrow> finishes cell_floats h h m v"

text \<open>The store holds the parameters and buffers of a module.\<close>

definition RMSNorm_in :: "heap \<Rightarrow> RMSNorm_obj \<Rightarrow> RMSNorm \<Rightarrow> bool" where
  "RMSNorm_in h obj p \<longleftrightarrow>
     eps_of obj = eps p \<and> embd_dim_of obj = embd_dim p \<and>
     holds cell_floats h (weight_at obj) (weight_tensor p)"

definition weight_matrix :: "Linear \<Rightarrow> real tensor" where
  "weight_matrix p =
     \<lparr>shape = [out_features p, in_features p], elem = (\<lambda>idx. W p (idx ! 0) (idx ! 1))\<rparr>"

definition bias_vector :: "Linear \<Rightarrow> (nat \<Rightarrow> real) \<Rightarrow> real tensor" where
  "bias_vector p b = \<lparr>shape = [out_features p], elem = (\<lambda>idx. b (idx ! 0))\<rparr>"

definition Linear_in :: "heap \<Rightarrow> Linear_obj \<Rightarrow> Linear \<Rightarrow> bool" where
  "Linear_in h obj p \<longleftrightarrow>
     in_features_of obj = in_features p \<and> out_features_of obj = out_features p \<and>
     holds cell_floats h (W_at obj) (weight_matrix p) \<and>
     (case bias p of
        None \<Rightarrow> bias_at obj = None
      | Some b \<Rightarrow> (\<exists>r. bias_at obj = Some r \<and> holds cell_floats h r (bias_vector p b)))"

definition FeedForward_in :: "heap \<Rightarrow> FeedForward_obj \<Rightarrow> FeedForward \<Rightarrow> bool" where
  "FeedForward_in h obj p \<longleftrightarrow>
     Linear_in h (fc1_of obj) (fc1 p) \<and> Linear_in h (fc2_of obj) (fc2 p) \<and>
     Linear_in h (fc3_of obj) (fc3 p)"

definition MultiHeadedAttention_in ::
  "heap \<Rightarrow> MultiHeadedAttention_obj \<Rightarrow> MultiHeadedAttention \<Rightarrow> bool" where
  "MultiHeadedAttention_in h obj p \<longleftrightarrow>
     d_out_of obj = d_out p \<and> num_heads_of obj = num_heads p \<and> head_dim_of obj = head_dim p \<and>
     Linear_in h (W_query_of obj) (W_query p) \<and> Linear_in h (W_key_of obj) (W_key p) \<and>
     Linear_in h (W_value_of obj) (W_value p) \<and> Linear_in h (out_proj_of obj) (out_proj p) \<and>
     holds cell_floats h (mask_at obj) (mask p) \<and>
     holds cell_floats h (cos_at obj) (rope_cos p) \<and>
     holds cell_floats h (sin_at obj) (rope_sin p)"

definition TransformerBlock_in :: "heap \<Rightarrow> TransformerBlock_obj \<Rightarrow> TransformerBlock \<Rightarrow> bool" where
  "TransformerBlock_in h obj p \<longleftrightarrow>
     MultiHeadedAttention_in h (att_of obj) (att p) \<and> FeedForward_in h (ff_of obj) (ff p) \<and>
     RMSNorm_in h (norm1_of obj) (norm1 p) \<and> RMSNorm_in h (norm2_of obj) (norm2 p)"

section \<open>The attention module on floating-point numbers that can overflow\<close>

text \<open>
  The reals of the sections above cannot overflow. A float32 can: a result whose magnitude
  reaches \<open>2\<^sup>1\<^sup>2\<^sup>8\<close> is \<open>inf\<close> or \<open>-inf\<close>, and IEEE 754 gives \<open>inf - inf\<close>, \<open>0 * inf\<close>
  and \<open>inf / inf\<close> the value \<open>nan\<close>, which every operation hands on. Whether the output of
  the attention module at a position depends on later tokens is decided by these values,
  so the forward pass is written a second time over them. A float32 is a real number
  (\<open>Num\<close>), \<open>inf\<close>, \<open>-inf\<close> or \<open>nan\<close>. A finite result is kept exact: the rounding to 24 binary
  digits, the loss of small results to zero and the sign of zero are not modelled, and a
  result between the largest float32 and \<open>2\<^sup>1\<^sup>2\<^sup>8\<close>, which the hardware rounds either to that
  number or to \<open>inf\<close>, is kept as it is. Two entries agree when they are the same number,
  the same infinity, or both \<open>nan\<close>.
\<close>

datatype f32 = Num real | PosInf | MinusInf | NaN

definition rnd :: "real \<Rightarrow> f32" where
  "rnd r = (if 2 ^ 128 \<le> r then PosInf else if r \<le> - (2 ^ 128) then MinusInf else Num r)"

fun f32_neg :: "f32 \<Rightarrow> f32" where
  "f32_neg (Num a) = Num (- a)"
| "f32_neg PosInf = MinusInf"
| "f32_neg MinusInf = PosInf"
| "f32_neg NaN = NaN"

fun f32_add :: "f32 \<Rightarrow> f32 \<Rightarrow> f32" where
  "f32_add (Num a) (Num b) = rnd (a + b)"
| "f32_add NaN y = NaN"
| "f32_add x NaN = NaN"
| "f32_add PosInf MinusInf = NaN"
| "f32_add MinusInf PosInf = NaN"
| "f32_add PosInf y = PosInf"
| "f32_add x PosInf = PosInf"
| "f32_add MinusInf y = MinusInf"
| "f32_add x MinusInf = MinusInf"

text \<open>An infinity times a finite number: \<open>nan\<close> for zero, and the sign of the product
  otherwise.\<close>

definition scale_inf :: "f32 \<Rightarrow> real \<Rightarrow> f32" where
  "scale_inf i a = (if a = 0 then NaN else if 0 < a then i else f32_neg i)"

fun f32_mul :: "f32 \<Rightarrow> f32 \<Rightarrow> f32" where
  "f32_mul (Num a) (Num b) = rnd (a * b)"
| "f32_mul NaN y = NaN"
| "f32_mul x NaN = NaN"
| "f32_mul (Num a) y = scale_inf y a"
| "f32_mul x (Num b) = scale_inf x b"
| "f32_mul PosInf y = y"
| "f32_mul MinusInf y = f32_neg y"

text \<open>Division. A finite number divided by zero is an infinity with the sign of the
  number (zero is taken as positive), and \<open>0 / 0\<close> is \<open>nan\<close>.\<close>

fun f32_div :: "f32 \<Rightarrow> f32 \<Rightarrow> f32" where
  "f32_div (Num a) (Num b) =
     (if b = 0 then (if a = 0 then NaN else if 0 < a then PosInf else MinusInf)
      else rnd (a / b))"
| "f32_div NaN y = NaN"
| "f32_div x NaN = NaN"
| "f32_div (Num a) y = Num 0"
| "f32_div x (Num b) = (if 0 \<le> b then x else f32_neg x)"
| "f32_div x y = NaN"

fun f32_exp :: "f32 \<Rightarrow> f32" where
  "f32_exp (Num a) = rnd (exp a)"
| "f32_exp PosInf = PosInf"
| "f32_exp MinusInf = Num 0"
| "f32_exp NaN = NaN"

text \<open>The maximum of two numbers, as \<^verbatim>\<open>torch.max\<close> takes it: \<open>nan\<close> if one of them is.\<close>

fun f32_max :: "f32 \<Rightarrow> f32 \<Rightarrow> f32" where
  "f32_max (Num a) (Num b) = Num (max a b)"
| "f32_max NaN y = NaN"
| "f32_max x NaN = NaN"
| "f32_max PosInf y = PosInf"
| "f32_max x PosInf = PosInf"
| "f32_max MinusInf y = y"
| "f32_max x MinusInf = x"

text \<open>The sum of \<open>f 0, ..., f (n - 1)\<close>, added from left to right. The library does not fix
  the order in which a kernel adds; a \<open>nan\<close> among the summands makes the sum \<open>nan\<close> in
  every order.\<close>

definition f32_sum :: "(nat \<Rightarrow> f32) \<Rightarrow> nat \<Rightarrow> f32" where
  "f32_sum f n = foldl f32_add (Num 0) (map f [0..<n])"

subsection \<open>The tensor operations\<close>

text \<open>The parameters and buffers of a module are finite: they are the reals of the module
  records above.\<close>

definition affine_f32 :: "Linear \<Rightarrow> (nat \<Rightarrow> f32) \<Rightarrow> nat \<Rightarrow> f32" where
  "affine_f32 l v j =
     (let s = f32_sum (\<lambda>k. f32_mul (v k) (Num (W l j k))) (in_features l)
      in case bias l of None \<Rightarrow> s | Some b \<Rightarrow> f32_add s (Num (b j)))"

definition Linear_forward_f32 :: "Linear \<Rightarrow> f32 tensor \<Rightarrow> error + f32 tensor" where
  "Linear_forward_f32 l x =
     (if shape x = [] \<or> last (shape x) \<noteq> in_features l then Inl RuntimeError
      else Inr \<lparr>shape = butlast (shape x) @ [out_features l],
                elem = (\<lambda>idx. affine_f32 l (row x idx) (last idx))\<rparr>)"

definition mul_f32 :: "f32 tensor \<Rightarrow> f32 tensor \<Rightarrow> error + f32 tensor" where
  "mul_f32 = binop f32_mul"

definition add_f32 :: "f32 tensor \<Rightarrow> f32 tensor \<Rightarrow> error + f32 tensor" where
  "add_f32 = binop f32_add"

definition compute_rope_f32 :: "f32 tensor \<Rightarrow> real tensor \<Rightarrow> real tensor \<Rightarrow> error + f32 tensor" where
  "compute_rope_f32 x cos_t sin_t =
     (case shape x of
        [batch_size, num_heads', seq_len, head_dim'] \<Rightarrow>
          if head_dim' mod 2 \<noteq> 0 then Inl AssertionError
          else
            then_do (slice_to 3 (head_dim' div 2) x) (\<lambda>x1.
            then_do (slice_from 3 (head_dim' div 2) x) (\<lambda>x2.
            then_do (cat_last (tmap f32_neg x2) x1) (\<lambda>rotated.
            then_do (rows_to seq_len (tmap Num cos_t)) (\<lambda>c.
            then_do (rows_to seq_len (tmap Num sin_t)) (\<lambda>s.
            then_do (mul_f32 x (unsqueeze 0 (unsqueeze 0 c))) (\<lambda>xc.
            then_do (mul_f32 rotated (unsqueeze 0 (unsqueeze 0 s))) (\<lambda>rs.
            add_f32 xc rs)))))))
      | _ \<Rightarrow> Inl ValueError)"

definition matmul_f32 :: "f32 tensor \<Rightarrow> f32 tensor \<Rightarrow> error + f32 tensor" where
  "matmul_f32 a b =
     (let sa = shape a; sb = shape b in
      if length sa < 2 \<or> length sb < 2 then Inl RuntimeError
      else if last sa \<noteq> sb ! (length sb - 2) then Inl RuntimeError
      else
        then_do (broadcast_shapes (take (length sa - 2) sa) (take (length sb - 2) sb)) (\<lambda>batch.
        Inr \<lparr>shape = batch @ [sa ! (length sa - 2), last sb],
             elem = (\<lambda>idx.
               let bi = take (length idx - 2) idx;
                   i = idx ! (length idx - 2);
                   j = last idx
               in f32_sum (\<lambda>k.
                    f32_mul (elem a (bindex (take (length sa - 2) sa) bi @ [i, k]))
                            (elem b (bindex (take (length sb - 2) sb) bi @ [k, j])))
                    (last sa))\<rparr>))"

text \<open>\<^verbatim>\<open>torch.softmax(t, dim=-1)\<close> subtracts the maximum of the row before it takes the
  exponentials. \<open>softmax_row v n u\<close> is entry \<open>u\<close> of the softmax of the row
  \<open>v 0, ..., v (n - 1)\<close>.\<close>

definition softmax_row :: "(nat \<Rightarrow> f32) \<Rightarrow> nat \<Rightarrow> nat \<Rightarrow> f32" where
  "softmax_row v n u =
     (let m = foldl f32_max MinusInf (map v [0..<n]);
          e = (\<lambda>k. f32_exp (f32_add (v k) (f32_neg m)))
      in f32_div (e u) (f32_sum e n))"

definition softmax_f32 :: "f32 tensor \<Rightarrow> f32 tensor" where
  "softmax_f32 x =
     \<lparr>shape = shape x,
      elem = (\<lambda>idx. softmax_row (\<lambda>k. elem x (butlast idx @ [k])) (last (shape x)) (last idx))\<rparr>"

definition MultiHeadedAttention_forward_f32 ::
  "MultiHeadedAttention \<Rightarrow> f32 tensor \<Rightarrow> error + f32 tensor" where
  "MultiHeadedAttention_forward_f32 self x =
     (case shape x of
        [b, num_tokens, d_in] \<Rightarrow>
          then_do (Linear_forward_f32 (W_query self) x) (\<lambda>queries.
          then_do (Linear_forward_f32 (W_key self) x) (\<lambda>keys.
          then_do (Linear_forward_f32 (W_value self) x) (\<lambda>values.
          then_do (view queries [b, num_tokens, num_heads self, head_dim self]) (\<lambda>queries.
          then_do (view keys [b, num_tokens, num_heads self, head_dim self]) (\<lambda>keys.
          then_do (view values [b, num_tokens, num_heads self, head_dim self]) (\<lambda>values.
          let queries = transpose_dims 1 2 queries;
              keys = transpose_dims 1 2 keys;
              values = transpose_dims 1 2 values
          in
          then_do (compute_rope_f32 keys (rope_cos self) (rope_sin self)) (\<lambda>keys.
          then_do (compute_rope_f32 queries (rope_cos self) (rope_sin self)) (\<lambda>queries.
          then_do (matmul_f32 queries (transpose_dims 2 3 keys)) (\<lambda>attn_scores.
          then_do (rows_to num_tokens (tmap (\<lambda>v. v \<noteq> 0) (mask self))) (\<lambda>mask_rows.
          then_do (slice_to 1 num_tokens mask_rows) (\<lambda>mask_bool.
          then_do (masked_fill attn_scores mask_bool MinusInf) (\<lambda>attn_scores.
          let attn_weights =
                softmax_f32
                  (tmap (\<lambda>v. f32_div v (Num (sqrt (real (last (shape keys)))))) attn_scores)
          in
          then_do (matmul_f32 attn_weights values) (\<lambda>context_vec.
          let context_vec = transpose_dims 1 2 context_vec in
          then_do (reshape context_vec [b, num_tokens, d_out self]) (\<lambda>context_vec.
          Linear_forward_f32 (out_proj self) context_vec))))))))))))))
      | _ \<Rightarrow> Inl ValueError)"

subsection \<open>The forward pass entry by entry\<close>

text \<open>The entries of the tensors that \<open>MultiHeadedAttention_forward_f32\<close> computes, written
  as functions of the batch entry \<open>i\<close>, the head \<open>a\<close>, the positions \<open>t\<close> and \<open>u\<close> and the
  component \<open>j\<close>: the slice of a projection for one head, its rotation with the tables of
  the module, the masked and scaled score, the softmax weight, the weighted sum of the
  values, and the output projection of the concatenated heads.\<close>

definition head_slice_f32 ::
  "Linear \<Rightarrow> nat \<Rightarrow> f32 tensor \<Rightarrow> nat \<Rightarrow> nat \<Rightarrow> nat \<Rightarrow> nat \<Rightarrow> f32" where
  "head_slice_f32 l e x i t a j = affine_f32 l (\<lambda>k. elem x [i, t, k]) (a * e + j)"

definition rope_f32 ::
  "real tensor \<Rightarrow> real tensor \<Rightarrow> nat \<Rightarrow> nat \<Rightarrow> (nat \<Rightarrow> f32) \<Rightarrow> nat \<Rightarrow> f32" where
  "rope_f32 c s e t v j =
     f32_add (f32_mul (v j) (Num (elem c [t, j])))
       (f32_mul (if j < e div 2 then f32_neg (v (j + e div 2)) else v (j - e div 2))
          (Num (elem s [t, j])))"

definition attn_score_f32 ::
  "MultiHeadedAttention \<Rightarrow> f32 tensor \<Rightarrow> nat \<Rightarrow> nat \<Rightarrow> nat \<Rightarrow> nat \<Rightarrow> f32" where
  "attn_score_f32 self x i a t u =
     (if t < u then MinusInf
      else f32_div
        (f32_sum (\<lambda>j.
           f32_mul
             (rope_f32 (rope_cos self) (rope_sin self) (head_dim self) t
                (head_slice_f32 (W_query self) (head_dim self) x i t a) j)
             (rope_f32 (rope_cos self) (rope_sin self) (head_dim self) u
                (head_slice_f32 (W_key self) (head_dim self) x i u a) j))
           (head_dim self))
        (Num (sqrt (real (head_dim self)))))"

definition attn_weight_f32 ::
  "MultiHeadedAttention \<Rightarrow> f32 tensor \<Rightarrow> nat \<Rightarrow> nat \<Rightarrow> nat \<Rightarrow> nat \<Rightarrow> nat \<Rightarrow> f32" where
  "attn_weight_f32 self x n i a t u = softmax_row (\<lambda>k. attn_score_f32 self x i a t k) n u"

definition head_output_f32 ::
  "MultiHeadedAttention \<Rightarrow> f32 tensor \<Rightarrow> nat \<Rightarrow> nat \<Rightarrow> nat \<Rightarrow> nat \<Rightarrow> nat \<Rightarrow> f32" where
  "head_output_f32 self x n i a t j =
     f32_sum (\<lambda>u. f32_mul (attn_weight_f32 self x n i a t u)
                     (head_slice_f32 (W_value self) (head_dim self) x i u a j)) n"

definition attention_f32 ::
  "MultiHeadedAttention \<Rightarrow> f32 tensor \<Rightarrow> nat \<Rightarrow> nat \<Rightarrow> nat \<Rightarrow> nat \<Rightarrow> f32" where
  "attention_f32 self x n i t j =
     affine_f32 (out_proj self)
       (\<lambda>c. head_output_f32 self x n i (c div head_dim self) t (c mod head_dim self)) j"

text \<open>A float32 that is a number.\<close>

fun finite_f32 :: "f32 \<Rightarrow> bool" where
  "finite_f32 (Num a) = True"
| "finite_f32 x = False"

section \<open>Dtypes and devices\<close>

text \<open>
  A PyTorch tensor carries a dtype and a device besides its entries, and the library
  raises a RuntimeError where it does not implement an operation for the dtype of an
  operand, or where the operands are on different devices. The forward passes above
  compute on the entries. The forward passes of this section take tensors with their dtype
  and device, raise where the library does, and otherwise compute the entries as above.

  The entries are reals for every dtype: an integer or boolean tensor has integral
  entries. \<open>Integral\<close> stands for the signed integer dtypes, whose wrap-around is not
  modelled. The parameters of a module have a floating-point dtype, the \<^verbatim>\<open>dtype\<close> argument
  of the constructors (\<^verbatim>\<open>config.dtype\<close>), and are on one device.
\<close>

datatype float_dtype = Float16 | BFloat16 | Float32 | Float64

datatype dtype = Floating float_dtype | Integral | Boolean

datatype device = CPU | CUDA nat

record typed =
  dtype_of :: dtype
  device_of :: device
  entries :: "real tensor"

record placement =
  param_dtype :: float_dtype
  param_device :: device

text \<open>\<^verbatim>\<open>t.to(dtype=d)\<close> on the entries: the identity for a floating-point \<open>d\<close> (rounding is not
  modelled), truncation towards zero for an integer \<open>d\<close>, and the test for a nonzero entry
  for \<^verbatim>\<open>bool\<close>.\<close>

definition cast_to :: "dtype \<Rightarrow> real \<Rightarrow> real" where
  "cast_to d v =
     (case d of
        Floating _ \<Rightarrow> v
      | Integral \<Rightarrow> (if 0 \<le> v then of_int \<lfloor>v\<rfloor> else of_int \<lceil>v\<rceil>)
      | Boolean \<Rightarrow> (if v = 0 then 0 else 1))"

text \<open>
  \<open>RMSNorm.forward\<close>: \<^verbatim>\<open>x.pow(2).mean(dim=-1, keepdim=True)\<close> raises a RuntimeError unless
  \<open>x\<close> is a floating-point tensor; \<^verbatim>\<open>x * torch.rsqrt(means + self.eps)\<close> has operands made
  from \<open>x\<close> alone; \<^verbatim>\<open>x_norm * self.weight\<close> raises a RuntimeError unless \<open>x\<close> is on the device
  of the weight, which is a float32 tensor: the product has the wider of the two dtypes
  and is cast back to the dtype of \<open>x\<close>.
\<close>

definition RMSNorm_forward_typed :: "device \<Rightarrow> RMSNorm \<Rightarrow> typed \<Rightarrow> error + typed" where
  "RMSNorm_forward_typed dv self x =
     (case dtype_of x of
        Floating _ \<Rightarrow>
          (let means = mean_keepdim (tmap (\<lambda>v. v ^ 2) (entries x)) in
           then_do (mul (entries x) (tmap rsqrt (tmap (\<lambda>v. v + eps self) means))) (\<lambda>x_norm.
           if device_of x \<noteq> dv then Inl RuntimeError
           else
             then_do (mul x_norm (weight_tensor self)) (\<lambda>y.
             Inr (x\<lparr>entries := tmap (cast_to (dtype_of x)) y\<rparr>))))
      | _ \<Rightarrow> Inl RuntimeError)"

text \<open>\<^verbatim>\<open>nn.Linear\<close> raises a RuntimeError unless its input has the dtype of its weight and is
  on the device of its weight.\<close>

definition Linear_forward_typed :: "placement \<Rightarrow> Linear \<Rightarrow> typed \<Rightarrow> error + typed" where
  "Linear_forward_typed pl l x =
     (if dtype_of x \<noteq> Floating (param_dtype pl) \<or> device_of x \<noteq> param_device pl
      then Inl RuntimeError
      else then_do (Linear_forward l (entries x)) (\<lambda>y. Inr (x\<lparr>entries := y\<rparr>)))"

text \<open>\<open>FeedForward.forward\<close>: the outputs of \<open>fc1\<close> and \<open>fc2\<close> have the dtype and device of
  the parameters, and so has their product.\<close>

definition FeedForward_forward_typed :: "placement \<Rightarrow> FeedForward \<Rightarrow> typed \<Rightarrow> error + typed" where
  "FeedForward_forward_typed pl self x =
     then_do (Linear_forward_typed pl (fc1 self) x) (\<lambda>x_fc1.
     then_do (Linear_forward_typed pl (fc2 self) x) (\<lambda>x_fc2.
     then_do (mul (tmap SiLU (entries x_fc1)) (entries x_fc2)) (\<lambda>v.
     Linear_forward_typed pl (fc3 self) (x_fc1\<lparr>entries := v\<rparr>))))"

text \<open>
  \<open>compute_rope\<close>: the negation \<^verbatim>\<open>-x2\<close> raises a RuntimeError on a \<^verbatim>\<open>bool\<close> tensor; the
  products \<^verbatim>\<open>x * cos\<close> and \<^verbatim>\<open>rotated * sin\<close> raise a RuntimeError unless the table is on the
  device of \<open>x\<close>; the sum is cast back to the dtype of \<open>x\<close>.
\<close>

definition compute_rope_typed :: "typed \<Rightarrow> typed \<Rightarrow> typed \<Rightarrow> error + typed" where
  "compute_rope_typed x cos_t sin_t =
     (case shape (entries x) of
        [batch_size, num_heads', seq_len, head_dim'] \<Rightarrow>
          if head_dim' mod 2 \<noteq> 0 then Inl AssertionError
          else
            then_do (slice_to 3 (head_dim' div 2) (entries x)) (\<lambda>x1.
            then_do (slice_from 3 (head_dim' div 2) (entries x)) (\<lambda>x2.
            if dtype_of x = Boolean then Inl RuntimeError
            else
              then_do (cat_last (tmap uminus x2) x1) (\<lambda>rotated.
              then_do (rows_to seq_len (entries cos_t)) (\<lambda>c.
              then_do (rows_to seq_len (entries sin_t)) (\<lambda>s.
              if device_of cos_t \<noteq> device_of x then Inl RuntimeError
              else
                then_do (mul (entries x) (unsqueeze 0 (unsqueeze 0 c))) (\<lambda>xc.
                if device_of sin_t \<noteq> device_of x then Inl RuntimeError
                else
                  then_do (mul rotated (unsqueeze 0 (unsqueeze 0 s))) (\<lambda>rs.
                  then_do (add xc rs) (\<lambda>x_rotated.
                  Inr (x\<lparr>entries := tmap (cast_to (dtype_of x)) x_rotated\<rparr>)))))))))
      | _ \<Rightarrow> Inl ValueError)"

text \<open>
  \<open>MultiHeadedAttention.forward\<close>: after the shape of \<open>x\<close> is unpacked, the first statement
  applies \<open>W_query\<close> to \<open>x\<close> and raises unless \<open>x\<close> has the dtype and the device of the
  parameters. After it every tensor of the computation has that dtype and is on that
  device, the buffers \<open>mask\<close>, \<open>cos\<close> and \<open>sin\<close> included (they are on the device of the
  module; \<open>compute_rope\<close> casts its result back to the dtype of the keys and queries), and
  the remaining statements are those of \<open>MultiHeadedAttention_forward\<close>.
\<close>

definition MultiHeadedAttention_forward_typed ::
  "placement \<Rightarrow> MultiHeadedAttention \<Rightarrow> typed \<Rightarrow> error + typed" where
  "MultiHeadedAttention_forward_typed pl self x =
     (case shape (entries x) of
        [b, num_tokens, d_in] \<Rightarrow>
          then_do (Linear_forward_typed pl (W_query self) x) (\<lambda>queries.
          then_do (MultiHeadedAttention_forward self (entries x)) (\<lambda>context_vec.
          Inr (x\<lparr>entries := context_vec\<rparr>)))
      | _ \<Rightarrow> Inl ValueError)"

text \<open>\<open>TransformerBlock.forward\<close>: the sums \<^verbatim>\<open>x + residual\<close> have operands of the dtype and
  device of \<open>x\<close>.\<close>

definition TransformerBlock_forward_typed ::
  "placement \<Rightarrow> TransformerBlock \<Rightarrow> typed \<Rightarrow> error + typed" where
  "TransformerBlock_forward_typed pl self x =
     (let residual = x in
      then_do (RMSNorm_forward_typed (param_device pl) (norm1 self) x) (\<lambda>x.
      then_do (MultiHeadedAttention_forward_typed pl (att self) x) (\<lambda>x.
      then_do (add (entries x) (entries residual)) (\<lambda>v.
      let x = x\<lparr>entries := v\<rparr>; residual = x in
      then_do (RMSNorm_forward_typed (param_device pl) (norm2 self) x) (\<lambda>x.
      then_do (FeedForward_forward_typed pl (ff self) x) (\<lambda>x.
      then_do (add (entries x) (entries residual)) (\<lambda>v.
      Inr (x\<lparr>entries := v\<rparr>))))))))"

section \<open>Basic facts about the tensor operations\<close>

lemma then_do_Inr [simp]: "then_do (Inr v) f = f v"
  by (simp add: then_do_def)

lemma then_do_Inl [simp]: "then_do (Inl e) f = Inl e"
  by (simp add: then_do_def)

lemma shape_tmap [simp]: "shape (tmap f x) = shape x"
  by (simp add: tmap_def)

lemma elem_tmap [simp]: "elem (tmap f x) idx = f (elem x idx)"
  by (simp add: tmap_def)

lemma broadcast_rev_same: "broadcast_rev r r = Some r"
  by (induction r) auto

lemma broadcast_shapes_same [simp]: "broadcast_shapes s s = Inr s"
  by (simp add: broadcast_shapes_def broadcast_rev_same)

lemma in_range_length: "in_range s idx \<Longrightarrow> length idx = length s"
  by (simp add: in_range_def list_all2_lengthD)

lemma bindex_same: "in_range s idx \<Longrightarrow> bindex s idx = idx"
proof -
  assume r: "in_range s idx"
  then have "length idx = length s" by (rule in_range_length)
  then have "bindex s idx = map2 (\<lambda>n i. if n = 1 then 0 else i) s idx"
    by (simp add: bindex_def)
  also have "\<dots> = idx"
    using r unfolding in_range_def
    by (induction idx s rule: list_all2_induct) auto
  finally show ?thesis .
qed

lemma broadcast_rev_Nil2 [simp]: "broadcast_rev xs [] = Some xs"
  by (cases xs) auto

lemma broadcast_shapes_keepdim:
  "s \<noteq> [] \<Longrightarrow> broadcast_shapes s (butlast s @ [Suc 0]) = Inr s"
  by (cases s rule: rev_cases) (simp_all add: broadcast_shapes_def broadcast_rev_same)

lemma bindex_keepdim:
  assumes "in_range s idx" "s \<noteq> []"
  shows "bindex (butlast s @ [Suc 0]) idx = butlast idx @ [0]"
proof -
  obtain s' n where s: "s = s' @ [n]" using assms(2) by (cases s rule: rev_cases) auto
  have len: "length idx = length s" using assms(1) by (rule in_range_length)
  then obtain idx' i where idx: "idx = idx' @ [i]" using s by (cases idx rule: rev_cases) auto
  have r: "in_range s' idx'" using assms(1) s idx len by (simp add: in_range_def list_all2_append)
  have "bindex (s' @ [Suc 0]) (idx' @ [i]) = bindex s' idx' @ [0]"
    using len s idx by (simp add: bindex_def zip_append)
  then show ?thesis using r s idx by (simp add: bindex_same)
qed

lemma broadcast_shapes_last:
  "s \<noteq> [] \<Longrightarrow> broadcast_shapes s [last s] = Inr s"
  by (cases s rule: rev_cases) (simp_all add: broadcast_shapes_def)

lemma bindex_last:
  assumes "in_range s idx" "s \<noteq> []"
  shows "bindex [last s] idx = [last idx]"
proof -
  obtain s' n where s: "s = s' @ [n]" using assms(2) by (cases s rule: rev_cases) auto
  have len: "length idx = length s" using assms(1) by (rule in_range_length)
  then obtain idx' i where idx: "idx = idx' @ [i]" using s by (cases idx rule: rev_cases) auto
  have "i < n" using assms(1) s idx len by (simp add: in_range_def list_all2_append)
  then show ?thesis using len s idx by (auto simp add: bindex_def)
qed


section \<open>RMSNorm: the forward formula\<close>

lemma RMSNorm_forward_elem:
  assumes "shape x \<noteq> []" and "last (shape x) = embd_dim self"
  shows "\<exists>y. RMSNorm_forward self x = Inr y \<and> shape y = shape x \<and>
           (\<forall>idx. in_range (shape x) idx \<longrightarrow>
              elem y idx =
                elem x idx
                * rsqrt ((\<Sum>k\<leftarrow>[0..<embd_dim self]. (elem x (butlast idx @ [k])) ^ 2)
                           / real (embd_dim self) + eps self)
                * weight self (last idx))"
proof -
  let ?s = "shape x"
  let ?m = "mean_keepdim (tmap (\<lambda>v. v ^ 2) x)"
  obtain n s' where s: "?s = n # s'" using assms(1) by (cases "shape x") auto
  have sm: "shape ?m = butlast ?s @ [1]"
    by (simp add: mean_keepdim_def s)
  have em: "elem ?m (p @ [0]) =
      (\<Sum>k\<leftarrow>[0..<embd_dim self]. (elem x (p @ [k])) ^ 2) / real (embd_dim self)" for p
    using assms(2) by (simp add: mean_keepdim_def s)
  define xn :: "real tensor" where "xn = \<lparr>shape = ?s, elem = (\<lambda>idx. elem x (bindex ?s idx)
      * rsqrt (elem ?m (bindex (butlast ?s @ [1]) idx) + eps self))\<rparr>"
  have 1: "mul x (tmap rsqrt (tmap (\<lambda>v. v + eps self) ?m)) = Inr xn"
    using assms(1) by (simp add: mul_def binop_def sm broadcast_shapes_keepdim xn_def)
  define y :: "real tensor" where "y = \<lparr>shape = ?s, elem = (\<lambda>idx. elem xn (bindex ?s idx)
      * weight self (hd (bindex [embd_dim self] idx)))\<rparr>"
  have 2: "mul xn (weight_tensor self) = Inr y"
    using assms broadcast_shapes_last [of ?s]
    by (simp add: mul_def binop_def weight_tensor_def xn_def y_def)
  have 3: "RMSNorm_forward self x = Inr y"
    by (simp add: RMSNorm_forward_def 1 2)
  have 4: "elem y idx = elem x idx
      * rsqrt ((\<Sum>k\<leftarrow>[0..<embd_dim self]. (elem x (butlast idx @ [k])) ^ 2)
                 / real (embd_dim self) + eps self)
      * weight self (last idx)" if "in_range ?s idx" for idx
    using that assms bindex_last [of ?s idx]
    by (simp add: y_def xn_def bindex_same bindex_keepdim em)
  show ?thesis using 3 4 by (simp add: y_def)
qed


text \<open>
  Claim C4. For every input tensor \<open>x\<close> whose last axis has size \<open>embd_dim\<close>,
  \<open>RMSNorm.forward\<close> returns without error a tensor of the shape of \<open>x\<close> whose entry at
  every index is the entry of \<open>x\<close> times \<open>rsqrt\<close> of (the mean of the squares over the last
  axis of the vector the entry lies in, plus \<open>eps\<close>) times the entry of the weight vector at
  the last index component. The scale of a vector depends on that vector alone, and
  nothing is subtracted or added: there is no mean-centering and no shift term.
\<close>

theorem RMSNorm_forward_formula:
  assumes "shape x \<noteq> []" and "last (shape x) = embd_dim self"
  shows "\<exists>y. RMSNorm_forward self x = Inr y \<and> shape y = shape x \<and>
           (\<forall>idx. in_range (shape x) idx \<longrightarrow>
              elem y idx =
                elem x idx
                * rsqrt ((\<Sum>k\<leftarrow>[0..<embd_dim self]. (elem x (butlast idx @ [k])) ^ 2)
                           / real (embd_dim self) + eps self)
                * weight self (last idx))"
  using assms by (rule RMSNorm_forward_elem)

theorem RMSNorm_forward_formula_witness:
  "shape \<lparr>shape = [1, 2], elem = (\<lambda>_. 1::real)\<rparr> \<noteq> [] \<and>
   last (shape \<lparr>shape = [1, 2], elem = (\<lambda>_. 1::real)\<rparr>) = embd_dim (RMSNorm_init 2 3) \<and>
   (\<exists>y. RMSNorm_forward (RMSNorm_init 2 3) \<lparr>shape = [1, 2], elem = (\<lambda>_. 1)\<rparr> = Inr y \<and>
        shape y = [1, 2] \<and> elem y [0, 1] = 1 / 2)"
proof -
  let ?x = "\<lparr>shape = [1, 2], elem = (\<lambda>_. 1::real)\<rparr>"
  let ?n = "RMSNorm_init 2 3"
  have h1: "shape ?x \<noteq> []" by simp
  have h2: "last (shape ?x) = embd_dim ?n" by (simp add: RMSNorm_init_def)
  have r: "in_range (shape ?x) [0, 1]" by (simp add: in_range_def)
  from RMSNorm_forward_formula [OF h1 h2] obtain y where
    y: "RMSNorm_forward ?n ?x = Inr y" "shape y = shape ?x"
    "\<forall>idx. in_range (shape ?x) idx \<longrightarrow> elem y idx = elem ?x idx
       * rsqrt ((\<Sum>k\<leftarrow>[0..<embd_dim ?n]. (elem ?x (butlast idx @ [k])) ^ 2)
           / real (embd_dim ?n) + eps ?n) * weight ?n (last idx)"
    by blast
  from y(3) r have "elem y [0, 1] = 1 / 2"
    by (simp add: RMSNorm_init_def rsqrt_def upt_conv_Cons in_range_def
        real_sqrt_abs [of 2, simplified])
  with h1 h2 y(1,2) show ?thesis by simp
qed

section \<open>Further facts about indices and linear layers\<close>

lemma sum_list_upt_cong:
  "(\<And>k. k < n \<Longrightarrow> f k = g k) \<Longrightarrow> (\<Sum>k\<leftarrow>[0..<n]. f k) = (\<Sum>k\<leftarrow>[0..<n]. (g k :: real))"
  by (rule arg_cong [where f = sum_list]) simp

lemma affine_cong:
  "(\<And>k. k < in_features l \<Longrightarrow> v k = v' k) \<Longrightarrow> affine l v j = affine l v' j"
  unfolding affine_def by (simp cong: sum_list_upt_cong)

lemma in_range_snoc [simp]: "in_range (s @ [n]) (p @ [i]) \<longleftrightarrow> in_range s p \<and> i < n"
proof -
  have "list_all2 (<) (p @ [i]) (s @ [n]) = list_all2 (<) (rev (p @ [i])) (rev (s @ [n]))"
    by (simp only: list_all2_rev)
  also have "\<dots> = (list_all2 (<) p s \<and> i < n)"
    by auto
  finally show ?thesis by (simp add: in_range_def)
qed


lemma in_range_snocD:
  assumes "in_range (s @ [n]) idx"
  shows "idx = butlast idx @ [last idx]" "in_range s (butlast idx)" "last idx < n"
proof -
  have "length idx = Suc (length s)" using in_range_length [OF assms] by simp
  then have "idx \<noteq> []" by auto
  then show 1: "idx = butlast idx @ [last idx]" by simp
  from assms have "in_range (s @ [n]) (butlast idx @ [last idx])" using 1 by simp
  then show "in_range s (butlast idx)" "last idx < n" by simp_all
qed

lemma Linear_forward_ok:
  "shape x \<noteq> [] \<Longrightarrow> last (shape x) = in_features l \<Longrightarrow>
   Linear_forward l x = Inr \<lparr>shape = butlast (shape x) @ [out_features l],
                elem = (\<lambda>idx. affine l (row x idx) (last idx))\<rparr>"
  by (simp add: Linear_forward_def)

section \<open>The feed-forward block acts on each token alone\<close>

lemma FeedForward_forward_elem:
  assumes "shape x \<noteq> []" and "last (shape x) = emb_dim cfg"
  shows "\<exists>y. FeedForward_forward (FeedForward_init cfg p1 p2 p3) x = Inr y \<and>
           shape y = butlast (shape x) @ [emb_dim cfg] \<and>
           (\<forall>idx. in_range (shape y) idx \<longrightarrow>
              elem y idx =
                affine (fc3 (FeedForward_init cfg p1 p2 p3))
                  (\<lambda>j. SiLU (affine (fc1 (FeedForward_init cfg p1 p2 p3)) (row x idx) j)
                        * affine (fc2 (FeedForward_init cfg p1 p2 p3)) (row x idx) j)
                  (last idx))"
proof -
  let ?ff = "FeedForward_init cfg p1 p2 p3"
  let ?p = "butlast (shape x)"
  have dims: "in_features (fc1 ?ff) = emb_dim cfg" "in_features (fc2 ?ff) = emb_dim cfg"
    "in_features (fc3 ?ff) = hidden_dim cfg" "out_features (fc1 ?ff) = hidden_dim cfg"
    "out_features (fc2 ?ff) = hidden_dim cfg" "out_features (fc3 ?ff) = emb_dim cfg"
    by (simp_all add: FeedForward_init_def Linear_init_def)
  define a where "a = \<lparr>shape = ?p @ [hidden_dim cfg],
                elem = (\<lambda>idx. affine (fc1 ?ff) (row x idx) (last idx))\<rparr>"
  define b where "b = \<lparr>shape = ?p @ [hidden_dim cfg],
                elem = (\<lambda>idx. affine (fc2 ?ff) (row x idx) (last idx))\<rparr>"
  define h where "h = \<lparr>shape = ?p @ [hidden_dim cfg],
     elem = (\<lambda>idx. SiLU (elem a (bindex (?p @ [hidden_dim cfg]) idx))
                    * elem b (bindex (?p @ [hidden_dim cfg]) idx))\<rparr>"
  define y where "y = \<lparr>shape = ?p @ [emb_dim cfg],
                elem = (\<lambda>idx. affine (fc3 ?ff) (row h idx) (last idx))\<rparr>"
  have 1: "Linear_forward (fc1 ?ff) x = Inr a"
    using assms by (simp add: Linear_forward_ok dims a_def)
  have 2: "Linear_forward (fc2 ?ff) x = Inr b"
    using assms by (simp add: Linear_forward_ok dims b_def)
  have 3: "mul (tmap SiLU a) b = Inr h"
    by (simp add: mul_def binop_def a_def b_def h_def)
  have 4: "Linear_forward (fc3 ?ff) h = Inr y"
    by (simp add: Linear_forward_ok dims h_def y_def)
  have 5: "FeedForward_forward ?ff x = Inr y"
    by (simp add: FeedForward_forward_def 1 2 3 4)
  have 6: "elem y idx = affine (fc3 ?ff)
                  (\<lambda>j. SiLU (affine (fc1 ?ff) (row x idx) j) * affine (fc2 ?ff) (row x idx) j)
                  (last idx)" if r: "in_range (?p @ [emb_dim cfg]) idx" for idx
  proof -
    have rp: "in_range ?p (butlast idx)" using in_range_snocD(2) [OF r] .
    have "row h idx j = SiLU (affine (fc1 ?ff) (row x idx) j) * affine (fc2 ?ff) (row x idx) j"
      if "j < in_features (fc3 ?ff)" for j
    proof -
      have ir: "in_range (?p @ [hidden_dim cfg]) (butlast idx @ [j])"
        using rp that by (simp add: dims)
      have rx: "row x (butlast idx @ [j]) = row x idx"
        by (rule ext) (simp add: row_def)
      have "row h idx j = elem h (butlast idx @ [j])"
        by (simp add: row_def)
      also have "\<dots> = SiLU (elem a (butlast idx @ [j])) * elem b (butlast idx @ [j])"
        using ir by (simp add: h_def bindex_same)
      also have "\<dots> = SiLU (affine (fc1 ?ff) (row x idx) j) * affine (fc2 ?ff) (row x idx) j"
        by (simp add: a_def b_def rx)
      finally show ?thesis .
    qed
    then have "affine (fc3 ?ff) (row h idx) (last idx) = affine (fc3 ?ff)
                  (\<lambda>j. SiLU (affine (fc1 ?ff) (row x idx) j) * affine (fc2 ?ff) (row x idx) j)
                  (last idx)"
      by (rule affine_cong)
    then show ?thesis by (simp add: y_def)
  qed
  show ?thesis using 5 6 by (simp add: y_def)
qed

text \<open>
  Claim C5. For every input tensor \<open>x\<close> whose last axis has size \<open>emb_dim\<close>,
  \<open>FeedForward.forward\<close> returns without error; its entry at an index is component
  \<open>last idx\<close> of \<open>fc3 (SiLU (fc1 v) * fc2 v)\<close> for the token vector \<open>v\<close> of \<open>x\<close> the index lies
  in, where \<open>SiLU z = z * sigmoid z\<close>. That value depends on the \<open>emb_dim\<close> components of \<open>v\<close>
  only, so the output at a position depends on the input at that position alone. \<open>fc1\<close> and
  \<open>fc2\<close> map \<open>emb_dim\<close> to \<open>hidden_dim\<close>, and \<open>fc3\<close> maps \<open>hidden_dim\<close> back to \<open>emb_dim\<close>.
\<close>

theorem FeedForward_forward_formula:
  assumes "shape x \<noteq> []" and "last (shape x) = emb_dim cfg"
  shows "\<exists>y. FeedForward_forward (FeedForward_init cfg p1 p2 p3) x = Inr y \<and>
           shape y = butlast (shape x) @ [emb_dim cfg] \<and>
           (\<forall>idx. in_range (shape y) idx \<longrightarrow>
              elem y idx = FeedForward_token (FeedForward_init cfg p1 p2 p3) (row x idx) (last idx)) \<and>
           (\<forall>v v' j. (\<forall>k<emb_dim cfg. v k = v' k) \<longrightarrow>
              FeedForward_token (FeedForward_init cfg p1 p2 p3) v j
              = FeedForward_token (FeedForward_init cfg p1 p2 p3) v' j) \<and>
           in_features (fc1 (FeedForward_init cfg p1 p2 p3)) = emb_dim cfg \<and>
           out_features (fc1 (FeedForward_init cfg p1 p2 p3)) = hidden_dim cfg \<and>
           in_features (fc2 (FeedForward_init cfg p1 p2 p3)) = emb_dim cfg \<and>
           out_features (fc2 (FeedForward_init cfg p1 p2 p3)) = hidden_dim cfg \<and>
           in_features (fc3 (FeedForward_init cfg p1 p2 p3)) = hidden_dim cfg \<and>
           out_features (fc3 (FeedForward_init cfg p1 p2 p3)) = emb_dim cfg"
proof -
  let ?ff = "FeedForward_init cfg p1 p2 p3"
  have dims: "in_features (fc1 ?ff) = emb_dim cfg" "in_features (fc2 ?ff) = emb_dim cfg"
    "in_features (fc3 ?ff) = hidden_dim cfg" "out_features (fc1 ?ff) = hidden_dim cfg"
    "out_features (fc2 ?ff) = hidden_dim cfg" "out_features (fc3 ?ff) = emb_dim cfg"
    by (simp_all add: FeedForward_init_def Linear_init_def)
  have indep: "FeedForward_token ?ff v j = FeedForward_token ?ff v' j"
    if "\<forall>k<emb_dim cfg. v k = v' k" for v v' j
  proof -
    have "affine (fc1 ?ff) v i = affine (fc1 ?ff) v' i" for i
      using that by (intro affine_cong) (simp add: dims)
    moreover have "affine (fc2 ?ff) v i = affine (fc2 ?ff) v' i" for i
      using that by (intro affine_cong) (simp add: dims)
    ultimately show ?thesis by (simp add: FeedForward_token_def)
  qed
  from FeedForward_forward_elem [OF assms, of p1 p2 p3] obtain y where
    y: "FeedForward_forward ?ff x = Inr y" "shape y = butlast (shape x) @ [emb_dim cfg]"
       "\<forall>idx. in_range (shape y) idx \<longrightarrow>
              elem y idx = FeedForward_token ?ff (row x idx) (last idx)"
    unfolding FeedForward_token_def by blast
  show ?thesis
    using y indep dims by blast
qed

theorem FeedForward_forward_formula_witness:
  "shape \<lparr>shape = [1, 2], elem = (\<lambda>_. 0::real)\<rparr> \<noteq> [] \<and>
   last (shape \<lparr>shape = [1, 2], elem = (\<lambda>_. 0::real)\<rparr>)
     = emb_dim \<lparr>vocab_size = 4, context_length = 4, emb_dim = 2, n_heads = 1,
                ff_bias = False, n_layers = 1, hidden_dim = 1\<rparr> \<and>
   (\<exists>y. FeedForward_forward
          (FeedForward_init
             \<lparr>vocab_size = 4, context_length = 4, emb_dim = 2, n_heads = 1,
              ff_bias = False, n_layers = 1, hidden_dim = 1\<rparr>
             (\<lambda>_ _. 1, \<lambda>_. 0) (\<lambda>_ _. 1, \<lambda>_. 0) (\<lambda>_ _. 1, \<lambda>_. 0))
          \<lparr>shape = [1, 2], elem = (\<lambda>_. 0)\<rparr> = Inr y \<and>
        shape y = [1, 2] \<and> elem y [0, 1] = 0)"
proof -
  let ?x = "\<lparr>shape = [1, 2], elem = (\<lambda>_. 0::real)\<rparr>"
  let ?cfg = "\<lparr>vocab_size = 4, context_length = 4, emb_dim = 2, n_heads = 1,
              ff_bias = False, n_layers = 1, hidden_dim = 1\<rparr>"
  let ?ff = "FeedForward_init ?cfg (\<lambda>_ _. 1, \<lambda>_. 0) (\<lambda>_ _. 1, \<lambda>_. 0) (\<lambda>_ _. 1, \<lambda>_. 0)"
  have h1: "shape ?x \<noteq> []" by simp
  have h2: "last (shape ?x) = emb_dim ?cfg" by simp
  from FeedForward_forward_formula [OF h1 h2, of "(\<lambda>_ _. 1, \<lambda>_. 0)" "(\<lambda>_ _. 1, \<lambda>_. 0)" "(\<lambda>_ _. 1, \<lambda>_. 0)"]
  obtain y where y: "FeedForward_forward ?ff ?x = Inr y" "shape y = butlast (shape ?x) @ [emb_dim ?cfg]"
       "\<forall>idx. in_range (shape y) idx \<longrightarrow>
              elem y idx = FeedForward_token ?ff (row ?x idx) (last idx)"
    by blast
  have r: "in_range (shape y) [0, 1]" using y(2) by (simp add: in_range_def)
  from y(3) r have "elem y [0, 1] = FeedForward_token ?ff (row ?x [0, 1]) 1" by simp
  also have "\<dots> = 0"
    by (simp add: FeedForward_token_def FeedForward_init_def Linear_init_def affine_def
        row_def SiLU_def)
  finally have "elem y [0, 1] = 0" .
  with h1 h2 y(1,2) show ?thesis by simp
qed

section \<open>Broadcasting on explicit shapes\<close>

lemma broadcast_rev_Cons_same [simp]:
  "broadcast_rev (x # xs) (x # ys) = map_option ((#) x) (broadcast_rev xs ys)"
  by simp

lemma broadcast_rev_Cons_one_right [simp]:
  "broadcast_rev (x # xs) (Suc 0 # ys) = map_option ((#) x) (broadcast_rev xs ys)"
  by simp

lemma broadcast_rev_Cons_one_left [simp]:
  "broadcast_rev (Suc 0 # xs) (y # ys) = map_option ((#) y) (broadcast_rev xs ys)"
  by auto

lemma bindex_Nil [simp]: "bindex [] [] = []"
  by (simp add: bindex_def)

lemma bindex_Cons [simp]:
  "length idx = length s \<Longrightarrow>
   bindex (n # s) (i # idx) = (if n = Suc 0 then 0 else i) # bindex s idx"
  by (simp add: bindex_def)

lemma bidx_less [simp]: "i < n \<Longrightarrow> (if n = Suc 0 then 0 else i) = i"
  by auto

section \<open>Rotary embeddings: tables and rotation\<close>

text \<open>For an even \<open>head_dim\<close>, \<open>precompute_rope_params\<close> returns two tables of shape
  \<open>[context_length, head_dim]\<close> whose two halves along the last axis repeat the same
  angles.\<close>

lemma precompute_rope_params_even:
  assumes "even d"
  shows "\<exists>c s. precompute_rope_params d \<theta> n = Inr (c, s) \<and>
           shape c = [n, d] \<and> shape s = [n, d] \<and>
           (\<forall>m j. m < n \<longrightarrow> j < d \<longrightarrow>
              elem c [m, j] = cos (real m * (1 / (\<theta> powr (real (2 * (if j < d div 2 then j else j - d div 2)) / real d)))) \<and>
              elem s [m, j] = sin (real m * (1 / (\<theta> powr (real (2 * (if j < d div 2 then j else j - d div 2)) / real d)))))"
proof -
  obtain h where d: "d = 2 * h" using assms by (auto elim: evenE)
  show ?thesis
    apply (simp add: precompute_rope_params_def arange_def slice_to_def unsqueeze_def mul_def binop_def
        broadcast_shapes_def cat_last_def d Let_def)
    apply (auto simp add: mult.commute)
    done
qed

text \<open>\<open>compute_rope\<close> with any two tables of at least \<open>seq_len\<close> rows.\<close>

lemma list_update_3 [simp]: "[a, b, c, d][3 := v] = [a, b, c, v]"
  by (simp add: eval_nat_numeral)

lemma compute_rope_elem:
  assumes x: "shape x = [b, h, n, d]" and d: "even d"
    and c: "shape c = [m, d]" and s: "shape s = [m, d]" and n: "n \<le> m"
  shows "\<exists>y. compute_rope x c s = Inr y \<and> shape y = [b, h, n, d] \<and>
           (\<forall>i a t j. i < b \<longrightarrow> a < h \<longrightarrow> t < n \<longrightarrow> j < d \<longrightarrow>
              elem y [i, a, t, j] =
                elem x [i, a, t, j] * elem c [t, j]
                + (if j < d div 2 then - elem x [i, a, t, j + d div 2]
                   else elem x [i, a, t, j - d div 2]) * elem s [t, j])"
proof -
  obtain k where k: "d = 2 * k" using d by (auto elim: evenE)
  show ?thesis
    by (simp add: compute_rope_def x c s k slice_to_def slice_from_def cat_last_def rows_to_def
        unsqueeze_def mul_def add_def binop_def broadcast_shapes_def min_absorb1 n)
qed

lemma rope_angle_inv_freq:
  "real m * (1 / (\<theta> powr (real (2 * j) / real d))) = rope_angle d \<theta> m j"
  by (simp add: rope_angle_def powr_minus_divide)

lemma compute_rope_precomputed:
  assumes x: "shape x = [b, h, n, d]" and d: "even d" and n: "n \<le> ctx"
  shows "\<exists>c s y. precompute_rope_params d \<theta> ctx = Inr (c, s) \<and>
           compute_rope x c s = Inr y \<and> shape y = [b, h, n, d] \<and>
           (\<forall>i a m j. i < b \<longrightarrow> a < h \<longrightarrow> m < n \<longrightarrow> j < d div 2 \<longrightarrow>
              elem y [i, a, m, j] =
                elem x [i, a, m, j] * cos (rope_angle d \<theta> m j)
                - elem x [i, a, m, j + d div 2] * sin (rope_angle d \<theta> m j) \<and>
              elem y [i, a, m, j + d div 2] =
                elem x [i, a, m, j + d div 2] * cos (rope_angle d \<theta> m j)
                + elem x [i, a, m, j] * sin (rope_angle d \<theta> m j))"
proof -
  obtain k where k: "d = 2 * k" using d by (auto elim: evenE)
  from precompute_rope_params_even [OF d, of \<theta> ctx] obtain c s where
    cs: "precompute_rope_params d \<theta> ctx = Inr (c, s)" "shape c = [ctx, d]" "shape s = [ctx, d]"
    and tab: "\<And>m j. m < ctx \<Longrightarrow> j < d \<Longrightarrow>
       elem c [m, j] = cos (rope_angle d \<theta> m (if j < d div 2 then j else j - d div 2)) \<and>
       elem s [m, j] = sin (rope_angle d \<theta> m (if j < d div 2 then j else j - d div 2))"
    unfolding rope_angle_inv_freq by blast
  from compute_rope_elem [OF x d cs(2) cs(3) n] obtain y where
    y: "compute_rope x c s = Inr y" "shape y = [b, h, n, d]"
    and ye: "\<And>i a t j. i < b \<Longrightarrow> a < h \<Longrightarrow> t < n \<Longrightarrow> j < d \<Longrightarrow>
       elem y [i, a, t, j] =
                elem x [i, a, t, j] * elem c [t, j]
                + (if j < d div 2 then - elem x [i, a, t, j + d div 2]
                   else elem x [i, a, t, j - d div 2]) * elem s [t, j]"
    by blast
  have "elem y [i, a, m, j] =
                elem x [i, a, m, j] * cos (rope_angle d \<theta> m j)
                - elem x [i, a, m, j + d div 2] * sin (rope_angle d \<theta> m j) \<and>
              elem y [i, a, m, j + d div 2] =
                elem x [i, a, m, j + d div 2] * cos (rope_angle d \<theta> m j)
                + elem x [i, a, m, j] * sin (rope_angle d \<theta> m j)"
    if "i < b" "a < h" "m < n" "j < d div 2" for i a m j
  proof -
    have m: "m < ctx" using that n by simp
    have j1: "j < d" and j2: "j + d div 2 < d" using that k by simp_all
    show ?thesis
      using ye [OF that(1,2,3) j1] ye [OF that(1,2,3) j2] tab [OF m j1] tab [OF m j2] that(4)
      by simp
  qed
  with cs(1) y show ?thesis by blast
qed

lemma sum_list_upt_halves:
  "(\<Sum>j\<leftarrow>[0..<k + k]. f j) = (\<Sum>j\<leftarrow>[0..<k]. f j + (f (j + k) :: real))"
proof -
  have "(\<Sum>j\<leftarrow>[0..<k + k]. f j) = (\<Sum>j = 0..<k + k. f j)"
    by (simp add: interv_sum_list_conv_sum_set_nat)
  also have "\<dots> = (\<Sum>j = 0..<k. f j) + (\<Sum>j = k..<k + k. f j)"
    by (simp add: sum.atLeastLessThan_concat)
  also have "(\<Sum>j = k..<k + k. f j) = (\<Sum>j = 0..<k. f (j + k))"
    using sum.shift_bounds_nat_ivl [of f 0 k k] by simp
  also have "(\<Sum>j = 0..<k. f j) + (\<Sum>j = 0..<k. f (j + k)) = (\<Sum>j = 0..<k. f j + f (j + k))"
    by (simp add: sum.distrib)
  also have "\<dots> = (\<Sum>j\<leftarrow>[0..<k]. f j + f (j + k))"
    by (simp add: interv_sum_list_conv_sum_set_nat)
  finally show ?thesis .
qed

lemma rotation_preserves_squares:
  "(u * cos t - v * sin t) ^ 2 + (v * cos t + u * sin t) ^ 2 = u ^ 2 + (v ^ 2 :: real)"
proof -
  have "(u * c - v * s) ^ 2 + (v * c + u * s) ^ 2 = (u ^ 2 + v ^ 2) * (c ^ 2 + s ^ 2)"
    for c s :: real
    by (simp add: power2_eq_square algebra_simps)
  from this [of "cos t" "sin t"] show ?thesis by simp
qed

text \<open>
  Claim C10. For every input \<open>x\<close> of shape \<open>(batch, num_heads, seq_len, head_dim)\<close> with
  \<open>head_dim\<close> even and \<open>seq_len\<close> at most \<open>context_length\<close>, \<open>compute_rope\<close> with the tables of
  \<open>precompute_rope_params\<close> returns a tensor in which every vector along the last axis has
  the Euclidean norm of the corresponding vector of \<open>x\<close>, over exact real arithmetic.
\<close>

theorem compute_rope_preserves_norm:
  assumes "shape x = [b, h, n, d]" and "even d" and "n \<le> ctx"
    and "i < b" and "a < h" and "m < n"
  shows "\<exists>c s y. precompute_rope_params d \<theta> ctx = Inr (c, s) \<and>
           compute_rope x c s = Inr y \<and> shape y = shape x \<and>
           euclidean_norm (\<lambda>j. elem y [i, a, m, j]) d = euclidean_norm (\<lambda>j. elem x [i, a, m, j]) d"
proof -
  obtain k where k: "d = k + k" using assms(2) by (auto elim!: evenE simp add: mult_2)
  from compute_rope_precomputed [OF assms(1,2,3), of \<theta>] obtain c s y where
    cs: "precompute_rope_params d \<theta> ctx = Inr (c, s)" and
    y: "compute_rope x c s = Inr y" "shape y = [b, h, n, d]" and
    ye: "\<And>i a m j. i < b \<Longrightarrow> a < h \<Longrightarrow> m < n \<Longrightarrow> j < d div 2 \<Longrightarrow>
              elem y [i, a, m, j] =
                elem x [i, a, m, j] * cos (rope_angle d \<theta> m j)
                - elem x [i, a, m, j + d div 2] * sin (rope_angle d \<theta> m j) \<and>
              elem y [i, a, m, j + d div 2] =
                elem x [i, a, m, j + d div 2] * cos (rope_angle d \<theta> m j)
                + elem x [i, a, m, j] * sin (rope_angle d \<theta> m j)"
    by blast
  have pair: "(elem y [i, a, m, j]) ^ 2 + (elem y [i, a, m, j + k]) ^ 2
      = (elem x [i, a, m, j]) ^ 2 + (elem x [i, a, m, j + k]) ^ 2" if "j < k" for j
    using ye [OF assms(4,5,6), of j] that k
    by (simp add: rotation_preserves_squares)
  have "(\<Sum>j\<leftarrow>[0..<d]. (elem y [i, a, m, j]) ^ 2)
      = (\<Sum>j\<leftarrow>[0..<k]. (elem y [i, a, m, j]) ^ 2 + (elem y [i, a, m, j + k]) ^ 2)"
    unfolding k by (rule sum_list_upt_halves)
  also have "\<dots> = (\<Sum>j\<leftarrow>[0..<k]. (elem x [i, a, m, j]) ^ 2 + (elem x [i, a, m, j + k]) ^ 2)"
    by (rule sum_list_upt_cong) (rule pair)
  also have "\<dots> = (\<Sum>j\<leftarrow>[0..<d]. (elem x [i, a, m, j]) ^ 2)"
    unfolding k by (rule sum_list_upt_halves [symmetric])
  finally have "euclidean_norm (\<lambda>j. elem y [i, a, m, j]) d = euclidean_norm (\<lambda>j. elem x [i, a, m, j]) d"
    by (simp add: euclidean_norm_def)
  with cs y assms(1) show ?thesis by auto
qed

text \<open>
  Claim C2. For every input \<open>x\<close> of shape \<open>(batch, num_heads, seq_len, head_dim)\<close> with
  \<open>head_dim\<close> even and \<open>seq_len\<close> at most \<open>context_length\<close>, and a positive \<open>theta_base\<close>,
  \<open>precompute_rope_params\<close> and \<open>compute_rope\<close> return without error, the result has the
  shape of \<open>x\<close>, and at every sequence position \<open>m\<close> and every \<open>j < head_dim/2\<close> the pair of
  components \<open>j\<close> and \<open>j + head_dim/2\<close> is rotated by the angle
  \<open>m * theta_base\<^sup>-\<^sup>2\<^sup>j\<^sup>/\<^sup>h\<^sup>e\<^sup>a\<^sup>d\<^sup>_\<^sup>d\<^sup>i\<^sup>m\<close>.
\<close>

theorem compute_rope_rotation:
  assumes "shape x = [b, h, n, d]" and "even d" and "n \<le> ctx" and "0 < \<theta>"
  shows "\<exists>c s y. precompute_rope_params d \<theta> ctx = Inr (c, s) \<and>
           compute_rope x c s = Inr y \<and> shape y = shape x \<and>
           (\<forall>i a m j. i < b \<longrightarrow> a < h \<longrightarrow> m < n \<longrightarrow> j < d div 2 \<longrightarrow>
              elem y [i, a, m, j] =
                elem x [i, a, m, j] * cos (rope_angle d \<theta> m j)
                - elem x [i, a, m, j + d div 2] * sin (rope_angle d \<theta> m j) \<and>
              elem y [i, a, m, j + d div 2] =
                elem x [i, a, m, j + d div 2] * cos (rope_angle d \<theta> m j)
                + elem x [i, a, m, j] * sin (rope_angle d \<theta> m j))"
  using compute_rope_precomputed [OF assms(1,2,3), of \<theta>] assms(1) by simp


theorem compute_rope_rotation_witness:
  "shape \<lparr>shape = [1, 1, 2, 2], elem = (\<lambda>_. 1::real)\<rparr> = [1, 1, 2, 2] \<and> even (2::nat) \<and>
   (2::nat) \<le> 2 \<and> (0::real) < 10000 \<and>
   (\<exists>c s y. precompute_rope_params 2 10000 2 = Inr (c, s) \<and>
      compute_rope \<lparr>shape = [1, 1, 2, 2], elem = (\<lambda>_. 1)\<rparr> c s = Inr y \<and>
      shape y = [1, 1, 2, 2] \<and>
      elem y [0, 0, 1, 0] = cos 1 - sin 1 \<and> elem y [0, 0, 1, 1] = cos 1 + sin 1)"
proof -
  let ?x = "\<lparr>shape = [1, 1, 2, 2], elem = (\<lambda>_. 1::real)\<rparr>"
  have h: "shape ?x = [1, 1, 2, 2]" "even (2::nat)" "(2::nat) \<le> 2" "(0::real) < 10000"
    by simp_all
  from compute_rope_rotation [OF h] obtain c s y where
    cs: "precompute_rope_params 2 10000 2 = Inr (c, s)" and
    y: "compute_rope ?x c s = Inr y" "shape y = shape ?x" and
    ye: "\<forall>i a m j. i < 1 \<longrightarrow> a < 1 \<longrightarrow> m < 2 \<longrightarrow> j < 2 div 2 \<longrightarrow>
              elem y [i, a, m, j] =
                elem ?x [i, a, m, j] * cos (rope_angle 2 10000 m j)
                - elem ?x [i, a, m, j + 2 div 2] * sin (rope_angle 2 10000 m j) \<and>
              elem y [i, a, m, j + 2 div 2] =
                elem ?x [i, a, m, j + 2 div 2] * cos (rope_angle 2 10000 m j)
                + elem ?x [i, a, m, j] * sin (rope_angle 2 10000 m j)"
    by blast
  from ye [rule_format, of 0 0 1 0]
  have "elem y [0, 0, 1, 0] = cos 1 - sin 1 \<and> elem y [0, 0, 1, 1] = cos 1 + sin 1"
    by (simp add: rope_angle_def)
  with cs y h show ?thesis by auto
qed



theorem compute_rope_preserves_norm_witness:
  "shape \<lparr>shape = [1, 1, 2, 2], elem = (\<lambda>_. 1::real)\<rparr> = [1, 1, 2, 2] \<and> even (2::nat) \<and>
   (2::nat) \<le> 2 \<and> (0::nat) < 1 \<and> (1::nat) < 2 \<and>
   (\<exists>c s y. precompute_rope_params 2 10000 2 = Inr (c, s) \<and>
      compute_rope \<lparr>shape = [1, 1, 2, 2], elem = (\<lambda>_. 1)\<rparr> c s = Inr y \<and>
      shape y = [1, 1, 2, 2] \<and>
      euclidean_norm (\<lambda>j. elem y [0, 0, 1, j]) 2 = sqrt 2)"
proof -
  let ?x = "\<lparr>shape = [1, 1, 2, 2], elem = (\<lambda>_. 1::real)\<rparr>"
  have h: "shape ?x = [1, 1, 2, 2]" "even (2::nat)" "(2::nat) \<le> 2" "(0::nat) < 1" "(0::nat) < 1"
    "(1::nat) < 2"
    by simp_all
  from compute_rope_preserves_norm [OF h, of 10000] obtain c s y where
    cs: "precompute_rope_params 2 10000 2 = Inr (c, s)" and
    y: "compute_rope ?x c s = Inr y" "shape y = shape ?x" and
    ye: "euclidean_norm (\<lambda>j. elem y [0, 0, 1, j]) 2 = euclidean_norm (\<lambda>j. elem ?x [0, 0, 1, j]) 2"
    by blast
  have "euclidean_norm (\<lambda>j. elem ?x [0, 0, 1, j]) 2 = sqrt 2"
    by (simp add: euclidean_norm_def upt_conv_Cons)
  with cs y h ye show ?thesis by auto
qed

section \<open>Facts about the tensor operations of the attention module\<close>

lemma swap_axes_1_2 [simp]: "swap_axes (Suc 0) 2 [a, b, c, d] = [a, c, b, d]"
  by (simp add: swap_axes_def eval_nat_numeral)

lemma swap_axes_2_3 [simp]: "swap_axes 2 3 [a, b, c, d] = [a, b, d, c]"
  by (simp add: swap_axes_def eval_nat_numeral)

lemma div_mult_add_less: "r < q \<Longrightarrow> (i * q + r) div q = (i::nat)"
  by simp

lemma mod_mult_add_less: "r < q \<Longrightarrow> (i * q + r) mod q = (r::nat)"
  by simp

lemma unravel_Cons_step:
  "r < prod_list s \<Longrightarrow> unravel (n # s) (i * prod_list s + r) = i # unravel s r"
  by simp

lemma mult_add_less: "t < n \<Longrightarrow> r < q \<Longrightarrow> t * q + r < n * (q::nat)"
proof -
  assume "t < n" "r < q"
  then have "t * q + r < Suc t * q" by simp
  also have "\<dots> \<le> n * q" using \<open>t < n\<close> by (intro mult_le_mono1) simp
  finally show ?thesis .
qed

lemma unravel_ravel_split:
  assumes "t < n" "a < h" "j < e"
  shows "unravel [b, n, h * e] (ravel [b, n, h, e] [i, t, a, j]) = [i, t, a * e + j]"
proof -
  have 1: "a * e + j < h * e" using assms(2,3) by (rule mult_add_less)
  have 2: "t * (h * e) + (a * e + j) < n * (h * e)" using assms(1) 1 by (rule mult_add_less)
  have r: "ravel [b, n, h, e] [i, t, a, j] = i * prod_list [n, h * e] + (t * prod_list [h * e] + (a * e + j))"
    by simp
  have "unravel [b, n, h * e] (i * prod_list [n, h * e] + (t * prod_list [h * e] + (a * e + j)))
      = i # unravel [n, h * e] (t * prod_list [h * e] + (a * e + j))"
    using 2 by (intro unravel_Cons_step) simp
  also have "unravel [n, h * e] (t * prod_list [h * e] + (a * e + j)) = t # unravel [h * e] (a * e + j)"
    using 1 by (intro unravel_Cons_step) simp
  also have "unravel [h * e] (a * e + j) = [a * e + j]"
    by simp
  finally show ?thesis unfolding r .
qed

lemma unravel_ravel_merge:
  assumes "t < n" "c < h * e"
  shows "unravel [b, n, h, e] (ravel [b, n, h * e] [i, t, c]) = [i, t, c div e, c mod e]"
proof -
  have 2: "t * (h * e) + c < n * (h * e)" using assms by (rule mult_add_less)
  have r: "ravel [b, n, h * e] [i, t, c] = i * prod_list [n, h, e] + (t * prod_list [h, e] + c)"
    by simp
  have "unravel [b, n, h, e] (i * prod_list [n, h, e] + (t * prod_list [h, e] + c))
      = i # unravel [n, h, e] (t * prod_list [h, e] + c)"
    using 2 by (intro unravel_Cons_step) simp
  also have "unravel [n, h, e] (t * prod_list [h, e] + c) = t # unravel [h, e] c"
    using assms(2) by (intro unravel_Cons_step) simp
  also have "unravel [h, e] c = [c div e, c mod e]"
    by simp
  finally show ?thesis unfolding r .
qed

lemma Linear_forward_3d:
  assumes "shape x = [b, n, d]" and "in_features l = d"
  shows "\<exists>y. Linear_forward l x = Inr y \<and> shape y = [b, n, out_features l] \<and>
           (\<forall>i t j. elem y [i, t, j] = affine l (\<lambda>k. elem x [i, t, k]) j)"
proof -
  have "row x [i, t, j] = (\<lambda>k. elem x [i, t, k])" for i t j
    by (rule ext) (simp add: row_def)
  then show ?thesis
    using assms by (simp add: Linear_forward_def)
qed

lemma view_heads:
  assumes "shape q = [b, n, h * e]"
  shows "\<exists>y. view q [b, n, h, e] = Inr y \<and> shape y = [b, n, h, e] \<and>
           (\<forall>i t a j. t < n \<longrightarrow> a < h \<longrightarrow> j < e \<longrightarrow> elem y [i, t, a, j] = elem q [i, t, a * e + j])"
  using assms by (simp add: view_def reshape_def unravel_ravel_split del: ravel.simps unravel.simps)

lemma reshape_heads:
  assumes "shape q = [b, n, h, e]"
  shows "\<exists>y. reshape q [b, n, h * e] = Inr y \<and> shape y = [b, n, h * e] \<and>
           (\<forall>i t c. t < n \<longrightarrow> c < h * e \<longrightarrow> elem y [i, t, c] = elem q [i, t, c div e, c mod e])"
  using assms by (simp add: reshape_def unravel_ravel_merge del: ravel.simps unravel.simps)

lemma shape_transpose_1_2:
  "shape x = [b, n, h, e] \<Longrightarrow> shape (transpose_dims (Suc 0) 2 x) = [b, h, n, e]"
  by (simp add: transpose_dims_def)

lemma elem_transpose_1_2 [simp]:
  "elem (transpose_dims (Suc 0) 2 x) [i, a, t, j] = elem x [i, t, a, j]"
  by (simp add: transpose_dims_def)

lemma shape_transpose_2_3:
  "shape x = [b, h, n, e] \<Longrightarrow> shape (transpose_dims 2 3 x) = [b, h, e, n]"
  by (simp add: transpose_dims_def)

lemma elem_transpose_2_3 [simp]:
  "elem (transpose_dims 2 3 x) [i, a, j, t] = elem x [i, a, t, j]"
  by (simp add: transpose_dims_def)

lemma matmul_4d:
  assumes "shape A = [b, h, n, k]" and "shape B = [b, h, k, p]"
  shows "\<exists>y. matmul A B = Inr y \<and> shape y = [b, h, n, p] \<and>
           (\<forall>i a t u. i < b \<longrightarrow> a < h \<longrightarrow>
              elem y [i, a, t, u] = (\<Sum>j\<leftarrow>[0..<k]. elem A [i, a, t, j] * elem B [i, a, j, u]))"
  using assms by (simp add: matmul_def Let_def broadcast_shapes_def)

lemma mask_bool_elem:
  assumes "n \<le> ctx"
  shows "\<exists>r y. rows_to n (tmap (\<lambda>v. v \<noteq> 0) (triu (ones [ctx, ctx]) 1)) = Inr r \<and>
           slice_to 1 n r = Inr y \<and> shape y = [n, n] \<and>
           (\<forall>t u. elem y [t, u] \<longleftrightarrow> t < u)"
  using assms by (auto simp add: rows_to_def slice_to_def triu_def ones_def min_absorb1)

lemma masked_fill_4d:
  assumes "shape x = [b, h, n, n]" and "shape m = [n, n]"
  shows "\<exists>y. masked_fill x m v = Inr y \<and> shape y = [b, h, n, n] \<and>
           (\<forall>i a t u. t < n \<longrightarrow> u < n \<longrightarrow>
              elem y [i, a, t, u] = (if elem m [t, u] then v else elem x [i, a, t, u]))"
  using assms by (simp add: masked_fill_def broadcast_shapes_def bindex_def)

lemma softmax_4d:
  assumes "shape x = [b, h, n, p]"
  shows "shape (softmax x) = [b, h, n, p]"
    and "elem (softmax x) [i, a, t, u] =
          xexp (elem x [i, a, t, u]) / (\<Sum>k\<leftarrow>[0..<p]. xexp (elem x [i, a, t, k]))"
  using assms by (simp_all add: softmax_def)

section \<open>The attention module: constructor and closed form of the forward pass\<close>

lemma MultiHeadedAttention_init_Inr:
  assumes "MultiHeadedAttention_init d_in D ctx H wq wk wv wo = Inr m"
  shows "H \<noteq> 0" and "D = H * (D div H)" and "even (D div H)"
    and "precompute_rope_params (D div H) 10000 ctx = Inr (rope_cos m, rope_sin m)"
    and "d_out m = D" and "num_heads m = H" and "head_dim m = D div H"
    and "W_query m = Linear_init d_in D False wq (\<lambda>_. 0)"
    and "W_key m = Linear_init d_in D False wk (\<lambda>_. 0)"
    and "W_value m = Linear_init d_in D False wv (\<lambda>_. 0)"
    and "out_proj m = Linear_init D D False wo (\<lambda>_. 0)"
    and "mask m = triu (ones [ctx, ctx]) 1"
proof -
  show H: "H \<noteq> 0"
    using assms by (auto simp add: MultiHeadedAttention_init_def split: if_splits)
  have dv: "D mod H = 0"
    using assms H by (auto simp add: MultiHeadedAttention_init_def split: if_splits)
  then show "D = H * (D div H)" by auto
  obtain c s where cs: "precompute_rope_params (D div H) 10000 ctx = Inr (c, s)"
    using assms H dv
    by (cases "precompute_rope_params (D div H) 10000 ctx")
       (auto simp add: MultiHeadedAttention_init_def)
  then show "even (D div H)"
    by (auto simp add: precompute_rope_params_def split: if_splits)
  have m: "m = \<lparr>d_out = D, num_heads = H, head_dim = D div H,
             W_query = Linear_init d_in D False wq (\<lambda>_. 0),
             W_key = Linear_init d_in D False wk (\<lambda>_. 0),
             W_value = Linear_init d_in D False wv (\<lambda>_. 0),
             out_proj = Linear_init D D False wo (\<lambda>_. 0),
             mask = triu (ones [ctx, ctx]) 1,
             rope_cos = c, rope_sin = s\<rparr>"
    using assms H dv cs by (simp add: MultiHeadedAttention_init_def)
  show "precompute_rope_params (D div H) 10000 ctx = Inr (rope_cos m, rope_sin m)"
    using cs by (simp add: m)
  show "d_out m = D" "num_heads m = H" "head_dim m = D div H"
    "W_query m = Linear_init d_in D False wq (\<lambda>_. 0)"
    "W_key m = Linear_init d_in D False wk (\<lambda>_. 0)"
    "W_value m = Linear_init d_in D False wv (\<lambda>_. 0)"
    "out_proj m = Linear_init D D False wo (\<lambda>_. 0)"
    "mask m = triu (ones [ctx, ctx]) 1"
    by (simp_all add: m)
qed

lemma MultiHeadedAttention_forward_closed:
  assumes init: "MultiHeadedAttention_init d_in D ctx H wq wk wv wo = Inr m"
    and x: "shape x = [b, n, d_in]" and n: "n \<le> ctx"
  shows "\<exists>y. MultiHeadedAttention_forward m x = Inr y \<and> shape y = [b, n, D] \<and>
           (\<forall>i t j. i < b \<longrightarrow> t < n \<longrightarrow> j < D \<longrightarrow> elem y [i, t, j] = attention_spec m x n i t j)"
proof -
  note f = MultiHeadedAttention_init_Inr [OF init]
  let ?e = "D div H"
  have De: "H * ?e = D" using f(2) by simp
  have ev: "even ?e" by (rule f(3))
  have io: "in_features (W_query m) = d_in" "in_features (W_key m) = d_in"
    "in_features (W_value m) = d_in" "in_features (out_proj m) = D"
    "out_features (W_query m) = D" "out_features (W_key m) = D"
    "out_features (W_value m) = D" "out_features (out_proj m) = D"
    by (simp_all add: f(8-11) Linear_init_def)
  \<comment> \<open>the three projections\<close>
  from Linear_forward_3d [OF x io(1)] obtain q0 where
    q0: "Linear_forward (W_query m) x = Inr q0" "shape q0 = [b, n, D]"
    and q0e: "\<And>i t j. elem q0 [i, t, j] = affine (W_query m) (\<lambda>k. elem x [i, t, k]) j"
    unfolding io by blast
  from Linear_forward_3d [OF x io(2)] obtain k0 where
    k0: "Linear_forward (W_key m) x = Inr k0" "shape k0 = [b, n, D]"
    and k0e: "\<And>i t j. elem k0 [i, t, j] = affine (W_key m) (\<lambda>k. elem x [i, t, k]) j"
    unfolding io by blast
  from Linear_forward_3d [OF x io(3)] obtain v0 where
    v0: "Linear_forward (W_value m) x = Inr v0" "shape v0 = [b, n, D]"
    and v0e: "\<And>i t j. elem v0 [i, t, j] = affine (W_value m) (\<lambda>k. elem x [i, t, k]) j"
    unfolding io by blast
  \<comment> \<open>split into heads\<close>
  have sq0: "shape q0 = [b, n, H * ?e]" "shape k0 = [b, n, H * ?e]" "shape v0 = [b, n, H * ?e]"
    using q0(2) k0(2) v0(2) De by simp_all
  from view_heads [OF sq0(1)] obtain q1 where
    q1: "view q0 [b, n, H, ?e] = Inr q1" "shape q1 = [b, n, H, ?e]"
    and q1e: "\<And>i t a j. t < n \<Longrightarrow> a < H \<Longrightarrow> j < ?e \<Longrightarrow>
                elem q1 [i, t, a, j] = elem q0 [i, t, a * ?e + j]"
    by blast
  from view_heads [OF sq0(2)] obtain k1 where
    k1: "view k0 [b, n, H, ?e] = Inr k1" "shape k1 = [b, n, H, ?e]"
    and k1e: "\<And>i t a j. t < n \<Longrightarrow> a < H \<Longrightarrow> j < ?e \<Longrightarrow>
                elem k1 [i, t, a, j] = elem k0 [i, t, a * ?e + j]"
    by blast
  from view_heads [OF sq0(3)] obtain v1 where
    v1: "view v0 [b, n, H, ?e] = Inr v1" "shape v1 = [b, n, H, ?e]"
    and v1e: "\<And>i t a j. t < n \<Longrightarrow> a < H \<Longrightarrow> j < ?e \<Longrightarrow>
                elem v1 [i, t, a, j] = elem v0 [i, t, a * ?e + j]"
    by blast
  let ?q2 = "transpose_dims (Suc 0) 2 q1"
  let ?k2 = "transpose_dims (Suc 0) 2 k1"
  let ?v2 = "transpose_dims (Suc 0) 2 v1"
  have s2: "shape ?q2 = [b, H, n, ?e]" "shape ?k2 = [b, H, n, ?e]" "shape ?v2 = [b, H, n, ?e]"
    using q1(2) k1(2) v1(2) by (simp_all add: shape_transpose_1_2)
  have q2e: "elem ?q2 [i, a, t, j] = head_slice (W_query m) ?e x i t a j"
    and k2e: "elem ?k2 [i, a, t, j] = head_slice (W_key m) ?e x i t a j"
    and v2e: "elem ?v2 [i, a, t, j] = head_slice (W_value m) ?e x i t a j"
    if "t < n" "a < H" "j < ?e" for i a t j
    using that by (simp_all add: q1e k1e v1e q0e k0e v0e head_slice_def)
  \<comment> \<open>rotary embedding of keys and queries\<close>
  from precompute_rope_params_even [OF ev, of 10000 ctx] f(4) have
    sc: "shape (rope_cos m) = [ctx, ?e]" "shape (rope_sin m) = [ctx, ?e]"
    and tab: "\<And>t j. t < ctx \<Longrightarrow> j < ?e \<Longrightarrow>
       elem (rope_cos m) [t, j] = cos (rope_angle ?e 10000 t (if j < ?e div 2 then j else j - ?e div 2)) \<and>
       elem (rope_sin m) [t, j] = sin (rope_angle ?e 10000 t (if j < ?e div 2 then j else j - ?e div 2))"
    unfolding rope_angle_inv_freq by auto
  have rot: "elem z [i, a, t, j] * elem (rope_cos m) [t, j]
                + (if j < ?e div 2 then - elem z [i, a, t, j + ?e div 2]
                   else elem z [i, a, t, j - ?e div 2]) * elem (rope_sin m) [t, j]
             = rope_rotate ?e 10000 t (head_slice l ?e x i t a) j"
    if "t < n" "a < H" "j < ?e"
      and z: "\<And>j. j < ?e \<Longrightarrow> elem z [i, a, t, j] = head_slice l ?e x i t a j"
    for z :: "real tensor" and l i a t j
  proof -
    have t: "t < ctx" using that(1) n by simp
    show ?thesis
    proof (cases "j < ?e div 2")
      case True
      then have "j + ?e div 2 < ?e" using ev by (auto elim!: evenE)
      then show ?thesis
        using True tab [OF t that(3)] z [OF that(3)] z [of "j + ?e div 2"]
        by (simp add: rope_rotate_def)
    next
      case False
      have "j - ?e div 2 < ?e" using that(3) by simp
      then show ?thesis
        using False tab [OF t that(3)] z [OF that(3)] z [of "j - ?e div 2"]
        by (simp add: rope_rotate_def)
    qed
  qed
  from compute_rope_elem [OF s2(2) ev sc n] obtain k3 where
    k3: "compute_rope ?k2 (rope_cos m) (rope_sin m) = Inr k3" "shape k3 = [b, H, n, ?e]"
    and k3r: "\<And>i a t j. i < b \<Longrightarrow> a < H \<Longrightarrow> t < n \<Longrightarrow> j < ?e \<Longrightarrow>
       elem k3 [i, a, t, j] = elem ?k2 [i, a, t, j] * elem (rope_cos m) [t, j]
                + (if j < ?e div 2 then - elem ?k2 [i, a, t, j + ?e div 2]
                   else elem ?k2 [i, a, t, j - ?e div 2]) * elem (rope_sin m) [t, j]"
    by blast
  from compute_rope_elem [OF s2(1) ev sc n] obtain q3 where
    q3: "compute_rope ?q2 (rope_cos m) (rope_sin m) = Inr q3" "shape q3 = [b, H, n, ?e]"
    and q3r: "\<And>i a t j. i < b \<Longrightarrow> a < H \<Longrightarrow> t < n \<Longrightarrow> j < ?e \<Longrightarrow>
       elem q3 [i, a, t, j] = elem ?q2 [i, a, t, j] * elem (rope_cos m) [t, j]
                + (if j < ?e div 2 then - elem ?q2 [i, a, t, j + ?e div 2]
                   else elem ?q2 [i, a, t, j - ?e div 2]) * elem (rope_sin m) [t, j]"
    by blast
  have k3e: "elem k3 [i, a, t, j] = rope_rotate ?e 10000 t (head_slice (W_key m) ?e x i t a) j"
    if "i < b" "a < H" "t < n" "j < ?e" for i a t j
    unfolding k3r [OF that]
    by (rule rot [OF that(3,2,4)]) (rule k2e [OF that(3,2)])
  have q3e: "elem q3 [i, a, t, j] = rope_rotate ?e 10000 t (head_slice (W_query m) ?e x i t a) j"
    if "i < b" "a < H" "t < n" "j < ?e" for i a t j
    unfolding q3r [OF that]
    by (rule rot [OF that(3,2,4)]) (rule q2e [OF that(3,2)])
  \<comment> \<open>scores, mask and softmax\<close>
  have sk: "shape (transpose_dims 2 3 k3) = [b, H, ?e, n]"
    using k3(2) by (simp add: shape_transpose_2_3)
  from matmul_4d [OF q3(2) sk] obtain s0 where
    s0: "matmul q3 (transpose_dims 2 3 k3) = Inr s0" "shape s0 = [b, H, n, n]"
    and s0e: "\<And>i a t u. i < b \<Longrightarrow> a < H \<Longrightarrow>
       elem s0 [i, a, t, u] = (\<Sum>j\<leftarrow>[0..<?e]. elem q3 [i, a, t, j] * elem k3 [i, a, u, j])"
    by auto
  from mask_bool_elem [OF n] obtain mr mb where
    mb: "rows_to n (tmap (\<lambda>v. v \<noteq> 0) (mask m)) = Inr mr" "slice_to (Suc 0) n mr = Inr mb"
      "shape mb = [n, n]"
    and mbe: "\<And>t u. elem mb [t, u] \<longleftrightarrow> t < u"
    unfolding f(12) by auto
  have ss: "shape (tmap Finite s0) = [b, H, n, n]" using s0(2) by simp
  from masked_fill_4d [OF ss mb(3), of NegInf] obtain s1 where
    s1: "masked_fill (tmap Finite s0) mb NegInf = Inr s1" "shape s1 = [b, H, n, n]"
    and s1e: "\<And>i a t u. t < n \<Longrightarrow> u < n \<Longrightarrow>
       elem s1 [i, a, t, u] = (if t < u then NegInf else Finite (elem s0 [i, a, t, u]))"
    unfolding mbe by auto
  let ?sc = "tmap (\<lambda>v. xdiv v (sqrt (real ?e))) s1"
  let ?w = "softmax ?sc"
  have ssc: "shape ?sc = [b, H, n, n]" using s1(2) by simp
  have sce: "elem ?sc [i, a, t, u] = attn_score m x i a t u"
    if "i < b" "a < H" "t < n" "u < n" for i a t u
  proof -
    have "(\<Sum>j\<leftarrow>[0..<?e]. elem q3 [i, a, t, j] * elem k3 [i, a, u, j])
        = (\<Sum>j\<leftarrow>[0..<?e].
            rope_rotate ?e 10000 t (head_slice (W_query m) ?e x i t a) j
            * rope_rotate ?e 10000 u (head_slice (W_key m) ?e x i u a) j)"
      by (rule sum_list_upt_cong) (simp add: q3e k3e that)
    then show ?thesis
      using that by (simp add: s1e s0e attn_score_def f(7))
  qed
  have sw: "shape ?w = [b, H, n, n]" by (rule softmax_4d(1) [OF ssc])
  have we: "elem ?w [i, a, t, u] = attn_weight m x n i a t u"
    if "i < b" "a < H" "t < n" "u < n" for i a t u
  proof -
    have "(\<Sum>k\<leftarrow>[0..<n]. xexp (elem ?sc [i, a, t, k]))
        = (\<Sum>k\<leftarrow>[0..<n]. xexp (attn_score m x i a t k))"
      by (rule sum_list_upt_cong) (simp only: sce [OF that(1,2,3)])
    then show ?thesis
      unfolding softmax_4d(2) [OF ssc] attn_weight_def sce [OF that] by simp
  qed
  \<comment> \<open>weights times values, heads concatenated, output projection\<close>
  from matmul_4d [OF sw s2(3)] obtain c0 where
    c0: "matmul ?w ?v2 = Inr c0" "shape c0 = [b, H, n, ?e]"
    and c0m: "\<And>i a t j. i < b \<Longrightarrow> a < H \<Longrightarrow>
       elem c0 [i, a, t, j] = (\<Sum>u\<leftarrow>[0..<n]. elem ?w [i, a, t, u] * elem ?v2 [i, a, u, j])"
    by auto
  have c0e: "elem c0 [i, a, t, j] = head_output m x n i a t j"
    if "i < b" "a < H" "t < n" "j < ?e" for i a t j
    unfolding c0m [OF that(1,2)] head_output_def f(7)
    by (rule sum_list_upt_cong) (simp only: we [OF that(1,2,3)] v2e [OF _ that(2,4)])
  let ?c1 = "transpose_dims (Suc 0) 2 c0"
  have sc1: "shape ?c1 = [b, n, H, ?e]" using c0(2) by (simp add: shape_transpose_1_2)
  from reshape_heads [OF sc1] obtain c2 where
    c2: "reshape ?c1 [b, n, D] = Inr c2" "shape c2 = [b, n, D]"
    and c2r: "\<And>i t c. t < n \<Longrightarrow> c < D \<Longrightarrow>
       elem c2 [i, t, c] = elem ?c1 [i, t, c div ?e, c mod ?e]"
    unfolding De by blast
  have c2e: "elem c2 [i, t, c] = head_output m x n i (c div ?e) t (c mod ?e)"
    if "i < b" "t < n" "c < D" for i t c
  proof -
    have e0: "0 < ?e" using that(3) De by (cases "?e") auto
    have "c < H * ?e" using that(3) De by simp
    then have "c div ?e < H" using e0 by (simp add: less_mult_imp_div_less)
    moreover have "c mod ?e < ?e" using e0 by simp
    ultimately show ?thesis
      using that by (simp add: c2r c0e)
  qed
  from Linear_forward_3d [OF c2(2) io(4)] obtain y where
    y: "Linear_forward (out_proj m) c2 = Inr y" "shape y = [b, n, D]"
    and yl: "\<And>i t j. elem y [i, t, j] = affine (out_proj m) (\<lambda>c. elem c2 [i, t, c]) j"
    unfolding io by blast
  have ye: "elem y [i, t, j] = attention_spec m x n i t j" if "i < b" "t < n" for i t j
    unfolding yl attention_spec_def f(7)
    by (rule affine_cong) (simp add: io c2e that)
  have "MultiHeadedAttention_forward m x = Inr y"
    by (simp add: MultiHeadedAttention_forward_def x q0 k0 v0 f(5,6,7) q1 k1 v1 k3 q3 s0 mb s1
        c0 c2 y)
  with y(2) ye show ?thesis by blast
qed

lemma MultiHeadedAttention_init_ok:
  assumes "H \<noteq> 0" and "D mod H = 0" and "even (D div H)"
  shows "\<exists>m. MultiHeadedAttention_init d_in D ctx H wq wk wv wo = Inr m"
proof -
  from precompute_rope_params_even [OF assms(3), of 10000 ctx] obtain c s where
    "precompute_rope_params (D div H) 10000 ctx = Inr (c, s)" by blast
  then show ?thesis using assms(1,2) by (simp add: MultiHeadedAttention_init_def)
qed

section \<open>Causality of the attention module\<close>

lemma attention_spec_causal:
  assumes io: "in_features (W_query m) = d_in" "in_features (W_key m) = d_in"
      "in_features (W_value m) = d_in"
    and agree: "\<And>u k. u \<le> t \<Longrightarrow> k < d_in \<Longrightarrow> elem x [i, u, k] = elem x' [i, u, k]"
  shows "attention_spec m x n i t j = attention_spec m x' n i t j"
proof -
  have hs: "head_slice l e x i u a = head_slice l e x' i u a"
    if "u \<le> t" "in_features l = d_in" for l e u a
    unfolding head_slice_def
    by (rule ext, rule affine_cong) (simp add: that agree)
  have sc: "attn_score m x i a t u = attn_score m x' i a t u" for a u
    by (cases "t < u") (simp_all add: attn_score_def hs io)
  have w: "attn_weight m x n i a t u = attn_weight m x' n i a t u" for a u
    by (simp add: attn_weight_def sc)
  have summand: "attn_weight m x n i a t u * head_slice (W_value m) (head_dim m) x i u a c
      = attn_weight m x' n i a t u * head_slice (W_value m) (head_dim m) x' i u a c" for a u c
  proof (cases "t < u")
    case True
    then have "attn_weight m x n i a t u = 0" "attn_weight m x' n i a t u = 0"
      by (simp_all add: attn_weight_def attn_score_def)
    then show ?thesis by simp
  next
    case False
    then show ?thesis by (simp add: w hs io)
  qed
  have "head_output m x n i a t c = head_output m x' n i a t c" for a c
    by (simp add: head_output_def summand)
  then show ?thesis by (simp add: attention_spec_def)
qed

text \<open>
  Over exact reals nothing overflows: for two inputs \<open>x\<close> and \<open>x'\<close> of the same shape
  \<open>(batch, num_tokens, d_in)\<close> with \<open>num_tokens\<close> at most \<open>context_length\<close> that agree on all
  token positions up to and including position \<open>p\<close>, \<open>MultiHeadedAttention_forward\<close> returns
  on both, and the outputs agree at every token position up to and including \<open>p\<close>. On
  float32 numbers the same needs the value projections of the later tokens to be finite;
  that statement and the input on which it fails without them are in the section on the
  causality of the attention module on float32 numbers.
\<close>

theorem MultiHeadedAttention_forward_causal:
  assumes init: "MultiHeadedAttention_init d_in D ctx H wq wk wv wo = Inr m"
    and x: "shape x = [b, n, d_in]" and x': "shape x' = [b, n, d_in]" and n: "n \<le> ctx"
    and agree: "\<And>i t k. i < b \<Longrightarrow> t \<le> p \<Longrightarrow> k < d_in \<Longrightarrow> elem x [i, t, k] = elem x' [i, t, k]"
  shows "\<exists>y y'. MultiHeadedAttention_forward m x = Inr y \<and>
           MultiHeadedAttention_forward m x' = Inr y' \<and>
           shape y = [b, n, D] \<and> shape y' = [b, n, D] \<and>
           (\<forall>i t j. i < b \<longrightarrow> t \<le> p \<longrightarrow> t < n \<longrightarrow> j < D \<longrightarrow> elem y [i, t, j] = elem y' [i, t, j])"
proof -
  note f = MultiHeadedAttention_init_Inr [OF init]
  have io: "in_features (W_query m) = d_in" "in_features (W_key m) = d_in"
    "in_features (W_value m) = d_in"
    by (simp_all add: f(8-10) Linear_init_def)
  from MultiHeadedAttention_forward_closed [OF init x n] obtain y where
    y: "MultiHeadedAttention_forward m x = Inr y" "shape y = [b, n, D]"
    and ye: "\<And>i t j. i < b \<Longrightarrow> t < n \<Longrightarrow> j < D \<Longrightarrow> elem y [i, t, j] = attention_spec m x n i t j"
    by blast
  from MultiHeadedAttention_forward_closed [OF init x' n] obtain y' where
    y': "MultiHeadedAttention_forward m x' = Inr y'" "shape y' = [b, n, D]"
    and ye': "\<And>i t j. i < b \<Longrightarrow> t < n \<Longrightarrow> j < D \<Longrightarrow> elem y' [i, t, j] = attention_spec m x' n i t j"
    by blast
  have "elem y [i, t, j] = elem y' [i, t, j]" if "i < b" "t \<le> p" "t < n" "j < D" for i t j
  proof -
    have "attention_spec m x n i t j = attention_spec m x' n i t j"
      using io
    proof (rule attention_spec_causal)
      fix u k assume "u \<le> t" "k < d_in"
      then show "elem x [i, u, k] = elem x' [i, u, k]"
        using agree [of i u k] that(1,2) by simp
    qed
    then show ?thesis using ye ye' that by simp
  qed
  with y y' show ?thesis by blast
qed

text \<open>
  Claim C3. For every input \<open>x\<close> of shape \<open>(batch, num_tokens, d_in)\<close> with \<open>num_tokens\<close> at most
  \<open>context_length\<close>, \<open>MultiHeadedAttention.forward\<close> returns a tensor of shape
  \<open>(batch, num_tokens, d_out)\<close> whose entries are those of \<open>attention_spec\<close>: queries, keys and
  values are the three projections of \<open>x\<close> cut into \<open>num_heads\<close> slices of size
  \<open>head_dim = d_out / num_heads\<close>; queries and keys, but not values, are rotated; the score
  of a query and a key is their dot product divided by \<open>sqrt head_dim\<close>, and \<open>-inf\<close> where the
  key index is greater than the query index; the softmax runs over the key positions; the
  weights multiply the values; and the heads are concatenated and passed through
  \<open>out_proj\<close>.
\<close>

theorem MultiHeadedAttention_forward_spec:
  assumes init: "MultiHeadedAttention_init d_in D ctx H wq wk wv wo = Inr m"
    and x: "shape x = [b, n, d_in]" and n: "n \<le> ctx"
  shows "head_dim m = D div H \<and> num_heads m * head_dim m = D \<and>
         (\<exists>y. MultiHeadedAttention_forward m x = Inr y \<and> shape y = [b, n, D] \<and>
           (\<forall>i t j. i < b \<longrightarrow> t < n \<longrightarrow> j < D \<longrightarrow> elem y [i, t, j] = attention_spec m x n i t j))"
  using MultiHeadedAttention_forward_closed [OF init x n] MultiHeadedAttention_init_Inr(2,6,7) [OF init]
  by simp

theorem MultiHeadedAttention_forward_causal_witness:
  "\<exists>m y y'.
     MultiHeadedAttention_init 2 2 2 1 (\<lambda>_ _. 1) (\<lambda>_ _. 1) (\<lambda>_ _. 1) (\<lambda>_ _. 1) = Inr m \<and>
     MultiHeadedAttention_forward m \<lparr>shape = [1, 2, 2], elem = (\<lambda>_. 0)\<rparr> = Inr y \<and>
     MultiHeadedAttention_forward m \<lparr>shape = [1, 2, 2], elem = (\<lambda>idx. real (idx ! 1) * 5)\<rparr> = Inr y' \<and>
     elem y [0, 0, 0] = elem y' [0, 0, 0] \<and> elem y [0, 0, 1] = elem y' [0, 0, 1]"
proof -
  let ?x = "\<lparr>shape = [1, 2, 2], elem = (\<lambda>_. 0::real)\<rparr>"
  let ?x' = "\<lparr>shape = [1, 2, 2], elem = (\<lambda>idx. real (idx ! 1) * 5)\<rparr>"
  from MultiHeadedAttention_init_ok [of 1 2 2 2 "\<lambda>_ _. 1" "\<lambda>_ _. 1" "\<lambda>_ _. 1" "\<lambda>_ _. 1"]
  obtain m where
    m: "MultiHeadedAttention_init 2 2 2 1 (\<lambda>_ _. 1) (\<lambda>_ _. 1) (\<lambda>_ _. 1) (\<lambda>_ _. 1) = Inr m"
    by auto
  have x: "shape ?x = [1, 2, 2]" and x': "shape ?x' = [1, 2, 2]" and n: "(2::nat) \<le> 2"
    by simp_all
  have agree: "elem ?x [i, t, k] = elem ?x' [i, t, k]" if "i < 1" "t \<le> 0" "k < 2" for i t k
    using that by simp
  from MultiHeadedAttention_forward_causal [OF m x x' n agree, of 0] obtain y y' where
    y: "MultiHeadedAttention_forward m ?x = Inr y" "MultiHeadedAttention_forward m ?x' = Inr y'"
    and eq: "\<forall>i t j. i < 1 \<longrightarrow> t \<le> 0 \<longrightarrow> t < 2 \<longrightarrow> j < 2 \<longrightarrow> elem y [i, t, j] = elem y' [i, t, j]"
    by blast
  from eq have "elem y [0, 0, 0] = elem y' [0, 0, 0]" "elem y [0, 0, 1] = elem y' [0, 0, 1]"
    by simp_all
  with m y show ?thesis by blast
qed

theorem MultiHeadedAttention_forward_spec_witness:
  "\<exists>m y.
     MultiHeadedAttention_init 2 2 2 1 (\<lambda>_ _. 1) (\<lambda>_ _. 1) (\<lambda>_ _. 1) (\<lambda>_ _. 1) = Inr m \<and>
     head_dim m = 2 \<and> num_heads m = 1 \<and>
     MultiHeadedAttention_forward m \<lparr>shape = [1, 2, 2], elem = (\<lambda>_. 0)\<rparr> = Inr y \<and>
     shape y = [1, 2, 2] \<and> elem y [0, 1, 0] = 0"
proof -
  let ?x = "\<lparr>shape = [1, 2, 2], elem = (\<lambda>_. 0::real)\<rparr>"
  from MultiHeadedAttention_init_ok [of 1 2 2 2 "\<lambda>_ _. 1" "\<lambda>_ _. 1" "\<lambda>_ _. 1" "\<lambda>_ _. 1"]
  obtain m where
    m: "MultiHeadedAttention_init 2 2 2 1 (\<lambda>_ _. 1) (\<lambda>_ _. 1) (\<lambda>_ _. 1) (\<lambda>_ _. 1) = Inr m"
    by auto
  note f = MultiHeadedAttention_init_Inr [OF m]
  have x: "shape ?x = [1, 2, 2]" and n: "(2::nat) \<le> 2"
    by simp_all
  from MultiHeadedAttention_forward_spec [OF m x n] obtain y where
    hd: "head_dim m = 2 div 1" "num_heads m * head_dim m = 2" and
    y: "MultiHeadedAttention_forward m ?x = Inr y" "shape y = [1, 2, 2]"
    and eq: "\<forall>i t j. i < 1 \<longrightarrow> t < 2 \<longrightarrow> j < 2 \<longrightarrow> elem y [i, t, j] = attention_spec m ?x 2 i t j"
    by blast
  have "head_slice (W_value m) e ?x i u a j = 0" for e i u a j
    by (simp add: head_slice_def affine_def f(10) Linear_init_def)
  then have "head_output m ?x 2 i a t j = 0" for i a t j
    by (simp add: head_output_def)
  then have "attention_spec m ?x 2 0 1 0 = 0"
    by (simp add: attention_spec_def affine_def f(11) Linear_init_def)
  with eq have "elem y [0, 1, 0] = 0" by simp
  with m y hd show ?thesis by auto
qed

section \<open>Facts about the operations on float32 numbers\<close>

lemma f32_sum_2 [simp]: "f32_sum f 2 = f32_add (f32_add (Num 0) (f 0)) (f 1)"
  by (simp add: f32_sum_def upt_conv_Cons)

lemma rnd_small [simp]: "\<bar>r\<bar> \<le> 64 \<Longrightarrow> rnd r = Num r"
  unfolding rnd_def by (auto simp add: abs_le_iff)

lemma Linear_forward_f32_3d:
  assumes "shape x = [b, n, d]" and "in_features l = d"
  shows "\<exists>y. Linear_forward_f32 l x = Inr y \<and> shape y = [b, n, out_features l] \<and>
           (\<forall>i t j. elem y [i, t, j] = affine_f32 l (\<lambda>k. elem x [i, t, k]) j)"
proof -
  have "row x [i, t, j] = (\<lambda>k. elem x [i, t, k])" for i t j
    by (rule ext) (simp add: row_def)
  then show ?thesis
    using assms by (simp add: Linear_forward_f32_def)
qed

lemma compute_rope_f32_elem:
  assumes x: "shape x = [b, h, n, d]" and d: "even d"
    and c: "shape c = [m, d]" and s: "shape s = [m, d]" and n: "n \<le> m"
  shows "\<exists>y. compute_rope_f32 x c s = Inr y \<and> shape y = [b, h, n, d] \<and>
           (\<forall>i a t j. i < b \<longrightarrow> a < h \<longrightarrow> t < n \<longrightarrow> j < d \<longrightarrow>
              elem y [i, a, t, j] =
                f32_add (f32_mul (elem x [i, a, t, j]) (Num (elem c [t, j])))
                  (f32_mul (if j < d div 2 then f32_neg (elem x [i, a, t, j + d div 2])
                            else elem x [i, a, t, j - d div 2]) (Num (elem s [t, j]))))"
proof -
  obtain k where k: "d = 2 * k" using d by (auto elim: evenE)
  show ?thesis
    by (simp add: compute_rope_f32_def x c s k slice_to_def slice_from_def cat_last_def rows_to_def
        unsqueeze_def mul_f32_def add_f32_def binop_def broadcast_shapes_def min_absorb1 n)
qed

lemma matmul_f32_4d:
  assumes "shape A = [b, h, n, k]" and "shape B = [b, h, k, p]"
  shows "\<exists>y. matmul_f32 A B = Inr y \<and> shape y = [b, h, n, p] \<and>
           (\<forall>i a t u. i < b \<longrightarrow> a < h \<longrightarrow>
              elem y [i, a, t, u]
                = f32_sum (\<lambda>j. f32_mul (elem A [i, a, t, j]) (elem B [i, a, j, u])) k)"
  using assms by (simp add: matmul_f32_def Let_def broadcast_shapes_def)

lemma softmax_f32_4d:
  assumes "shape x = [b, h, n, p]"
  shows "shape (softmax_f32 x) = [b, h, n, p]"
    and "elem (softmax_f32 x) [i, a, t, u] = softmax_row (\<lambda>k. elem x [i, a, t, k]) p u"
  using assms by (simp_all add: softmax_f32_def)

lemma f32_sum_cong: "(\<And>k. k < n \<Longrightarrow> f k = g k) \<Longrightarrow> f32_sum f n = f32_sum g n"
proof -
  assume "\<And>k. k < n \<Longrightarrow> f k = g k"
  then have "map f [0..<n] = map g [0..<n]" by simp
  then show ?thesis by (simp only: f32_sum_def)
qed

lemma softmax_row_cong:
  "(\<And>k. k < n \<Longrightarrow> v k = w k) \<Longrightarrow> u < n \<Longrightarrow> softmax_row v n u = softmax_row w n u"
proof -
  assume a: "\<And>k. k < n \<Longrightarrow> v k = w k" and u: "u < n"
  have m: "map v [0..<n] = map w [0..<n]" using a by simp
  have vu: "v u = w u" by (rule a [OF u])
  have "f32_sum (\<lambda>k. f32_exp (f32_add (v k) (f32_neg M))) n
      = f32_sum (\<lambda>k. f32_exp (f32_add (w k) (f32_neg M))) n" for M
    by (rule f32_sum_cong) (simp add: a)
  then show ?thesis by (simp only: softmax_row_def Let_def m vu)
qed

lemma affine_f32_cong:
  "(\<And>k. k < in_features l \<Longrightarrow> v k = w k) \<Longrightarrow> affine_f32 l v j = affine_f32 l w j"
proof -
  assume a: "\<And>k. k < in_features l \<Longrightarrow> v k = w k"
  have "f32_sum (\<lambda>k. f32_mul (v k) (Num (W l j k))) (in_features l)
      = f32_sum (\<lambda>k. f32_mul (w k) (Num (W l j k))) (in_features l)"
    by (rule f32_sum_cong) (simp add: a)
  then show ?thesis by (simp add: affine_f32_def)
qed

section \<open>The attention module on float32 numbers, entry by entry\<close>

lemma MultiHeadedAttention_forward_f32_closed:
  assumes init: "MultiHeadedAttention_init d_in D ctx H wq wk wv wo = Inr m"
    and x: "shape x = [b, n, d_in]" and n: "n \<le> ctx"
  shows "\<exists>y. MultiHeadedAttention_forward_f32 m x = Inr y \<and> shape y = [b, n, D] \<and>
           (\<forall>i t j. i < b \<longrightarrow> t < n \<longrightarrow> j < D \<longrightarrow> elem y [i, t, j] = attention_f32 m x n i t j)"
proof -
  note f = MultiHeadedAttention_init_Inr [OF init]
  let ?e = "D div H"
  have De: "H * ?e = D" using f(2) by simp
  have ev: "even ?e" by (rule f(3))
  have io: "in_features (W_query m) = d_in" "in_features (W_key m) = d_in"
    "in_features (W_value m) = d_in" "in_features (out_proj m) = D"
    "out_features (W_query m) = D" "out_features (W_key m) = D"
    "out_features (W_value m) = D" "out_features (out_proj m) = D"
    by (simp_all add: f(8-11) Linear_init_def)
  \<comment> \<open>the three projections\<close>
  from Linear_forward_f32_3d [OF x io(1)] obtain q0 where
    q0: "Linear_forward_f32 (W_query m) x = Inr q0" "shape q0 = [b, n, D]"
    and q0e: "\<And>i t j. elem q0 [i, t, j] = affine_f32 (W_query m) (\<lambda>k. elem x [i, t, k]) j"
    unfolding io by blast
  from Linear_forward_f32_3d [OF x io(2)] obtain k0 where
    k0: "Linear_forward_f32 (W_key m) x = Inr k0" "shape k0 = [b, n, D]"
    and k0e: "\<And>i t j. elem k0 [i, t, j] = affine_f32 (W_key m) (\<lambda>k. elem x [i, t, k]) j"
    unfolding io by blast
  from Linear_forward_f32_3d [OF x io(3)] obtain v0 where
    v0: "Linear_forward_f32 (W_value m) x = Inr v0" "shape v0 = [b, n, D]"
    and v0e: "\<And>i t j. elem v0 [i, t, j] = affine_f32 (W_value m) (\<lambda>k. elem x [i, t, k]) j"
    unfolding io by blast
  \<comment> \<open>split into heads\<close>
  have sq0: "shape q0 = [b, n, H * ?e]" "shape k0 = [b, n, H * ?e]" "shape v0 = [b, n, H * ?e]"
    using q0(2) k0(2) v0(2) De by simp_all
  from view_heads [OF sq0(1)] obtain q1 where
    q1: "view q0 [b, n, H, ?e] = Inr q1" "shape q1 = [b, n, H, ?e]"
    and q1e: "\<And>i t a j. t < n \<Longrightarrow> a < H \<Longrightarrow> j < ?e \<Longrightarrow>
                elem q1 [i, t, a, j] = elem q0 [i, t, a * ?e + j]"
    by blast
  from view_heads [OF sq0(2)] obtain k1 where
    k1: "view k0 [b, n, H, ?e] = Inr k1" "shape k1 = [b, n, H, ?e]"
    and k1e: "\<And>i t a j. t < n \<Longrightarrow> a < H \<Longrightarrow> j < ?e \<Longrightarrow>
                elem k1 [i, t, a, j] = elem k0 [i, t, a * ?e + j]"
    by blast
  from view_heads [OF sq0(3)] obtain v1 where
    v1: "view v0 [b, n, H, ?e] = Inr v1" "shape v1 = [b, n, H, ?e]"
    and v1e: "\<And>i t a j. t < n \<Longrightarrow> a < H \<Longrightarrow> j < ?e \<Longrightarrow>
                elem v1 [i, t, a, j] = elem v0 [i, t, a * ?e + j]"
    by blast
  let ?q2 = "transpose_dims (Suc 0) 2 q1"
  let ?k2 = "transpose_dims (Suc 0) 2 k1"
  let ?v2 = "transpose_dims (Suc 0) 2 v1"
  have s2: "shape ?q2 = [b, H, n, ?e]" "shape ?k2 = [b, H, n, ?e]" "shape ?v2 = [b, H, n, ?e]"
    using q1(2) k1(2) v1(2) by (simp_all add: shape_transpose_1_2)
  have q2e: "elem ?q2 [i, a, t, j] = head_slice_f32 (W_query m) ?e x i t a j"
    and k2e: "elem ?k2 [i, a, t, j] = head_slice_f32 (W_key m) ?e x i t a j"
    and v2e: "elem ?v2 [i, a, t, j] = head_slice_f32 (W_value m) ?e x i t a j"
    if "t < n" "a < H" "j < ?e" for i a t j
    using that by (simp_all add: q1e k1e v1e q0e k0e v0e head_slice_f32_def)
  \<comment> \<open>rotary embedding of keys and queries\<close>
  from precompute_rope_params_even [OF ev, of 10000 ctx] f(4) have
    sc: "shape (rope_cos m) = [ctx, ?e]" "shape (rope_sin m) = [ctx, ?e]"
    by auto
  have rot: "f32_add (f32_mul (elem z [i, a, t, j]) (Num (elem (rope_cos m) [t, j])))
               (f32_mul (if j < ?e div 2 then f32_neg (elem z [i, a, t, j + ?e div 2])
                         else elem z [i, a, t, j - ?e div 2]) (Num (elem (rope_sin m) [t, j])))
             = rope_f32 (rope_cos m) (rope_sin m) ?e t (head_slice_f32 l ?e x i t a) j"
    if "j < ?e"
      and z: "\<And>j. j < ?e \<Longrightarrow> elem z [i, a, t, j] = head_slice_f32 l ?e x i t a j"
    for z :: "f32 tensor" and l i a t j
  proof (cases "j < ?e div 2")
    case True
    then have "j + ?e div 2 < ?e" using ev by (auto elim!: evenE)
    then show ?thesis
      using True z [OF that(1)] z [of "j + ?e div 2"] by (simp add: rope_f32_def)
  next
    case False
    have "j - ?e div 2 < ?e" using that(1) by simp
    then show ?thesis
      using False z [OF that(1)] z [of "j - ?e div 2"] by (simp add: rope_f32_def)
  qed
  from compute_rope_f32_elem [OF s2(2) ev sc n] obtain k3 where
    k3: "compute_rope_f32 ?k2 (rope_cos m) (rope_sin m) = Inr k3" "shape k3 = [b, H, n, ?e]"
    and k3r: "\<And>i a t j. i < b \<Longrightarrow> a < H \<Longrightarrow> t < n \<Longrightarrow> j < ?e \<Longrightarrow>
       elem k3 [i, a, t, j] =
         f32_add (f32_mul (elem ?k2 [i, a, t, j]) (Num (elem (rope_cos m) [t, j])))
           (f32_mul (if j < ?e div 2 then f32_neg (elem ?k2 [i, a, t, j + ?e div 2])
                     else elem ?k2 [i, a, t, j - ?e div 2]) (Num (elem (rope_sin m) [t, j])))"
    by blast
  from compute_rope_f32_elem [OF s2(1) ev sc n] obtain q3 where
    q3: "compute_rope_f32 ?q2 (rope_cos m) (rope_sin m) = Inr q3" "shape q3 = [b, H, n, ?e]"
    and q3r: "\<And>i a t j. i < b \<Longrightarrow> a < H \<Longrightarrow> t < n \<Longrightarrow> j < ?e \<Longrightarrow>
       elem q3 [i, a, t, j] =
         f32_add (f32_mul (elem ?q2 [i, a, t, j]) (Num (elem (rope_cos m) [t, j])))
           (f32_mul (if j < ?e div 2 then f32_neg (elem ?q2 [i, a, t, j + ?e div 2])
                     else elem ?q2 [i, a, t, j - ?e div 2]) (Num (elem (rope_sin m) [t, j])))"
    by blast
  have k3e: "elem k3 [i, a, t, j]
      = rope_f32 (rope_cos m) (rope_sin m) ?e t (head_slice_f32 (W_key m) ?e x i t a) j"
    if "i < b" "a < H" "t < n" "j < ?e" for i a t j
    unfolding k3r [OF that]
    by (rule rot [OF that(4)]) (rule k2e [OF that(3,2)])
  have q3e: "elem q3 [i, a, t, j]
      = rope_f32 (rope_cos m) (rope_sin m) ?e t (head_slice_f32 (W_query m) ?e x i t a) j"
    if "i < b" "a < H" "t < n" "j < ?e" for i a t j
    unfolding q3r [OF that]
    by (rule rot [OF that(4)]) (rule q2e [OF that(3,2)])
  \<comment> \<open>scores, mask and softmax\<close>
  have sk: "shape (transpose_dims 2 3 k3) = [b, H, ?e, n]"
    using k3(2) by (simp add: shape_transpose_2_3)
  from matmul_f32_4d [OF q3(2) sk] obtain s0 where
    s0: "matmul_f32 q3 (transpose_dims 2 3 k3) = Inr s0" "shape s0 = [b, H, n, n]"
    and s0e: "\<And>i a t u. i < b \<Longrightarrow> a < H \<Longrightarrow>
       elem s0 [i, a, t, u]
         = f32_sum (\<lambda>j. f32_mul (elem q3 [i, a, t, j]) (elem k3 [i, a, u, j])) ?e"
    by auto
  from mask_bool_elem [OF n] obtain mr mb where
    mb: "rows_to n (tmap (\<lambda>v. v \<noteq> 0) (mask m)) = Inr mr" "slice_to (Suc 0) n mr = Inr mb"
      "shape mb = [n, n]"
    and mbe: "\<And>t u. elem mb [t, u] \<longleftrightarrow> t < u"
    unfolding f(12) by auto
  from masked_fill_4d [OF s0(2) mb(3), of MinusInf] obtain s1 where
    s1: "masked_fill s0 mb MinusInf = Inr s1" "shape s1 = [b, H, n, n]"
    and s1e: "\<And>i a t u. t < n \<Longrightarrow> u < n \<Longrightarrow>
       elem s1 [i, a, t, u] = (if t < u then MinusInf else elem s0 [i, a, t, u])"
    unfolding mbe by auto
  let ?sc = "tmap (\<lambda>v. f32_div v (Num (sqrt (real ?e)))) s1"
  let ?w = "softmax_f32 ?sc"
  have ssc: "shape ?sc = [b, H, n, n]" using s1(2) by simp
  have sce: "elem ?sc [i, a, t, u] = attn_score_f32 m x i a t u"
    if "i < b" "a < H" "t < n" "u < n" for i a t u
  proof -
    have "f32_sum (\<lambda>j. f32_mul (elem q3 [i, a, t, j]) (elem k3 [i, a, u, j])) ?e
        = f32_sum (\<lambda>j.
            f32_mul (rope_f32 (rope_cos m) (rope_sin m) ?e t (head_slice_f32 (W_query m) ?e x i t a) j)
              (rope_f32 (rope_cos m) (rope_sin m) ?e u (head_slice_f32 (W_key m) ?e x i u a) j)) ?e"
      by (rule f32_sum_cong) (simp add: q3e k3e that)
    then show ?thesis
      using that by (simp add: s1e s0e attn_score_f32_def f(7))
  qed
  have sw: "shape ?w = [b, H, n, n]" by (rule softmax_f32_4d(1) [OF ssc])
  have we: "elem ?w [i, a, t, u] = attn_weight_f32 m x n i a t u"
    if "i < b" "a < H" "t < n" "u < n" for i a t u
    unfolding softmax_f32_4d(2) [OF ssc] attn_weight_f32_def
    by (rule softmax_row_cong) (simp_all only: sce [OF that(1,2,3)] that(4))
  \<comment> \<open>weights times values, heads concatenated, output projection\<close>
  from matmul_f32_4d [OF sw s2(3)] obtain c0 where
    c0: "matmul_f32 ?w ?v2 = Inr c0" "shape c0 = [b, H, n, ?e]"
    and c0m: "\<And>i a t j. i < b \<Longrightarrow> a < H \<Longrightarrow>
       elem c0 [i, a, t, j] = f32_sum (\<lambda>u. f32_mul (elem ?w [i, a, t, u]) (elem ?v2 [i, a, u, j])) n"
    by auto
  have c0e: "elem c0 [i, a, t, j] = head_output_f32 m x n i a t j"
    if "i < b" "a < H" "t < n" "j < ?e" for i a t j
    unfolding c0m [OF that(1,2)] head_output_f32_def f(7)
    by (rule f32_sum_cong) (simp only: we [OF that(1,2,3)] v2e [OF _ that(2,4)])
  let ?c1 = "transpose_dims (Suc 0) 2 c0"
  have sc1: "shape ?c1 = [b, n, H, ?e]" using c0(2) by (simp add: shape_transpose_1_2)
  from reshape_heads [OF sc1] obtain c2 where
    c2: "reshape ?c1 [b, n, D] = Inr c2" "shape c2 = [b, n, D]"
    and c2r: "\<And>i t c. t < n \<Longrightarrow> c < D \<Longrightarrow>
       elem c2 [i, t, c] = elem ?c1 [i, t, c div ?e, c mod ?e]"
    unfolding De by blast
  have c2e: "elem c2 [i, t, c] = head_output_f32 m x n i (c div ?e) t (c mod ?e)"
    if "i < b" "t < n" "c < D" for i t c
  proof -
    have e0: "0 < ?e" using that(3) De by (cases "?e") auto
    have "c < H * ?e" using that(3) De by simp
    then have "c div ?e < H" using e0 by (simp add: less_mult_imp_div_less)
    moreover have "c mod ?e < ?e" using e0 by simp
    ultimately show ?thesis
      using that by (simp add: c2r c0e)
  qed
  from Linear_forward_f32_3d [OF c2(2) io(4)] obtain y where
    y: "Linear_forward_f32 (out_proj m) c2 = Inr y" "shape y = [b, n, D]"
    and yl: "\<And>i t j. elem y [i, t, j] = affine_f32 (out_proj m) (\<lambda>c. elem c2 [i, t, c]) j"
    unfolding io by blast
  have ye: "elem y [i, t, j] = attention_f32 m x n i t j" if "i < b" "t < n" for i t j
    unfolding yl attention_f32_def f(7)
    by (rule affine_f32_cong) (simp add: io c2e that)
  have "MultiHeadedAttention_forward_f32 m x = Inr y"
    by (simp add: MultiHeadedAttention_forward_f32_def x q0 k0 v0 f(5,6,7) q1 k1 v1 k3 q3 s0 mb s1
        c0 c2 y)
  with y(2) ye show ?thesis by blast
qed

section \<open>Causality of the attention module on float32 numbers\<close>

text \<open>A masked score is \<open>-inf\<close>, and its softmax weight is 0, or \<open>nan\<close> when the row has a
  \<open>nan\<close> or no finite entry.\<close>

lemma softmax_row_masked:
  assumes "v u = MinusInf"
  shows "softmax_row v n u = Num 0 \<or> softmax_row v n u = NaN"
proof -
  let ?m = "foldl f32_max MinusInf (map v [0..<n])"
  let ?e = "\<lambda>k. f32_exp (f32_add (v k) (f32_neg ?m))"
  have "f32_add MinusInf y = MinusInf \<or> f32_add MinusInf y = NaN" for y
    by (cases y) simp_all
  then have "?e u = Num 0 \<or> ?e u = NaN"
    using assms by (metis f32_exp.simps(3,4))
  moreover have "f32_div (Num 0) s = Num 0 \<or> f32_div (Num 0) s = NaN" for s
    by (cases s) simp_all
  moreover have "f32_div NaN s = NaN" for s
    by (cases s) simp_all
  ultimately show ?thesis
    unfolding softmax_row_def Let_def by metis
qed

lemma f32_mul_zero_finite:
  assumes "w = Num 0 \<or> w = NaN" and "finite_f32 v" and "finite_f32 v'"
  shows "f32_mul w v = f32_mul w v'"
  using assms by (cases v; cases v') auto

lemma attention_f32_causal:
  assumes io: "in_features (W_query m) = d_in" "in_features (W_key m) = d_in"
      "in_features (W_value m) = d_in" "in_features (out_proj m) = D"
    and t: "t \<le> p"
    and agree: "\<And>u k. u \<le> p \<Longrightarrow> k < d_in \<Longrightarrow> elem x [i, u, k] = elem x' [i, u, k]"
    and fin: "\<And>u c. p < u \<Longrightarrow> u < n \<Longrightarrow> c < D \<Longrightarrow>
                finite_f32 (affine_f32 (W_value m) (\<lambda>k. elem x [i, u, k]) c)"
    and fin': "\<And>u c. p < u \<Longrightarrow> u < n \<Longrightarrow> c < D \<Longrightarrow>
                finite_f32 (affine_f32 (W_value m) (\<lambda>k. elem x' [i, u, k]) c)"
  shows "attention_f32 m x n i t j = attention_f32 m x' n i t j"
proof -
  let ?e = "head_dim m"
  have hs: "head_slice_f32 l e x i u a = head_slice_f32 l e x' i u a"
    if "u \<le> p" "in_features l = d_in" for l e u a
    unfolding head_slice_f32_def
    by (rule ext, rule affine_f32_cong) (simp add: that agree)
  have sc: "attn_score_f32 m x i a t u = attn_score_f32 m x' i a t u" for a u
  proof (cases "t < u")
    case True
    then show ?thesis by (simp add: attn_score_f32_def)
  next
    case False
    then have "u \<le> p" using t by simp
    then show ?thesis using t by (simp add: attn_score_f32_def hs io)
  qed
  have w: "attn_weight_f32 m x n i a t u = attn_weight_f32 m x' n i a t u" for a u
    by (simp add: attn_weight_f32_def sc)
  have summand: "f32_mul (attn_weight_f32 m x n i a t u) (head_slice_f32 (W_value m) ?e x i u a c)
      = f32_mul (attn_weight_f32 m x' n i a t u) (head_slice_f32 (W_value m) ?e x' i u a c)"
    if "u < n" "a * ?e + c < D" for a u c
  proof (cases "u \<le> p")
    case True
    then show ?thesis by (simp add: w hs io)
  next
    case False
    then have u: "p < u" "t < u" using t by simp_all
    have "attn_score_f32 m x' i a t u = MinusInf" using u(2) by (simp add: attn_score_f32_def)
    then have "attn_weight_f32 m x' n i a t u = Num 0 \<or> attn_weight_f32 m x' n i a t u = NaN"
      unfolding attn_weight_f32_def by (rule softmax_row_masked)
    then show ?thesis
      unfolding w head_slice_f32_def
      by (rule f32_mul_zero_finite) (rule fin [OF u(1) that] fin' [OF u(1) that])+
  qed
  have "head_output_f32 m x n i (c div ?e) t (c mod ?e)
      = head_output_f32 m x' n i (c div ?e) t (c mod ?e)" if "c < D" for c
    unfolding head_output_f32_def
    by (rule f32_sum_cong) (rule summand, simp_all add: that)
  then show ?thesis
    unfolding attention_f32_def by (intro affine_f32_cong) (simp add: io)
qed

text \<open>
  Claim C1, amended. For two inputs \<open>x\<close> and \<open>x'\<close> of the same shape
  \<open>(batch, num_tokens, d_in)\<close> with \<open>num_tokens\<close> at most \<open>context_length\<close> that agree on all
  token positions up to and including position \<open>p\<close>, and whose value projections (\<open>W_value\<close>
  applied to the token) at the positions after \<open>p\<close> are finite,
  \<open>MultiHeadedAttention.forward\<close> returns on both, and the outputs agree at every token
  position up to and including \<open>p\<close>: a masked weight is 0 or \<open>nan\<close>, and its product with a
  finite value does not depend on the value.
\<close>

theorem MultiHeadedAttention_forward_f32_causal:
  assumes init: "MultiHeadedAttention_init d_in D ctx H wq wk wv wo = Inr m"
    and x: "shape x = [b, n, d_in]" and x': "shape x' = [b, n, d_in]" and n: "n \<le> ctx"
    and agree: "\<And>i t k. i < b \<Longrightarrow> t \<le> p \<Longrightarrow> k < d_in \<Longrightarrow> elem x [i, t, k] = elem x' [i, t, k]"
    and fin: "\<And>i u c. i < b \<Longrightarrow> p < u \<Longrightarrow> u < n \<Longrightarrow> c < D \<Longrightarrow>
                finite_f32 (affine_f32 (W_value m) (\<lambda>k. elem x [i, u, k]) c)"
    and fin': "\<And>i u c. i < b \<Longrightarrow> p < u \<Longrightarrow> u < n \<Longrightarrow> c < D \<Longrightarrow>
                finite_f32 (affine_f32 (W_value m) (\<lambda>k. elem x' [i, u, k]) c)"
  shows "\<exists>y y'. MultiHeadedAttention_forward_f32 m x = Inr y \<and>
           MultiHeadedAttention_forward_f32 m x' = Inr y' \<and>
           shape y = [b, n, D] \<and> shape y' = [b, n, D] \<and>
           (\<forall>i t j. i < b \<longrightarrow> t \<le> p \<longrightarrow> t < n \<longrightarrow> j < D \<longrightarrow> elem y [i, t, j] = elem y' [i, t, j])"
proof -
  note f = MultiHeadedAttention_init_Inr [OF init]
  have io: "in_features (W_query m) = d_in" "in_features (W_key m) = d_in"
    "in_features (W_value m) = d_in" "in_features (out_proj m) = D"
    by (simp_all add: f(8-11) Linear_init_def)
  from MultiHeadedAttention_forward_f32_closed [OF init x n] obtain y where
    y: "MultiHeadedAttention_forward_f32 m x = Inr y" "shape y = [b, n, D]"
    and ye: "\<And>i t j. i < b \<Longrightarrow> t < n \<Longrightarrow> j < D \<Longrightarrow> elem y [i, t, j] = attention_f32 m x n i t j"
    by blast
  from MultiHeadedAttention_forward_f32_closed [OF init x' n] obtain y' where
    y': "MultiHeadedAttention_forward_f32 m x' = Inr y'" "shape y' = [b, n, D]"
    and ye': "\<And>i t j. i < b \<Longrightarrow> t < n \<Longrightarrow> j < D \<Longrightarrow> elem y' [i, t, j] = attention_f32 m x' n i t j"
    by blast
  have "elem y [i, t, j] = elem y' [i, t, j]" if "i < b" "t \<le> p" "t < n" "j < D" for i t j
  proof -
    have "attention_f32 m x n i t j = attention_f32 m x' n i t j"
      using io that(2)
    proof (rule attention_f32_causal)
      fix u k assume "u \<le> p" "k < d_in"
      then show "elem x [i, u, k] = elem x' [i, u, k]"
        using agree [of i u k] that(1) by simp
    next
      fix u c assume "p < u" "u < n" "c < D"
      then show "finite_f32 (affine_f32 (W_value m) (\<lambda>k. elem x [i, u, k]) c)"
        "finite_f32 (affine_f32 (W_value m) (\<lambda>k. elem x' [i, u, k]) c)"
        using fin [of i u c] fin' [of i u c] that(1) by simp_all
    qed
    then show ?thesis using ye ye' that by simp
  qed
  with y y' show ?thesis by blast
qed

theorem MultiHeadedAttention_forward_f32_causal_witness:
  "\<exists>m y y'.
     MultiHeadedAttention_init 2 2 2 1 (\<lambda>_ _. 1) (\<lambda>_ _. 1) (\<lambda>_ _. 1) (\<lambda>_ _. 1) = Inr m \<and>
     MultiHeadedAttention_forward_f32 m
       \<lparr>shape = [1, 2, 2], elem = (\<lambda>idx. Num ([[1, 2], [0, 0]] ! (idx ! 1) ! (idx ! 2)))\<rparr>
       = Inr y \<and>
     MultiHeadedAttention_forward_f32 m
       \<lparr>shape = [1, 2, 2], elem = (\<lambda>idx. Num ([[1, 2], [5, 7]] ! (idx ! 1) ! (idx ! 2)))\<rparr>
       = Inr y' \<and>
     finite_f32 (affine_f32 (W_value m) (\<lambda>k. Num ([5, 7] ! k)) 0) \<and>
     finite_f32 (affine_f32 (W_value m) (\<lambda>k. Num ([5, 7] ! k)) 1) \<and>
     elem y [0, 0, 0] = elem y' [0, 0, 0] \<and> elem y [0, 0, 1] = elem y' [0, 0, 1]"
proof -
  let ?w = "\<lambda>(_::nat) (_::nat). 1::real"
  let ?x = "\<lparr>shape = [1, 2, 2],
             elem = (\<lambda>idx. Num ([[1, 2], [0, 0]] ! (idx ! 1) ! (idx ! 2)))\<rparr>"
  let ?x' = "\<lparr>shape = [1, 2, 2],
              elem = (\<lambda>idx. Num ([[1, 2], [5, 7]] ! (idx ! 1) ! (idx ! 2)))\<rparr>"
  from MultiHeadedAttention_init_ok [of 1 2 2 2 ?w ?w ?w ?w]
  obtain m where m: "MultiHeadedAttention_init 2 2 2 1 ?w ?w ?w ?w = Inr m"
    by auto
  note f = MultiHeadedAttention_init_Inr [OF m]
  have v: "affine_f32 (W_value m) (\<lambda>k. Num (r k)) c
             = f32_add (f32_add (Num 0) (rnd (r 0))) (rnd (r 1))" for r c
    by (simp add: affine_f32_def f(10) Linear_init_def)
  have fin: "finite_f32 (affine_f32 (W_value m) (\<lambda>k. elem ?x [i, u, k]) c)"
    and fin': "finite_f32 (affine_f32 (W_value m) (\<lambda>k. elem ?x' [i, u, k]) c)"
    if "0 < u" "u < 2" for i u c
  proof -
    have u: "u = 1" using that by simp
    show "finite_f32 (affine_f32 (W_value m) (\<lambda>k. elem ?x [i, u, k]) c)"
      "finite_f32 (affine_f32 (W_value m) (\<lambda>k. elem ?x' [i, u, k]) c)"
      by (simp_all add: u v)
  qed
  have agree: "elem ?x [i, t, k] = elem ?x' [i, t, k]" if "t \<le> 0" for i t k
    using that by simp
  from MultiHeadedAttention_forward_f32_causal [OF m, of ?x 1 2 ?x' 0]
  obtain y y' where
    y: "MultiHeadedAttention_forward_f32 m ?x = Inr y"
      "MultiHeadedAttention_forward_f32 m ?x' = Inr y'"
    and e: "\<And>j. j < 2 \<Longrightarrow> elem y [0, 0, j] = elem y' [0, 0, j]"
    using agree fin fin' by auto
  have "finite_f32 (affine_f32 (W_value m) (\<lambda>k. Num ([5, 7] ! k)) c)" for c
    by (simp add: v)
  with m y e [of 0] e [of 1] show ?thesis by auto
qed

text \<open>
  Claim C1 states the property for every pair of inputs. It fails where a value
  projection overflows. Take a module with one head of dimension 2 on a context of 2
  positions, all weights 1, and the inputs \<open>((1, 2), (0, 0))\<close> and
  \<open>((1, 2), (3e38, 3e38))\<close>, which agree at position 0. The value projection of the second
  token of the second input is \<open>3e38 + 3e38\<close>, which overflows to \<open>inf\<close>. At position 0 the
  softmax gives this token the weight 0, and \<open>0 * inf\<close> is \<open>nan\<close>: the first entry of the
  output at position 0 is 6 on the first input and \<open>nan\<close> on the second.
\<close>

theorem MultiHeadedAttention_forward_counterexample:
  "\<exists>m y y'.
     MultiHeadedAttention_init 2 2 2 1 (\<lambda>_ _. 1) (\<lambda>_ _. 1) (\<lambda>_ _. 1) (\<lambda>_ _. 1) = Inr m \<and>
     MultiHeadedAttention_forward_f32 m
       \<lparr>shape = [1, 2, 2], elem = (\<lambda>idx. Num ([[1, 2], [0, 0]] ! (idx ! 1) ! (idx ! 2)))\<rparr>
       = Inr y \<and>
     MultiHeadedAttention_forward_f32 m
       \<lparr>shape = [1, 2, 2],
        elem = (\<lambda>idx. Num ([[1, 2], [300000000000000000000000000000000000000, 300000000000000000000000000000000000000]] ! (idx ! 1) ! (idx ! 2)))\<rparr>
       = Inr y' \<and>
     elem y [0, 0, 0] = Num 6 \<and> elem y' [0, 0, 0] = NaN"
proof -
  let ?w = "\<lambda>(_::nat) (_::nat). 1::real"
  let ?x = "\<lparr>shape = [1, 2, 2],
             elem = (\<lambda>idx. Num ([[1, 2], [0, 0]] ! (idx ! 1) ! (idx ! 2)))\<rparr>"
  let ?x' = "\<lparr>shape = [1, 2, 2],
              elem = (\<lambda>idx. Num ([[1, 2], [300000000000000000000000000000000000000, 300000000000000000000000000000000000000]] ! (idx ! 1) ! (idx ! 2)))\<rparr>"
  from MultiHeadedAttention_init_ok [of 1 2 2 2 ?w ?w ?w ?w]
  obtain m where m: "MultiHeadedAttention_init 2 2 2 1 ?w ?w ?w ?w = Inr m"
    by auto
  note f = MultiHeadedAttention_init_Inr [OF m]
  from precompute_rope_params_even [of 2 10000 2] f(4) have
    tab: "\<And>j. j < 2 \<Longrightarrow> elem (rope_cos m) [0, j] = 1 \<and> elem (rope_sin m) [0, j] = 0"
    by auto
  have aff: "affine_f32 l v j = f32_add (f32_add (Num 0) (f32_mul (v 0) (Num 1))) (f32_mul (v 1) (Num 1))"
    if "l = Linear_init 2 2 False (\<lambda>_ _. 1) (\<lambda>_. 0)" for l v j
    using that by (simp add: affine_f32_def Linear_init_def)
  have big: "rnd (300000000000000000000000000000000000000 + 300000000000000000000000000000000000000) = PosInf" "rnd 300000000000000000000000000000000000000 = Num 300000000000000000000000000000000000000"
    by (simp_all add: rnd_def)
  have z: "\<bar>18 / sqrt 2 :: real\<bar> \<le> 64"
  proof -
    have "1 \<le> sqrt 2" by simp
    then have "18 / sqrt 2 \<le> 18 / 1" by (intro divide_left_mono) simp_all
    then show ?thesis by simp
  qed
  \<comment> \<open>what the two inputs share: the slices of token 0, the scores and the weights of row 0\<close>
  have first: "attention_f32 m X 2 0 0 0 =
      f32_add
        (f32_add (Num 0)
           (f32_mul (f32_add (Num 3)
              (f32_mul (Num 0) (affine_f32 (W_value m) (\<lambda>k. elem X [0, 1, k]) 0))) (Num 1)))
        (f32_mul (f32_add (Num 3)
           (f32_mul (Num 0) (affine_f32 (W_value m) (\<lambda>k. elem X [0, 1, k]) 1))) (Num 1))"
    if X: "elem X [0, 0, 0] = Num 1" "elem X [0, 0, 1] = Num 2" for X
  proof -
    have hs: "head_slice_f32 l 2 X 0 0 0 j = Num 3"
      if "l = Linear_init 2 2 False (\<lambda>_ _. 1) (\<lambda>_. 0)" for l j
      using X by (simp add: head_slice_f32_def aff [OF that])
    have r: "rope_f32 (rope_cos m) (rope_sin m) 2 0 (head_slice_f32 l 2 X 0 0 0) j = Num 3"
      if "l = Linear_init 2 2 False (\<lambda>_ _. 1) (\<lambda>_. 0)" "j < 2" for l j
      using tab [OF that(2)] by (simp add: rope_f32_def hs [OF that(1)])
    have s: "attn_score_f32 m X 0 0 0 0 = Num (18 / sqrt 2)"
      "attn_score_f32 m X 0 0 0 (Suc 0) = MinusInf"
      using z by (simp_all add: attn_score_f32_def f(7) r f(8,9))
    have w: "attn_weight_f32 m X 2 0 0 0 0 = Num 1" "attn_weight_f32 m X 2 0 0 0 (Suc 0) = Num 0"
      by (simp_all add: attn_weight_f32_def softmax_row_def s upt_conv_Cons)
    have o: "head_output_f32 m X 2 0 0 0 j =
        f32_add (Num 3) (f32_mul (Num 0) (affine_f32 (W_value m) (\<lambda>k. elem X [0, 1, k]) j))" for j
      by (simp add: head_output_f32_def w f(7) hs [OF f(10)]) (simp add: head_slice_f32_def)
    show ?thesis
      by (simp add: attention_f32_def aff [OF f(11)] f(7) o)
  qed
  have v: "affine_f32 (W_value m) (\<lambda>k. elem ?x [0, 1, k]) j = Num 0"
    and v': "affine_f32 (W_value m) (\<lambda>k. elem ?x' [0, 1, k]) j = PosInf" for j
    using big by (simp_all add: aff [OF f(10)])
  have sx: "shape ?x = [1, 2, 2]" "shape ?x' = [1, 2, 2]" and n: "(2::nat) \<le> 2" by simp_all
  from MultiHeadedAttention_forward_f32_closed [OF m sx(1) n] obtain y where
    y: "MultiHeadedAttention_forward_f32 m ?x = Inr y"
      "elem y [0, 0, 0] = attention_f32 m ?x 2 0 0 0"
    by auto
  from MultiHeadedAttention_forward_f32_closed [OF m sx(2) n] obtain y' where
    y': "MultiHeadedAttention_forward_f32 m ?x' = Inr y'"
      "elem y' [0, 0, 0] = attention_f32 m ?x' 2 0 0 0"
    by auto
  have "elem y [0, 0, 0] = Num 6"
    unfolding y(2) using first [of ?x] v [of 0] v [of 1] by simp
  moreover have "elem y' [0, 0, 0] = NaN"
    unfolding y'(2) using first [of ?x'] v' [of 0] v' [of 1] by (simp add: scale_inf_def)
  ultimately show ?thesis using m y(1) y'(1) by blast
qed

section \<open>Which errors the rotary functions and the constructor raise\<close>

lemma precompute_rope_params_assert:
  "precompute_rope_params d \<theta> ctx = Inl AssertionError \<longleftrightarrow> odd d"
proof (cases "even d")
  case True
  from precompute_rope_params_even [OF True, of \<theta> ctx] show ?thesis using True by auto
next
  case False
  then show ?thesis by (simp add: precompute_rope_params_def odd_iff_mod_2_eq_one)
qed

lemma then_do_eq_Inl:
  "then_do r f = Inl e \<longleftrightarrow> r = Inl e \<or> (\<exists>v. r = Inr v \<and> f v = Inl e)"
  by (cases r) simp_all

lemma binop_not_assert: "binop f a b \<noteq> Inl AssertionError"
  by (auto simp add: binop_def broadcast_shapes_def then_do_eq_Inl split: option.splits)

lemma compute_rope_assert:
  assumes "shape x = [b, h, n, d]"
  shows "compute_rope x c s = Inl AssertionError \<longleftrightarrow> odd d"
proof (cases "even d")
  case False
  then show ?thesis using assms by (simp add: compute_rope_def odd_iff_mod_2_eq_one)
next
  case True
  have "compute_rope x c s \<noteq> Inl AssertionError"
    using assms True binop_not_assert [where f = "(*)"] binop_not_assert [where f = "(+)"]
    by (auto simp add: compute_rope_def then_do_eq_Inl slice_to_def slice_from_def cat_last_def
        rows_to_def mul_def add_def split: if_splits)
  then show ?thesis using True by simp
qed

lemma MultiHeadedAttention_init_assert:
  assumes "0 < H"
  shows "MultiHeadedAttention_init d_in D ctx H wq wk wv wo = Inl AssertionError
         \<longleftrightarrow> D mod H \<noteq> 0 \<or> odd (D div H)"
proof (cases "D mod H = 0")
  case False
  then show ?thesis using assms by (simp add: MultiHeadedAttention_init_def)
next
  case True
  show ?thesis
  proof (cases "even (D div H)")
    case e: True
    from MultiHeadedAttention_init_ok [OF _ True e, of d_in ctx wq wk wv wo] assms
    show ?thesis using True e by auto
  next
    case False
    then have "precompute_rope_params (D div H) 10000 ctx = Inl AssertionError"
      by (simp add: precompute_rope_params_assert)
    then show ?thesis using assms True False by (simp add: MultiHeadedAttention_init_def)
  qed
qed

lemma MultiHeadedAttention_init_zero_heads:
  "MultiHeadedAttention_init d_in D ctx 0 wq wk wv wo = Inl ZeroDivisionError"
  by (simp add: MultiHeadedAttention_init_def)

section \<open>The transformer block\<close>

lemma add_same_shape_3d:
  assumes "shape a = [b, n, d]" and "shape c = [b, n, d]"
  shows "\<exists>y. add a c = Inr y \<and> shape y = [b, n, d] \<and>
           (\<forall>i t j. i < b \<longrightarrow> t < n \<longrightarrow> j < d \<longrightarrow> elem y [i, t, j] = elem a [i, t, j] + elem c [i, t, j])"
  using assms by (simp add: add_def binop_def)

lemma TransformerBlock_init_Inr:
  assumes "TransformerBlock_init cfg wq wk wv wo p1 p2 p3 = Inr blk"
  shows "MultiHeadedAttention_init (emb_dim cfg) (emb_dim cfg) (context_length cfg) (n_heads cfg)
           wq wk wv wo = Inr (att blk)"
    and "ff blk = FeedForward_init cfg p1 p2 p3"
    and "norm1 blk = RMSNorm_init (emb_dim cfg) (1 / 100000)"
    and "norm2 blk = RMSNorm_init (emb_dim cfg) (1 / 100000)"
  using assms
  by (cases "MultiHeadedAttention_init (emb_dim cfg) (emb_dim cfg) (context_length cfg)
        (n_heads cfg) wq wk wv wo"; auto simp add: TransformerBlock_init_def)+

lemma TransformerBlock_forward_residual:
  assumes a: "MultiHeadedAttention_init d d ctx H wq wk wv wo = Inr (att blk)"
    and f: "ff blk = FeedForward_init cfg p1 p2 p3" and cfg: "emb_dim cfg = d"
    and n1: "embd_dim (norm1 blk) = d" and n2: "embd_dim (norm2 blk) = d"
    and x: "shape x = [b, n, d]" and n: "n \<le> ctx"
  shows "\<exists>x1 av h x2 fo y.
           RMSNorm_forward (norm1 blk) x = Inr x1 \<and>
           MultiHeadedAttention_forward (att blk) x1 = Inr av \<and>
           add av x = Inr h \<and>
           RMSNorm_forward (norm2 blk) h = Inr x2 \<and>
           FeedForward_forward (ff blk) x2 = Inr fo \<and>
           add fo h = Inr y \<and>
           TransformerBlock_forward blk x = Inr y \<and> shape y = [b, n, d] \<and>
           (\<forall>i t j. i < b \<longrightarrow> t < n \<longrightarrow> j < d \<longrightarrow>
              elem h [i, t, j] = elem av [i, t, j] + elem x [i, t, j] \<and>
              elem y [i, t, j] = elem fo [i, t, j] + elem h [i, t, j])"
proof -
  have x0: "shape x \<noteq> []" "last (shape x) = embd_dim (norm1 blk)" using x n1 by simp_all
  from RMSNorm_forward_elem [OF x0] obtain x1 where
    x1: "RMSNorm_forward (norm1 blk) x = Inr x1" "shape x1 = [b, n, d]"
    using x by auto
  from MultiHeadedAttention_forward_closed [OF a x1(2) n] obtain av where
    av: "MultiHeadedAttention_forward (att blk) x1 = Inr av" "shape av = [b, n, d]"
    by blast
  from add_same_shape_3d [OF av(2) x] obtain h where
    h: "add av x = Inr h" "shape h = [b, n, d]"
    and he: "\<And>i t j. i < b \<Longrightarrow> t < n \<Longrightarrow> j < d \<Longrightarrow> elem h [i, t, j] = elem av [i, t, j] + elem x [i, t, j]"
    by blast
  have h0: "shape h \<noteq> []" "last (shape h) = embd_dim (norm2 blk)" using h(2) n2 by simp_all
  from RMSNorm_forward_elem [OF h0] obtain x2 where
    x2: "RMSNorm_forward (norm2 blk) h = Inr x2" "shape x2 = [b, n, d]"
    using h(2) by auto
  have x20: "shape x2 \<noteq> []" "last (shape x2) = emb_dim cfg" using x2(2) cfg by simp_all
  from FeedForward_forward_elem [OF x20, of p1 p2 p3] obtain fo where
    fo: "FeedForward_forward (ff blk) x2 = Inr fo" "shape fo = [b, n, d]"
    using x2(2) cfg f by auto
  from add_same_shape_3d [OF fo(2) h(2)] obtain y where
    y: "add fo h = Inr y" "shape y = [b, n, d]"
    and ye: "\<And>i t j. i < b \<Longrightarrow> t < n \<Longrightarrow> j < d \<Longrightarrow> elem y [i, t, j] = elem fo [i, t, j] + elem h [i, t, j]"
    by blast
  have "TransformerBlock_forward blk x = Inr y"
    by (simp add: TransformerBlock_forward_def x1 av h x2 fo y)
  with x1 av h x2 fo y he ye show ?thesis by blast
qed

text \<open>
  Claim C6. For every input \<open>x\<close> of shape \<open>(batch, num_tokens, emb_dim)\<close> with \<open>num_tokens\<close> at
  most \<open>context_length\<close>, and for any values \<open>g1\<close>, \<open>g2\<close> of the two learnable norm weight
  vectors, \<open>TransformerBlock.forward\<close> returns \<open>h + ff (norm2 h)\<close> where
  \<open>h = att (norm1 x) + x\<close>: each sublayer is applied to the output of its own RMSNorm, and
  its result is added to the input of that norm.
\<close>

theorem TransformerBlock_forward_formula:
  assumes init: "TransformerBlock_init cfg wq wk wv wo p1 p2 p3 = Inr blk0"
    and blk: "blk = blk0\<lparr>norm1 := (norm1 blk0)\<lparr>weight := g1\<rparr>,
                         norm2 := (norm2 blk0)\<lparr>weight := g2\<rparr>\<rparr>"
    and x: "shape x = [b, n, emb_dim cfg]" and n: "n \<le> context_length cfg"
  shows "\<exists>x1 av h x2 fo y.
           RMSNorm_forward (norm1 blk) x = Inr x1 \<and>
           MultiHeadedAttention_forward (att blk) x1 = Inr av \<and>
           add av x = Inr h \<and>
           RMSNorm_forward (norm2 blk) h = Inr x2 \<and>
           FeedForward_forward (ff blk) x2 = Inr fo \<and>
           add fo h = Inr y \<and>
           TransformerBlock_forward blk x = Inr y \<and> shape y = shape x \<and>
           (\<forall>i t j. i < b \<longrightarrow> t < n \<longrightarrow> j < emb_dim cfg \<longrightarrow>
              elem h [i, t, j] = elem av [i, t, j] + elem x [i, t, j] \<and>
              elem y [i, t, j] = elem fo [i, t, j] + elem h [i, t, j])"
proof -
  note f = TransformerBlock_init_Inr [OF init]
  have a: "MultiHeadedAttention_init (emb_dim cfg) (emb_dim cfg) (context_length cfg) (n_heads cfg)
           wq wk wv wo = Inr (att blk)"
    using f(1) blk by simp
  have ff: "ff blk = FeedForward_init cfg p1 p2 p3" using f(2) blk by simp
  have n1: "embd_dim (norm1 blk) = emb_dim cfg" and n2: "embd_dim (norm2 blk) = emb_dim cfg"
    using f(3,4) blk by (simp_all add: RMSNorm_init_def)
  from TransformerBlock_forward_residual [OF a ff refl n1 n2 x n] show ?thesis
    unfolding x .
qed

theorem TransformerBlock_forward_formula_witness:
  "\<exists>blk y.
     TransformerBlock_init
       \<lparr>vocab_size = 4, context_length = 2, emb_dim = 2, n_heads = 1,
        ff_bias = False, n_layers = 1, hidden_dim = 3\<rparr>
       (\<lambda>_ _. 1) (\<lambda>_ _. 1) (\<lambda>_ _. 1) (\<lambda>_ _. 1)
       (\<lambda>_ _. 1, \<lambda>_. 0) (\<lambda>_ _. 1, \<lambda>_. 0) (\<lambda>_ _. 1, \<lambda>_. 0) = Inr blk \<and>
     TransformerBlock_forward blk \<lparr>shape = [1, 2, 2], elem = (\<lambda>_. 1)\<rparr> = Inr y \<and>
     shape y = [1, 2, 2]"
proof -
  let ?cfg = "\<lparr>vocab_size = 4, context_length = 2, emb_dim = 2, n_heads = 1,
        ff_bias = False, n_layers = 1, hidden_dim = 3\<rparr>"
  let ?x = "\<lparr>shape = [1, 2, 2], elem = (\<lambda>_. 1::real)\<rparr>"
  from MultiHeadedAttention_init_ok [of 1 2 2 2 "\<lambda>_ _. 1" "\<lambda>_ _. 1" "\<lambda>_ _. 1" "\<lambda>_ _. 1"]
  obtain m where
    m: "MultiHeadedAttention_init 2 2 2 1 (\<lambda>_ _. 1) (\<lambda>_ _. 1) (\<lambda>_ _. 1) (\<lambda>_ _. 1) = Inr m"
    by auto
  then obtain blk where
    init: "TransformerBlock_init ?cfg (\<lambda>_ _. 1) (\<lambda>_ _. 1) (\<lambda>_ _. 1) (\<lambda>_ _. 1)
       (\<lambda>_ _. 1, \<lambda>_. 0) (\<lambda>_ _. 1, \<lambda>_. 0) (\<lambda>_ _. 1, \<lambda>_. 0) = Inr blk"
    by (simp add: TransformerBlock_init_def)
  have blk: "blk = blk\<lparr>norm1 := (norm1 blk)\<lparr>weight := weight (norm1 blk)\<rparr>,
                       norm2 := (norm2 blk)\<lparr>weight := weight (norm2 blk)\<rparr>\<rparr>"
    by simp
  have x: "shape ?x = [1, 2, emb_dim ?cfg]" and n: "2 \<le> context_length ?cfg"
    by simp_all
  from TransformerBlock_forward_formula [OF init blk x n] obtain y where
    "TransformerBlock_forward blk ?x = Inr y" "shape y = shape ?x"
    by blast
  with init show ?thesis by auto
qed

section \<open>Dtypes and devices: when the forward passes compute on the entries\<close>

lemma cast_to_Floating [simp]: "tmap (cast_to (Floating f)) y = y"
  by (simp add: tmap_def cast_to_def)

lemma RMSNorm_forward_typed_ok:
  assumes "dtype_of x = Floating f" and "device_of x = dv"
  shows "RMSNorm_forward_typed dv self x
         = then_do (RMSNorm_forward self (entries x)) (\<lambda>y. Inr (x\<lparr>entries := y\<rparr>))"
  using assms
  by (simp add: RMSNorm_forward_typed_def RMSNorm_forward_def Let_def then_do_def split: sum.splits)

lemma RMSNorm_forward_typed_not_floating:
  "dtype_of x = Integral \<or> dtype_of x = Boolean \<Longrightarrow>
   RMSNorm_forward_typed dv self x = Inl RuntimeError"
  by (auto simp add: RMSNorm_forward_typed_def)

lemma Linear_forward_typed_ok:
  assumes "dtype_of x = Floating (param_dtype pl)" and "device_of x = param_device pl"
  shows "Linear_forward_typed pl l x
         = then_do (Linear_forward l (entries x)) (\<lambda>y. Inr (x\<lparr>entries := y\<rparr>))"
  using assms by (simp add: Linear_forward_typed_def)

lemma Linear_forward_typed_mismatch:
  "dtype_of x \<noteq> Floating (param_dtype pl) \<or> device_of x \<noteq> param_device pl \<Longrightarrow>
   Linear_forward_typed pl l x = Inl RuntimeError"
  by (auto simp add: Linear_forward_typed_def)

lemma FeedForward_forward_typed_ok:
  assumes "dtype_of x = Floating (param_dtype pl)" and "device_of x = param_device pl"
  shows "FeedForward_forward_typed pl self x
         = then_do (FeedForward_forward self (entries x)) (\<lambda>y. Inr (x\<lparr>entries := y\<rparr>))"
  using assms
  by (simp add: FeedForward_forward_typed_def FeedForward_forward_def Linear_forward_typed_def
      then_do_def split: sum.splits)

lemma compute_rope_typed_ok:
  assumes "dtype_of x \<noteq> Boolean" and "device_of c = device_of x" and "device_of s = device_of x"
  shows "compute_rope_typed x c s
         = then_do (compute_rope (entries x) (entries c) (entries s))
             (\<lambda>y. Inr (x\<lparr>entries := tmap (cast_to (dtype_of x)) y\<rparr>))"
  using assms
  by (simp add: compute_rope_typed_def compute_rope_def then_do_def
      split: sum.splits list.splits)

lemma compute_rope_typed_assert:
  assumes "shape (entries x) = [b, h, n, d]"
  shows "compute_rope_typed x c s = Inl AssertionError \<longleftrightarrow> odd d"
proof (cases "even d")
  case False
  then show ?thesis using assms by (simp add: compute_rope_typed_def odd_iff_mod_2_eq_one)
next
  case True
  have "compute_rope_typed x c s \<noteq> Inl AssertionError"
    using assms True binop_not_assert [where f = "(*)"] binop_not_assert [where f = "(+)"]
    by (auto simp add: compute_rope_typed_def then_do_eq_Inl slice_to_def slice_from_def
        cat_last_def rows_to_def mul_def add_def split: if_splits)
  then show ?thesis using True by simp
qed

lemma MultiHeadedAttention_forward_typed_ok:
  assumes "dtype_of x = Floating (param_dtype pl)" and "device_of x = param_device pl"
  shows "MultiHeadedAttention_forward_typed pl self x
         = then_do (MultiHeadedAttention_forward self (entries x)) (\<lambda>y. Inr (x\<lparr>entries := y\<rparr>))"
proof (cases "\<exists>b n d. shape (entries x) = [b, n, d]")
  case True
  then obtain b n d where s: "shape (entries x) = [b, n, d]" by blast
  show ?thesis
    using assms
    by (simp add: MultiHeadedAttention_forward_typed_def MultiHeadedAttention_forward_def s
        Linear_forward_typed_def then_do_def split: sum.splits)
next
  case False
  then have "MultiHeadedAttention_forward_typed pl self x = Inl ValueError"
    "MultiHeadedAttention_forward self (entries x) = Inl ValueError"
    by (auto simp add: MultiHeadedAttention_forward_typed_def MultiHeadedAttention_forward_def
        split: list.splits)
  then show ?thesis by simp
qed

lemma TransformerBlock_forward_typed_ok:
  assumes "dtype_of x = Floating (param_dtype pl)" and "device_of x = param_device pl"
  shows "TransformerBlock_forward_typed pl self x
         = then_do (TransformerBlock_forward self (entries x)) (\<lambda>y. Inr (x\<lparr>entries := y\<rparr>))"
  using assms
  by (simp add: TransformerBlock_forward_typed_def TransformerBlock_forward_def Let_def
      RMSNorm_forward_typed_ok MultiHeadedAttention_forward_typed_ok
      FeedForward_forward_typed_ok then_do_def split: sum.splits)

section \<open>The errors of the core pipeline\<close>

text \<open>
  Claim C7 states that the constructor of \<open>MultiHeadedAttention\<close> raises an assertion error
  if and only if \<open>d_out\<close> is not divisible by \<open>num_heads\<close>. With \<open>d_out = 6\<close> and
  \<open>num_heads = 2\<close> the division is exact, but \<open>head_dim = 3\<close> is odd and the call of
  \<open>precompute_rope_params\<close> inside the constructor fails its assertion. The shape
  preconditions of the claim also leave the dtype and the device of the input open: with
  all of them met, \<^verbatim>\<open>nn.Linear\<close> raises a RuntimeError for an input whose dtype or device
  is not that of its weight (\<open>Linear_forward_typed_mismatch\<close>), and \<open>RMSNorm.forward\<close> for an
  integer or boolean input (\<open>RMSNorm_forward_typed_not_floating\<close>).
\<close>

theorem MultiHeadedAttention_init_counterexample:
  "(6::nat) mod 2 = 0 \<and>
   MultiHeadedAttention_init 4 6 8 2 (\<lambda>_ _. 0) (\<lambda>_ _. 0) (\<lambda>_ _. 0) (\<lambda>_ _. 0) = Inl AssertionError"
  by (simp add: MultiHeadedAttention_init_def precompute_rope_params_def)

text \<open>
  Claim C7, amended. \<open>precompute_rope_params\<close> raises an assertion error if and only if
  \<open>head_dim\<close> is odd, and returns otherwise; \<open>compute_rope\<close> on a 4-dimensional input raises
  an assertion error if and only if \<open>head_dim\<close> is odd; for \<open>num_heads\<close> at least 1 the
  constructor of \<open>MultiHeadedAttention\<close> raises an assertion error if and only if \<open>d_out\<close> is
  not divisible by \<open>num_heads\<close> or \<open>head_dim = d_out / num_heads\<close> is odd, and returns a module
  otherwise. Under these preconditions, with inputs of matching rank and size and
  \<open>num_tokens\<close> at most \<open>context_length\<close>, and with an input tensor that is on the device of
  the parameters and buffers and has the floating-point dtype of the linear layers (for
  \<open>RMSNorm\<close> any floating-point dtype, for \<open>compute_rope\<close> any dtype but \<^verbatim>\<open>bool\<close>), each forward
  computation (\<open>compute_rope\<close>, \<open>RMSNorm\<close>, \<open>FeedForward\<close>, \<open>MultiHeadedAttention\<close>,
  \<open>TransformerBlock\<close>) returns a result: no error is raised.
\<close>

theorem core_pipeline_errors:
  "(precompute_rope_params d \<theta> ctx = Inl AssertionError \<longleftrightarrow> odd d) \<and>
   (even d \<longrightarrow> (\<exists>c s. precompute_rope_params d \<theta> ctx = Inr (c, s))) \<and>
   (shape (entries x4) = [b, h, n, d] \<longrightarrow>
      (compute_rope_typed x4 c4 s4 = Inl AssertionError \<longleftrightarrow> odd d)) \<and>
   (shape (entries x4) = [b, h, n, d] \<and> even d \<and> n \<le> ctx \<and> dtype_of x4 \<noteq> Boolean \<longrightarrow>
      (\<exists>c s y. precompute_rope_params d \<theta> ctx = Inr (c, s) \<and>
         compute_rope_typed x4
           \<lparr>dtype_of = Floating Float32, device_of = device_of x4, entries = c\<rparr>
           \<lparr>dtype_of = Floating Float32, device_of = device_of x4, entries = s\<rparr> = Inr y)) \<and>
   (0 < H \<longrightarrow>
      (MultiHeadedAttention_init d_in D ctx H wq wk wv wo = Inl AssertionError
       \<longleftrightarrow> D mod H \<noteq> 0 \<or> odd (D div H))) \<and>
   (0 < H \<and> D mod H = 0 \<and> even (D div H) \<longrightarrow>
      (\<exists>m. MultiHeadedAttention_init d_in D ctx H wq wk wv wo = Inr m)) \<and>
   (MultiHeadedAttention_init d_in D ctx H wq wk wv wo = Inr m \<and>
    shape (entries x3) = [b, n, d_in] \<and> n \<le> ctx \<and>
    dtype_of x3 = Floating (param_dtype pl) \<and> device_of x3 = param_device pl \<longrightarrow>
      (\<exists>y. MultiHeadedAttention_forward_typed pl m x3 = Inr y)) \<and>
   (shape (entries xr) \<noteq> [] \<and> last (shape (entries xr)) = embd_dim rn \<and>
    dtype_of xr = Floating fd \<and> device_of xr = dv \<longrightarrow>
      (\<exists>y. RMSNorm_forward_typed dv rn xr = Inr y)) \<and>
   (shape (entries xf) \<noteq> [] \<and> last (shape (entries xf)) = emb_dim cfg \<and>
    dtype_of xf = Floating (param_dtype pl) \<and> device_of xf = param_device pl \<longrightarrow>
      (\<exists>y. FeedForward_forward_typed pl (FeedForward_init cfg p1 p2 p3) xf = Inr y)) \<and>
   (TransformerBlock_init cfg wq wk wv wo p1 p2 p3 = Inr blk \<and>
    shape (entries xb) = [b, n, emb_dim cfg] \<and> n \<le> context_length cfg \<and>
    dtype_of xb = Floating (param_dtype pl) \<and> device_of xb = param_device pl \<longrightarrow>
      (\<exists>y. TransformerBlock_forward_typed pl blk xb = Inr y))"
proof -
  have c1: "precompute_rope_params d \<theta> ctx = Inl AssertionError \<longleftrightarrow> odd d"
    by (rule precompute_rope_params_assert)
  have c2: "even d \<longrightarrow> (\<exists>c s. precompute_rope_params d \<theta> ctx = Inr (c, s))"
    using precompute_rope_params_even [of d \<theta> ctx] by blast
  have c3: "shape (entries x4) = [b, h, n, d] \<longrightarrow>
      (compute_rope_typed x4 c4 s4 = Inl AssertionError \<longleftrightarrow> odd d)"
    using compute_rope_typed_assert [of x4 b h n d c4 s4] by blast
  have c4: "shape (entries x4) = [b, h, n, d] \<and> even d \<and> n \<le> ctx \<and> dtype_of x4 \<noteq> Boolean \<longrightarrow>
      (\<exists>c s y. precompute_rope_params d \<theta> ctx = Inr (c, s) \<and>
         compute_rope_typed x4
           \<lparr>dtype_of = Floating Float32, device_of = device_of x4, entries = c\<rparr>
           \<lparr>dtype_of = Floating Float32, device_of = device_of x4, entries = s\<rparr> = Inr y)"
  proof (intro impI, elim conjE)
    assume x: "shape (entries x4) = [b, h, n, d]" and d: "even d" and n: "n \<le> ctx"
      and t: "dtype_of x4 \<noteq> Boolean"
    from compute_rope_precomputed [OF x d n, of \<theta>] obtain c s y where
      cs: "precompute_rope_params d \<theta> ctx = Inr (c, s)"
      and y: "compute_rope (entries x4) c s = Inr y"
      by blast
    let ?c = "\<lparr>dtype_of = Floating Float32, device_of = device_of x4, entries = c\<rparr>"
    let ?s = "\<lparr>dtype_of = Floating Float32, device_of = device_of x4, entries = s\<rparr>"
    have "compute_rope_typed x4 ?c ?s
        = Inr (x4\<lparr>entries := tmap (cast_to (dtype_of x4)) y\<rparr>)"
      using compute_rope_typed_ok [of x4 ?c ?s] t y by simp
    with cs show "\<exists>c s y. precompute_rope_params d \<theta> ctx = Inr (c, s) \<and>
         compute_rope_typed x4
           \<lparr>dtype_of = Floating Float32, device_of = device_of x4, entries = c\<rparr>
           \<lparr>dtype_of = Floating Float32, device_of = device_of x4, entries = s\<rparr> = Inr y"
      by blast
  qed
  have c5: "0 < H \<longrightarrow>
      (MultiHeadedAttention_init d_in D ctx H wq wk wv wo = Inl AssertionError
       \<longleftrightarrow> D mod H \<noteq> 0 \<or> odd (D div H))"
    using MultiHeadedAttention_init_assert [of H d_in D ctx wq wk wv wo] by blast
  have c6: "0 < H \<and> D mod H = 0 \<and> even (D div H) \<longrightarrow>
      (\<exists>m. MultiHeadedAttention_init d_in D ctx H wq wk wv wo = Inr m)"
    using MultiHeadedAttention_init_ok [of H D d_in ctx wq wk wv wo] by auto
  have c7: "MultiHeadedAttention_init d_in D ctx H wq wk wv wo = Inr m \<and>
    shape (entries x3) = [b, n, d_in] \<and> n \<le> ctx \<and>
    dtype_of x3 = Floating (param_dtype pl) \<and> device_of x3 = param_device pl \<longrightarrow>
      (\<exists>y. MultiHeadedAttention_forward_typed pl m x3 = Inr y)"
    using MultiHeadedAttention_forward_closed [of d_in D ctx H wq wk wv wo m "entries x3" b n]
      MultiHeadedAttention_forward_typed_ok [of x3 pl m]
    by auto
  have c8: "shape (entries xr) \<noteq> [] \<and> last (shape (entries xr)) = embd_dim rn \<and>
    dtype_of xr = Floating fd \<and> device_of xr = dv \<longrightarrow>
      (\<exists>y. RMSNorm_forward_typed dv rn xr = Inr y)"
    using RMSNorm_forward_elem [of "entries xr" rn] RMSNorm_forward_typed_ok [of xr fd dv rn]
    by auto
  have c9: "shape (entries xf) \<noteq> [] \<and> last (shape (entries xf)) = emb_dim cfg \<and>
    dtype_of xf = Floating (param_dtype pl) \<and> device_of xf = param_device pl \<longrightarrow>
      (\<exists>y. FeedForward_forward_typed pl (FeedForward_init cfg p1 p2 p3) xf = Inr y)"
    using FeedForward_forward_elem [of "entries xf" cfg p1 p2 p3]
      FeedForward_forward_typed_ok [of xf pl "FeedForward_init cfg p1 p2 p3"]
    by auto
  have c10: "TransformerBlock_init cfg wq wk wv wo p1 p2 p3 = Inr blk \<and>
    shape (entries xb) = [b, n, emb_dim cfg] \<and> n \<le> context_length cfg \<and>
    dtype_of xb = Floating (param_dtype pl) \<and> device_of xb = param_device pl \<longrightarrow>
      (\<exists>y. TransformerBlock_forward_typed pl blk xb = Inr y)"
  proof (intro impI, elim conjE)
    assume init: "TransformerBlock_init cfg wq wk wv wo p1 p2 p3 = Inr blk"
      and x: "shape (entries xb) = [b, n, emb_dim cfg]" and n: "n \<le> context_length cfg"
      and t: "dtype_of xb = Floating (param_dtype pl)" "device_of xb = param_device pl"
    note f = TransformerBlock_init_Inr [OF init]
    have "embd_dim (norm1 blk) = emb_dim cfg" "embd_dim (norm2 blk) = emb_dim cfg"
      using f(3,4) by (simp_all add: RMSNorm_init_def)
    from TransformerBlock_forward_residual [OF f(1,2) refl this x n]
    obtain y where "TransformerBlock_forward blk (entries xb) = Inr y" by blast
    then show "\<exists>y. TransformerBlock_forward_typed pl blk xb = Inr y"
      using TransformerBlock_forward_typed_ok [OF t, of blk] by simp
  qed
  show ?thesis
    by (intro conjI) (fact c1 c2 c3 c4 c5 c6 c7 c8 c9 c10)+
qed

theorem core_pipeline_errors_witness:
  "precompute_rope_params 3 10000 2 = Inl AssertionError \<and>
   compute_rope_typed
     \<lparr>dtype_of = Floating Float32, device_of = CPU,
      entries = \<lparr>shape = [1, 1, 2, 3], elem = (\<lambda>_. 1)\<rparr>\<rparr>
     \<lparr>dtype_of = Floating Float32, device_of = CPU, entries = ones [2, 3]\<rparr>
     \<lparr>dtype_of = Floating Float32, device_of = CPU, entries = ones [2, 3]\<rparr>
     = Inl AssertionError \<and>
   MultiHeadedAttention_init 2 6 2 2 (\<lambda>_ _. 1) (\<lambda>_ _. 1) (\<lambda>_ _. 1) (\<lambda>_ _. 1) = Inl AssertionError \<and>
   MultiHeadedAttention_init 2 5 2 2 (\<lambda>_ _. 1) (\<lambda>_ _. 1) (\<lambda>_ _. 1) (\<lambda>_ _. 1) = Inl AssertionError \<and>
   (\<exists>c s y. precompute_rope_params 2 10000 2 = Inr (c, s) \<and>
      compute_rope_typed
        \<lparr>dtype_of = Floating BFloat16, device_of = CPU,
         entries = \<lparr>shape = [1, 1, 2, 2], elem = (\<lambda>_. 1)\<rparr>\<rparr>
        \<lparr>dtype_of = Floating Float32, device_of = CPU, entries = c\<rparr>
        \<lparr>dtype_of = Floating Float32, device_of = CPU, entries = s\<rparr> = Inr y) \<and>
   (\<exists>m y. MultiHeadedAttention_init 2 2 2 1 (\<lambda>_ _. 1) (\<lambda>_ _. 1) (\<lambda>_ _. 1) (\<lambda>_ _. 1) = Inr m \<and>
      MultiHeadedAttention_forward_typed \<lparr>param_dtype = BFloat16, param_device = CPU\<rparr> m
        \<lparr>dtype_of = Floating BFloat16, device_of = CPU,
         entries = \<lparr>shape = [1, 2, 2], elem = (\<lambda>_. 1)\<rparr>\<rparr> = Inr y) \<and>
   (\<exists>y. RMSNorm_forward_typed CPU (RMSNorm_init 2 (1 / 100000))
        \<lparr>dtype_of = Floating BFloat16, device_of = CPU,
         entries = \<lparr>shape = [1, 2, 2], elem = (\<lambda>_. 1)\<rparr>\<rparr> = Inr y) \<and>
   (\<exists>y. FeedForward_forward_typed \<lparr>param_dtype = BFloat16, param_device = CPU\<rparr>
          (FeedForward_init
             \<lparr>vocab_size = 4, context_length = 2, emb_dim = 2, n_heads = 1,
              ff_bias = True, n_layers = 1, hidden_dim = 3\<rparr>
             (\<lambda>_ _. 1, \<lambda>_. 0) (\<lambda>_ _. 1, \<lambda>_. 0) (\<lambda>_ _. 1, \<lambda>_. 0))
          \<lparr>dtype_of = Floating BFloat16, device_of = CPU,
           entries = \<lparr>shape = [1, 2, 2], elem = (\<lambda>_. 1)\<rparr>\<rparr> = Inr y) \<and>
   (\<exists>blk y. TransformerBlock_init
          \<lparr>vocab_size = 4, context_length = 2, emb_dim = 2, n_heads = 1,
           ff_bias = True, n_layers = 1, hidden_dim = 3\<rparr>
          (\<lambda>_ _. 1) (\<lambda>_ _. 1) (\<lambda>_ _. 1) (\<lambda>_ _. 1)
          (\<lambda>_ _. 1, \<lambda>_. 0) (\<lambda>_ _. 1, \<lambda>_. 0) (\<lambda>_ _. 1, \<lambda>_. 0) = Inr blk \<and>
      TransformerBlock_forward_typed \<lparr>param_dtype = BFloat16, param_device = CPU\<rparr> blk
        \<lparr>dtype_of = Floating BFloat16, device_of = CPU,
         entries = \<lparr>shape = [1, 2, 2], elem = (\<lambda>_. 1)\<rparr>\<rparr> = Inr y)"
proof -
  let ?w = "\<lambda>(_::nat) (_::nat). 1::real"
  let ?p = "(\<lambda>(_::nat) (_::nat). 1::real, \<lambda>_::nat. 0::real)"
  let ?cfg = "\<lparr>vocab_size = 4, context_length = 2, emb_dim = 2, n_heads = 1,
              ff_bias = True, n_layers = 1, hidden_dim = 3\<rparr>"
  let ?pl = "\<lparr>param_dtype = BFloat16, param_device = CPU\<rparr>"
  let ?x3 = "\<lparr>dtype_of = Floating BFloat16, device_of = CPU,
              entries = \<lparr>shape = [1, 2, 2], elem = (\<lambda>_. 1::real)\<rparr>\<rparr>"
  let ?x4 = "\<lparr>dtype_of = Floating BFloat16, device_of = CPU,
              entries = \<lparr>shape = [1, 1, 2, 2], elem = (\<lambda>_. 1::real)\<rparr>\<rparr>"
  let ?x4' = "\<lparr>dtype_of = Floating Float32, device_of = CPU,
               entries = \<lparr>shape = [1, 1, 2, 3], elem = (\<lambda>_. 1::real)\<rparr>\<rparr>"
  let ?t = "\<lparr>dtype_of = Floating Float32, device_of = CPU, entries = ones [2, 3]\<rparr>"
  \<comment> \<open>an odd head dimension\<close>
  note odd3 = core_pipeline_errors [where d = 3 and \<theta> = 10000 and ctx = 2 and ?x4.0 = ?x4'
      and b = 1 and h = 1 and n = 2 and ?c4.0 = ?t and ?s4.0 = ?t
      and H = 2 and D = 6 and d_in = 2 and wq = ?w and wk = ?w and wv = ?w and wo = ?w]
  have o1: "precompute_rope_params 3 10000 2 = Inl AssertionError"
    using odd3 by simp
  have o2: "compute_rope_typed ?x4' ?t ?t = Inl AssertionError"
    using odd3 by simp
  have o3: "MultiHeadedAttention_init 2 6 2 2 ?w ?w ?w ?w = Inl AssertionError"
    using odd3 by simp
  \<comment> \<open>an output dimension that is not a multiple of the number of heads\<close>
  have o4: "MultiHeadedAttention_init 2 5 2 2 ?w ?w ?w ?w = Inl AssertionError"
    using core_pipeline_errors [where H = 2 and D = 5 and d_in = 2 and ctx = 2
        and wq = ?w and wk = ?w and wv = ?w and wo = ?w]
    by simp
  \<comment> \<open>matching shapes, dtypes and devices\<close>
  have "\<exists>m. MultiHeadedAttention_init 2 2 2 1 ?w ?w ?w ?w = Inr m"
    using core_pipeline_errors [where H = 1 and D = 2 and d_in = 2 and ctx = 2
        and wq = ?w and wk = ?w and wv = ?w and wo = ?w]
    by simp
  then obtain m where m: "MultiHeadedAttention_init 2 2 2 1 ?w ?w ?w ?w = Inr m"
    by blast
  then obtain blk where blk: "TransformerBlock_init ?cfg ?w ?w ?w ?w ?p ?p ?p = Inr blk"
    by (simp add: TransformerBlock_init_def)
  note ok = core_pipeline_errors [where d = 2 and \<theta> = 10000 and ctx = 2 and ?x4.0 = ?x4
      and b = 1 and h = 1 and n = 2 and H = 1 and D = 2 and d_in = 2
      and wq = ?w and wk = ?w and wv = ?w and wo = ?w and m = m and ?x3.0 = ?x3
      and xr = ?x3 and rn = "RMSNorm_init 2 (1 / 100000)" and xf = ?x3 and cfg = ?cfg
      and ?p1.0 = ?p and ?p2.0 = ?p and ?p3.0 = ?p and blk = blk and xb = ?x3
      and pl = ?pl and fd = BFloat16 and dv = CPU]
  have e1: "\<exists>c s y. precompute_rope_params 2 10000 2 = Inr (c, s) \<and>
      compute_rope_typed ?x4
        \<lparr>dtype_of = Floating Float32, device_of = CPU, entries = c\<rparr>
        \<lparr>dtype_of = Floating Float32, device_of = CPU, entries = s\<rparr> = Inr y"
    using ok by simp
  have e2: "\<exists>y. MultiHeadedAttention_forward_typed ?pl m ?x3 = Inr y"
    using ok m by simp
  have e3: "\<exists>y. RMSNorm_forward_typed CPU (RMSNorm_init 2 (1 / 100000)) ?x3 = Inr y"
    using ok by (simp add: RMSNorm_init_def)
  have e4: "\<exists>y. FeedForward_forward_typed ?pl (FeedForward_init ?cfg ?p ?p ?p) ?x3 = Inr y"
    using ok by simp
  have e5: "\<exists>y. TransformerBlock_forward_typed ?pl blk ?x3 = Inr y"
    using ok blk by simp
  from o1 o2 o3 o4 e1 e2 e3 e4 e5 m blk show ?thesis by blast
qed

section \<open>Stores: allocation leaves what is allocated unchanged\<close>

lemma unchanged_refl [simp]: "unchanged h h"
  by (simp add: unchanged_def)

lemma unchanged_trans: "unchanged h h' \<Longrightarrow> unchanged h' h'' \<Longrightarrow> unchanged h h''"
  by (auto simp add: unchanged_def)

lemma holds_unchanged: "unchanged h h' \<Longrightarrow> holds as h r t \<Longrightarrow> holds as h' r t"
  by (auto simp add: unchanged_def holds_def load_def)

lemma whole_simps [simp]:
  "base (whole a s) = a" "view_shape (whole a s) = s"
  "view_index (whole a s) = (\<lambda>idx. idx)" "view_inverse (whole a s) = Some"
  by (simp_all add: whole_def)

lemma through_whole [simp]: "s = shape t \<Longrightarrow> through (whole a s) t = t"
  by (simp add: through_def)

lemma shape_through [simp]: "shape (through r t) = view_shape r"
  by (simp add: through_def)

lemma fresh_result_holds: "fresh_result as h h' r t \<Longrightarrow> holds as h' r t"
proof -
  assume a: "fresh_result as h h' r t"
  then have "r = whole (base r) (shape t)" "as (cells h' (base r)) = Inr t" "base r < fresh h'"
    by (simp_all add: fresh_result_def)
  moreover from this(1) have "through r t = t" using through_whole [of "shape t" t "base r"] by simp
  ultimately show ?thesis by (simp add: holds_def load_def)
qed

lemma fresh_result_unchanged: "fresh_result as h h' r t \<Longrightarrow> unchanged h h'"
  by (simp add: fresh_result_def)

lemma fresh_result_earlier:
  "fresh_result as h h' r t \<Longrightarrow> unchanged h0 h \<Longrightarrow> fresh_result as h0 h' r t"
  by (auto simp add: fresh_result_def unchanged_def)

lemma fresh_result_later:
  "fresh_result as h h' r t \<Longrightarrow> unchanged h' h'' \<Longrightarrow> fresh_result as h h'' r t"
  by (auto simp add: fresh_result_def unchanged_def)

lemma new_cell_fresh_result:
  assumes "as c = Inr t" and "s = shape t"
  shows "\<exists>r h'. new_cell c s h = (Inr r, h') \<and> fresh_result as h h' r t"
  using assms by (simp add: new_cell_def fresh_result_def unchanged_def)

lemma load_holds: "holds as h r t \<Longrightarrow> load as r h = (Inr t, h)"
  by (simp add: holds_def load_def)

section \<open>Operations that return a new tensor\<close>

lemma float_op1_finishes:
  assumes "holds cell_floats h a x"
  shows "finishes cell_floats h h (float_op1 f a) (f x)"
proof (cases "f x")
  case (Inl e)
  then show ?thesis
    by (simp add: finishes_def float_op1_def and_then_def load_holds [OF assms] lift_def)
next
  case (Inr t)
  from new_cell_fresh_result [of cell_floats "Floats t" t "shape t" h]
  obtain r h' where "new_cell (Floats t) (shape t) h = (Inr r, h')" "fresh_result cell_floats h h' r t"
    by (auto simp add: cell_floats_def)
  with Inr show ?thesis
    by (simp add: finishes_def float_op1_def and_then_def load_holds [OF assms] lift_def
        new_floats_def)
qed

lemma float_op2_finishes:
  assumes "holds cell_floats h a x" and "holds cell_floats h b y"
  shows "finishes cell_floats h h (float_op2 f a b) (f x y)"
proof (cases "f x y")
  case (Inl e)
  then show ?thesis
    by (simp add: finishes_def float_op2_def and_then_def load_holds [OF assms(1)]
        load_holds [OF assms(2)] lift_def)
next
  case (Inr t)
  from new_cell_fresh_result [of cell_floats "Floats t" t "shape t" h]
  obtain r h' where "new_cell (Floats t) (shape t) h = (Inr r, h')" "fresh_result cell_floats h h' r t"
    by (auto simp add: cell_floats_def)
  with Inr show ?thesis
    by (simp add: finishes_def float_op2_def and_then_def load_holds [OF assms(1)]
        load_holds [OF assms(2)] lift_def new_floats_def)
qed

lemma to_bool_finishes:
  assumes "holds cell_floats h a x"
  shows "finishes cell_bools h h (to_bool a) (Inr (tmap (\<lambda>v. v \<noteq> 0) x))"
proof -
  let ?t = "tmap (\<lambda>v. v \<noteq> 0) x"
  from new_cell_fresh_result [of cell_bools "Bools ?t" ?t "shape ?t" h]
  obtain r h' where "new_cell (Bools ?t) (shape ?t) h = (Inr r, h')" "fresh_result cell_bools h h' r ?t"
    by (auto simp add: cell_bools_def)
  then show ?thesis
    by (simp add: finishes_def to_bool_def and_then_def load_holds [OF assms] new_bools_def)
qed

lemma div_scalar_finishes:
  assumes "holds cell_scores h a x"
  shows "finishes cell_scores h h (div_scalar a c) (Inr (tmap (\<lambda>v. xdiv v c) x))"
proof -
  let ?t = "tmap (\<lambda>v. xdiv v c) x"
  from new_cell_fresh_result [of cell_scores "Scores ?t" ?t "shape ?t" h]
  obtain r h' where "new_cell (Scores ?t) (shape ?t) h = (Inr r, h')" "fresh_result cell_scores h h' r ?t"
    by (auto simp add: cell_scores_def)
  then show ?thesis
    by (simp add: finishes_def div_scalar_def and_then_def load_holds [OF assms] new_scores_def)
qed

lemma softmax_st_finishes:
  assumes "holds cell_scores h a x"
  shows "finishes cell_floats h h (softmax_st a) (Inr (softmax x))"
proof -
  let ?t = "softmax x"
  from new_cell_fresh_result [of cell_floats "Floats ?t" ?t "shape ?t" h]
  obtain r h' where "new_cell (Floats ?t) (shape ?t) h = (Inr r, h')" "fresh_result cell_floats h h' r ?t"
    by (auto simp add: cell_floats_def)
  then show ?thesis
    by (simp add: finishes_def softmax_st_def and_then_def load_holds [OF assms] new_floats_def)
qed

section \<open>Sequencing\<close>

lemma finishes_and_then:
  assumes m: "finishes as h h m u" and h: "unchanged h0 h"
    and k: "\<And>r h' t. u = Inr t \<Longrightarrow> fresh_result as h h' r t \<Longrightarrow> holds as h' r t \<Longrightarrow>
              view_shape r = shape t \<Longrightarrow> unchanged h0 h' \<Longrightarrow>
              (\<forall>x v. holds cell_floats h x v \<longrightarrow> holds cell_floats h' x v) \<Longrightarrow>
              (\<forall>x v. holds cell_scores h x v \<longrightarrow> holds cell_scores h' x v) \<Longrightarrow>
              (\<forall>x v. holds cell_bools h x v \<longrightarrow> holds cell_bools h' x v) \<Longrightarrow>
              finishes as' h0 h' (k r) (g t)"
  shows "finishes as' h0 h (and_then m k) (then_do u g)"
proof (cases "m h")
  case (Pair res h')
  show ?thesis
  proof (cases res)
    case (Inl e)
    then show ?thesis
      using m h Pair by (auto simp add: finishes_def and_then_def intro: unchanged_trans)
  next
    case (Inr r)
    then obtain t where t: "u = Inr t" "fresh_result as h h' r t"
      using m Pair by (auto simp add: finishes_def)
    have u: "unchanged h h'" using t(2) by (rule fresh_result_unchanged)
    have "r = whole (base r) (shape t)" using t(2) by (simp add: fresh_result_def)
    then have s: "view_shape r = shape t" using whole_simps(2) [of "base r" "shape t"] by simp
    have "finishes as' h0 h' (k r) (g t)"
      using t fresh_result_holds [OF t(2)] s unchanged_trans [OF h u]
        holds_unchanged [OF u, where as = cell_floats]
        holds_unchanged [OF u, where as = cell_scores]
        holds_unchanged [OF u, where as = cell_bools]
      by (intro k) blast+
    then show ?thesis
      using Pair Inr t(1) by (simp add: and_then_def finishes_def)
  qed
qed

lemma finishes_ret_step:
  "finishes as h0 h (k a) w \<Longrightarrow> finishes as h0 h (and_then (ret a) k) w"
  by (simp add: finishes_def and_then_def ret_def)

lemma finishes_ret_last:
  "fresh_result as h1 h r t \<Longrightarrow> unchanged h0 h1 \<Longrightarrow> finishes as h0 h (ret r) (Inr t)"
  by (simp add: finishes_def ret_def fresh_result_earlier)

lemma finishes_last:
  assumes "finishes as h h m u" and "unchanged h0 h"
  shows "finishes as h0 h m u"
  using assms
  by (auto simp add: finishes_def split: prod.splits sum.splits
      intro: unchanged_trans fresh_result_earlier)

lemma finishes_lift:
  assumes e: "case E of Inl e \<Rightarrow> U = Inl e | Inr r \<Rightarrow> (\<exists>t. U = Inr t \<and> holds as h r t)"
    and h: "unchanged h0 h"
    and k: "\<And>r t. U = Inr t \<Longrightarrow> holds as h r t \<Longrightarrow> finishes as' h0 h (k r) (g t)"
  shows "finishes as' h0 h (and_then (lift E) k) (then_do U g)"
proof (cases E)
  case (Inl err)
  then show ?thesis using e h by (simp add: finishes_def and_then_def lift_def)
next
  case (Inr r)
  then obtain t where t: "U = Inr t" "holds as h r t" using e by auto
  from k [OF this] show ?thesis using Inr t(1) by (simp add: and_then_def lift_def finishes_def)
qed

section \<open>Tensors that share a storage\<close>

lemma holds_iff:
  "holds as h r t \<longleftrightarrow> base r < fresh h \<and> (\<exists>c. as (cells h (base r)) = Inr c \<and> t = through r c)"
  by (cases "as (cells h (base r))") (auto simp add: holds_def load_def)

lemma holds_sub_view:
  "holds as h r t \<Longrightarrow>
   holds as h (sub_view r s fwd back) \<lparr>shape = s, elem = (\<lambda>idx. elem t (fwd idx))\<rparr>"
  by (auto simp add: holds_iff sub_view_def through_def)

lemma slice_to_st_holds:
  assumes "holds as h x xv"
  shows "case slice_to_st ax k x of
           Inl e \<Rightarrow> slice_to ax k xv = Inl e
         | Inr r \<Rightarrow> (\<exists>t. slice_to ax k xv = Inr t \<and> holds as h r t)"
proof -
  have s: "shape xv = view_shape x" using assms by (auto simp add: holds_iff)
  show ?thesis
    using holds_sub_view [OF assms, of "(view_shape x)[ax := min k (view_shape x ! ax)]" "\<lambda>idx. idx"]
    by (simp add: slice_to_st_def slice_to_def s)
qed

lemma slice_from_st_holds:
  assumes "holds as h x xv"
  shows "case slice_from_st ax k x of
           Inl e \<Rightarrow> slice_from ax k xv = Inl e
         | Inr r \<Rightarrow> (\<exists>t. slice_from ax k xv = Inr t \<and> holds as h r t)"
proof -
  have s: "shape xv = view_shape x" using assms by (auto simp add: holds_iff)
  show ?thesis
    using holds_sub_view [OF assms, of "(view_shape x)[ax := view_shape x ! ax - k]"
        "\<lambda>idx. idx[ax := idx ! ax + k]"]
    by (simp add: slice_from_st_def slice_from_def s)
qed

lemma rows_to_st_holds:
  assumes "holds as h x xv"
  shows "case rows_to_st k x of
           Inl e \<Rightarrow> rows_to k xv = Inl e
         | Inr r \<Rightarrow> (\<exists>t. rows_to k xv = Inr t \<and> holds as h r t)"
proof -
  have s: "shape xv = view_shape x" using assms by (auto simp add: holds_iff)
  show ?thesis
  proof (cases "length (view_shape x) < 2")
    case True
    then show ?thesis by (simp add: rows_to_st_def rows_to_def s)
  next
    case False
    then have "rows_to_st k x = slice_to_st 0 k x" "rows_to k xv = slice_to 0 k xv"
      by (simp_all add: rows_to_st_def rows_to_def s)
    then show ?thesis
      using slice_to_st_holds [OF assms, of 0 k] by (cases "slice_to_st 0 k x") simp_all
  qed
qed

lemma view_st_holds:
  assumes "holds as h x xv"
  shows "case view_st x s of
           Inl e \<Rightarrow> view xv s = Inl e
         | Inr r \<Rightarrow> (\<exists>t. view xv s = Inr t \<and> holds as h r t)"
proof -
  have s: "shape xv = view_shape x" using assms by (auto simp add: holds_iff)
  show ?thesis
    using holds_sub_view [OF assms, of s "\<lambda>idx. unravel (view_shape x) (ravel s idx)"]
    by (simp add: view_st_def view_def reshape_def s)
qed

lemma unsqueeze_st_holds:
  assumes "holds as h x xv"
  shows "holds as h (unsqueeze_st d x) (unsqueeze d xv)"
proof -
  have s: "shape xv = view_shape x" using assms by (auto simp add: holds_iff)
  show ?thesis
    using holds_sub_view [OF assms, of "take d (view_shape x) @ [1] @ drop d (view_shape x)"
        "\<lambda>idx. take d idx @ drop (Suc d) idx"]
    by (simp add: unsqueeze_st_def unsqueeze_def s)
qed

lemma transpose_st_holds:
  assumes "holds as h x xv"
  shows "holds as h (transpose_st d0 d1 x) (transpose_dims d0 d1 xv)"
proof -
  have s: "shape xv = view_shape x" using assms by (auto simp add: holds_iff)
  show ?thesis
    using holds_sub_view [OF assms, of "swap_axes d0 d1 (view_shape x)" "swap_axes d0 d1"]
    by (simp add: transpose_st_def transpose_dims_def s)
qed

section \<open>The forward passes on a store compute the forward passes on values\<close>

lemma RMSNorm_forward_chain:
  "RMSNorm_forward p x =
     then_do (Inr (tmap (\<lambda>v. v ^ 2) x)) (\<lambda>squares.
     then_do (Inr (mean_keepdim squares)) (\<lambda>means.
     then_do (Inr (tmap (\<lambda>v. v + eps p) means)) (\<lambda>shifted.
     then_do (Inr (tmap rsqrt shifted)) (\<lambda>scale.
     then_do (mul x scale) (\<lambda>x_norm.
     then_do (mul x_norm (weight_tensor p)) (\<lambda>y.
     Inr y))))))"
  by (simp add: RMSNorm_forward_def then_do_def split: sum.splits)

lemma RMSNorm_forward_st_computes:
  assumes "RMSNorm_in h obj p" and x: "holds cell_floats h x xv"
  shows "computes h (RMSNorm_forward_st obj x) (RMSNorm_forward p xv)"
proof -
  have e: "eps_of obj = eps p" and w: "holds cell_floats h (weight_at obj) (weight_tensor p)"
    using assms(1) by (simp_all add: RMSNorm_in_def)
  note init = holds_unchanged [OF _ x] holds_unchanged [OF _ w]
  show ?thesis
    unfolding computes_def RMSNorm_forward_st_def RMSNorm_forward_chain e
    apply (rule finishes_and_then [OF float_op1_finishes])
      apply (simp add: x; fail)
     apply (simp (no_asm_simp); fail)
    apply (rule finishes_and_then [OF float_op1_finishes])
      apply (simp (no_asm_simp) add: init; fail)
     apply (simp (no_asm_simp); fail)
    apply (rule finishes_and_then [OF float_op1_finishes])
      apply (simp (no_asm_simp) add: init; fail)
     apply (simp (no_asm_simp); fail)
    apply (rule finishes_and_then [OF float_op1_finishes])
      apply (simp (no_asm_simp) add: init; fail)
     apply (simp (no_asm_simp); fail)
    apply (rule finishes_and_then [OF float_op2_finishes])
       apply (simp (no_asm_simp) add: init; fail)
      apply (simp (no_asm_simp) add: init; fail)
     apply (simp (no_asm_simp); fail)
    apply (rule finishes_and_then [OF float_op2_finishes])
       apply (simp (no_asm_simp) add: init; fail)
      apply (simp (no_asm_simp) add: init; fail)
     apply (simp (no_asm_simp); fail)
    apply (rule finishes_ret_last)
     apply assumption
    apply assumption
    done
qed

lemma Linear_in_unchanged: "unchanged h h' \<Longrightarrow> Linear_in h obj p \<Longrightarrow> Linear_in h' obj p"
  by (auto simp add: Linear_in_def holds_unchanged split: option.splits)

lemma RMSNorm_in_unchanged: "unchanged h h' \<Longrightarrow> RMSNorm_in h obj p \<Longrightarrow> RMSNorm_in h' obj p"
  by (auto simp add: RMSNorm_in_def holds_unchanged)

lemma FeedForward_in_unchanged:
  "unchanged h h' \<Longrightarrow> FeedForward_in h obj p \<Longrightarrow> FeedForward_in h' obj p"
  by (auto simp add: FeedForward_in_def Linear_in_unchanged)

lemma MultiHeadedAttention_in_unchanged:
  "unchanged h h' \<Longrightarrow> MultiHeadedAttention_in h obj p \<Longrightarrow> MultiHeadedAttention_in h' obj p"
  by (auto simp add: MultiHeadedAttention_in_def Linear_in_unchanged holds_unchanged)

lemma as_Linear_weight_matrix:
  assumes "in_features_of obj = in_features p" "out_features_of obj = out_features p"
  shows "as_Linear obj (weight_matrix p) (map_option (bias_vector p) (bias p)) = p"
  using assms by (cases p; cases "bias p") (simp_all add: as_Linear_def weight_matrix_def bias_vector_def)

lemma Linear_forward_st_finishes:
  assumes l: "Linear_in h obj p" and x: "holds cell_floats h x xv"
  shows "finishes cell_floats h h (Linear_forward_st obj x) (Linear_forward p xv)"
proof -
  have w: "load cell_floats (W_at obj) h = (Inr (weight_matrix p), h)"
    using l by (simp add: Linear_in_def load_holds)
  have b: "(case bias_at obj of None \<Rightarrow> ret None
            | Some r \<Rightarrow> and_then (load cell_floats r) (\<lambda>b. ret (Some b))) h
           = (Inr (map_option (bias_vector p) (bias p)), h)"
    using l by (cases "bias p") (auto simp add: Linear_in_def ret_def and_then_def load_holds)
  have "Linear_forward_st obj x h = float_op1 (Linear_forward p) x h"
    using l by (simp add: Linear_forward_st_def and_then_def w b as_Linear_weight_matrix Linear_in_def)
  then show ?thesis
    using float_op1_finishes [OF x, of "Linear_forward p"] by (simp add: finishes_def)
qed

lemma FeedForward_forward_chain:
  "FeedForward_forward p x =
     then_do (Linear_forward (fc1 p) x) (\<lambda>x_fc1.
     then_do (Linear_forward (fc2 p) x) (\<lambda>x_fc2.
     then_do (Inr (tmap SiLU x_fc1)) (\<lambda>gate.
     then_do (mul gate x_fc2) (\<lambda>x.
     Linear_forward (fc3 p) x))))"
  by (simp add: FeedForward_forward_def)

lemma FeedForward_forward_st_computes:
  assumes f: "FeedForward_in h obj p" and x: "holds cell_floats h x xv"
  shows "computes h (FeedForward_forward_st obj x) (FeedForward_forward p xv)"
proof -
  have l: "Linear_in h (fc1_of obj) (fc1 p)" "Linear_in h (fc2_of obj) (fc2 p)"
    "Linear_in h (fc3_of obj) (fc3 p)"
    using f by (simp_all add: FeedForward_in_def)
  note init = holds_unchanged [OF _ x] Linear_in_unchanged [OF _ l(1)]
    Linear_in_unchanged [OF _ l(2)] Linear_in_unchanged [OF _ l(3)]
  show ?thesis
    unfolding computes_def FeedForward_forward_st_def FeedForward_forward_chain
    apply (rule finishes_and_then [OF Linear_forward_st_finishes])
      apply (simp add: l; fail)
      apply (simp add: x; fail)
     apply (simp (no_asm_simp); fail)
    apply (rule finishes_and_then [OF Linear_forward_st_finishes])
      apply (simp (no_asm_simp) add: init; fail)
      apply (simp (no_asm_simp) add: init; fail)
     apply (simp (no_asm_simp); fail)
    apply (rule finishes_and_then [OF float_op1_finishes])
      apply (simp (no_asm_simp) add: init; fail)
     apply (simp (no_asm_simp); fail)
    apply (rule finishes_and_then [OF float_op2_finishes])
       apply (simp (no_asm_simp) add: init; fail)
      apply (simp (no_asm_simp) add: init; fail)
     apply (simp (no_asm_simp); fail)
    apply (rule finishes_last [OF Linear_forward_st_finishes])
      apply (simp (no_asm_simp) add: init; fail)
     apply (simp (no_asm_simp) add: init; fail)
    apply (simp (no_asm_simp); fail)
    done
qed

lemma then_do_return: "then_do u Inr = u"
  by (cases u) simp_all

lemma holds_shape: "holds as h r t \<Longrightarrow> shape t = view_shape r"
  by (auto simp add: holds_iff)

lemma finishes_error: "unchanged h0 h \<Longrightarrow> finishes as h0 h (lift (Inl e)) (Inl e)"
  by (simp add: finishes_def lift_def)

lemma compute_rope_st_finishes:
  assumes x: "holds cell_floats h x xv" and c: "holds cell_floats h ct cv"
    and s: "holds cell_floats h st sv"
  shows "finishes cell_floats h h (compute_rope_st x ct st) (compute_rope xv cv sv)"
proof (cases "\<exists>b nh n d. view_shape x = [b, nh, n, d]")
  case False
  have sh: "shape xv = view_shape x" using x by (rule holds_shape)
  have "compute_rope_st x ct st = lift (Inl ValueError)"
    using False by (auto simp add: compute_rope_st_def split: list.splits)
  moreover have "compute_rope xv cv sv = Inl ValueError"
    using False sh by (auto simp add: compute_rope_def split: list.splits)
  ultimately show ?thesis by (simp add: finishes_error)
next
  case True
  have sh: "shape xv = view_shape x" using x by (rule holds_shape)
  from True obtain b nh n d where v: "view_shape x = [b, nh, n, d]" by blast
  show ?thesis
  proof (cases "d mod 2 = 0")
    case False
    then show ?thesis by (simp add: compute_rope_st_def compute_rope_def v sh finishes_error)
  next
    case True
    have prog: "compute_rope_st x ct st =
            and_then (lift (slice_to_st 3 (d div 2) x)) (\<lambda>x1.
            and_then (lift (slice_from_st 3 (d div 2) x)) (\<lambda>x2.
            and_then (float_op1 (\<lambda>t. Inr (tmap uminus t)) x2) (\<lambda>minus_x2.
            and_then (float_op2 cat_last minus_x2 x1) (\<lambda>rotated.
            and_then (lift (rows_to_st n ct)) (\<lambda>c.
            and_then (lift (rows_to_st n st)) (\<lambda>s.
            and_then (float_op2 mul x (unsqueeze_st 0 (unsqueeze_st 0 c))) (\<lambda>xc.
            and_then (float_op2 mul rotated (unsqueeze_st 0 (unsqueeze_st 0 s))) (\<lambda>rs.
            and_then (float_op2 add xc rs) (\<lambda>x_rotated.
            ret x_rotated)))))))))"
      using True by (simp add: compute_rope_st_def v)
    have pure: "compute_rope xv cv sv =
            then_do (slice_to 3 (d div 2) xv) (\<lambda>x1.
            then_do (slice_from 3 (d div 2) xv) (\<lambda>x2.
            then_do (Inr (tmap uminus x2)) (\<lambda>minus_x2.
            then_do (cat_last minus_x2 x1) (\<lambda>rotated.
            then_do (rows_to n cv) (\<lambda>c.
            then_do (rows_to n sv) (\<lambda>s.
            then_do (mul xv (unsqueeze 0 (unsqueeze 0 c))) (\<lambda>xc.
            then_do (mul rotated (unsqueeze 0 (unsqueeze 0 s))) (\<lambda>rs.
            then_do (add xc rs) (\<lambda>x_rotated.
            Inr x_rotated)))))))))"
      using True by (simp add: compute_rope_def v sh then_do_return)
    note init = holds_unchanged [OF _ x] holds_unchanged [OF _ c] holds_unchanged [OF _ s]
      x c s unsqueeze_st_holds
    show ?thesis
      unfolding prog pure
      apply (rule finishes_lift [OF slice_to_st_holds [where as = cell_floats]])
        apply (simp (no_asm_simp) add: init; fail)
       apply (simp (no_asm_simp); fail)
      apply (rule finishes_lift [OF slice_from_st_holds [where as = cell_floats]])
        apply (simp (no_asm_simp) add: init; fail)
       apply (simp (no_asm_simp); fail)
      apply (rule finishes_and_then [OF float_op1_finishes])
        apply (simp (no_asm_simp) add: init; fail)
       apply (simp (no_asm_simp); fail)
      apply (rule finishes_and_then [OF float_op2_finishes])
         apply (simp (no_asm_simp) add: init; fail)
        apply (simp (no_asm_simp) add: init; fail)
       apply (simp (no_asm_simp); fail)
      apply (rule finishes_lift [OF rows_to_st_holds [where as = cell_floats]])
        apply (simp (no_asm_simp) add: init; fail)
       apply (simp (no_asm_simp); fail)
      apply (rule finishes_lift [OF rows_to_st_holds [where as = cell_floats]])
        apply (simp (no_asm_simp) add: init; fail)
       apply (simp (no_asm_simp); fail)
      apply (rule finishes_and_then [OF float_op2_finishes])
         apply (simp (no_asm_simp) add: init; fail)
        apply (simp (no_asm_simp) add: init; fail)
       apply (simp (no_asm_simp); fail)
      apply (rule finishes_and_then [OF float_op2_finishes])
         apply (simp (no_asm_simp) add: init; fail)
        apply (simp (no_asm_simp) add: init; fail)
       apply (simp (no_asm_simp); fail)
      apply (rule finishes_and_then [OF float_op2_finishes])
         apply (simp (no_asm_simp) add: init; fail)
        apply (simp (no_asm_simp) add: init; fail)
       apply (simp (no_asm_simp); fail)
      apply (rule finishes_ret_last)
       apply assumption
      apply assumption
      done
  qed
qed

lemma masked_fill_shape: "masked_fill x m v = Inr f \<Longrightarrow> shape f = shape x"
  by (auto simp add: masked_fill_def then_do_def split: sum.splits if_splits)

lemma finishes_masked_fill:
  assumes tgt: "fresh_result cell_floats h1 h r s0"
    and h1: "unchanged h0 h1"
    and m: "holds cell_bools h m mb"
    and k: "\<And>h' filled. masked_fill (tmap Finite s0) mb v = Inr filled \<Longrightarrow>
              holds cell_scores h' r filled \<Longrightarrow> unchanged h0 h' \<Longrightarrow>
              (\<forall>x w. holds cell_floats h1 x w \<longrightarrow> holds cell_floats h' x w) \<Longrightarrow>
              finishes as' h0 h' (k r) (g filled)"
  shows "finishes as' h0 h (and_then (masked_fill_st r m v) k)
           (then_do (masked_fill (tmap Finite s0) mb v) g)"
proof -
  have r: "r = whole (base r) (shape s0)" and c: "cell_floats (cells h (base r)) = Inr s0"
    and b: "fresh h1 \<le> base r" "base r < fresh h" and u1: "unchanged h1 h"
    using tgt by (simp_all add: fresh_result_def)
  have cs: "cell_scores (cells h (base r)) = Inr (tmap Finite s0)"
    using c by (cases "cells h (base r)") (simp_all add: cell_floats_def cell_scores_def)
  have vi: "view_inverse r = Some" "view_shape r = shape s0"
    using whole_simps [of "base r" "shape s0"] r by simp_all
  have th: "through r t = t" if "shape t = shape s0" for t :: "xreal tensor"
    using through_whole [of "shape s0" t "base r"] r that by simp
  have l1: "load cell_scores r h = (Inr (tmap Finite s0), h)"
    by (simp add: load_def cs th)
  have l2: "load cell_bools m h = (Inr mb, h)" by (rule load_holds [OF m])
  show ?thesis
  proof (cases "masked_fill (tmap Finite s0) mb v")
    case (Inl e)
    then show ?thesis
      using unchanged_trans [OF h1 u1]
      by (simp add: finishes_def masked_fill_st_def and_then_def l1 l2 lift_def)
  next
    case (Inr filled)
    define h' where "h' = h\<lparr>cells := (cells h)(base r := Scores filled)\<rparr>"
    have sf: "shape filled = shape s0" using masked_fill_shape [OF Inr] by simp
    have wb: "write_back r filled (tmap Finite s0) = filled"
      by (simp add: write_back_def vi sf [symmetric])
    have run: "masked_fill_st r m v h = (Inr r, h')"
      by (simp add: masked_fill_st_def and_then_def l1 l2 lift_def Inr cs wb h'_def)
    have u: "unchanged h1 h'"
      using u1 b by (auto simp add: unchanged_def h'_def)
    have hr: "holds cell_scores h' r filled"
      using b by (simp add: holds_def load_def h'_def cell_scores_def th sf)
    have "finishes as' h0 h' (k r) (g filled)"
      by (rule k [OF Inr hr unchanged_trans [OF h1 u]]) (use holds_unchanged [OF u] in blast)
    then show ?thesis by (simp add: finishes_def and_then_def run Inr)
  qed
qed

lemma MultiHeadedAttention_forward_st_computes:
  assumes a: "MultiHeadedAttention_in h obj p" and x: "holds cell_floats h x xv"
  shows "computes h (MultiHeadedAttention_forward_st obj x) (MultiHeadedAttention_forward p xv)"
proof (cases "\<exists>b n d. view_shape x = [b, n, d]")
  case False
  have sh: "shape xv = view_shape x" using x by (rule holds_shape)
  have "MultiHeadedAttention_forward_st obj x = lift (Inl ValueError)"
    using False by (auto simp add: MultiHeadedAttention_forward_st_def split: list.splits)
  moreover have "MultiHeadedAttention_forward p xv = Inl ValueError"
    using False sh by (auto simp add: MultiHeadedAttention_forward_def split: list.splits)
  ultimately show ?thesis by (simp add: computes_def finishes_error)
next
  case True
  have sh: "shape xv = view_shape x" using x by (rule holds_shape)
  from True obtain b n d where v: "view_shape x = [b, n, d]" by blast
  have f: "d_out_of obj = d_out p" "num_heads_of obj = num_heads p" "head_dim_of obj = head_dim p"
    and l: "Linear_in h (W_query_of obj) (W_query p)" "Linear_in h (W_key_of obj) (W_key p)"
      "Linear_in h (W_value_of obj) (W_value p)" "Linear_in h (out_proj_of obj) (out_proj p)"
    and buf: "holds cell_floats h (mask_at obj) (mask p)"
      "holds cell_floats h (cos_at obj) (rope_cos p)" "holds cell_floats h (sin_at obj) (rope_sin p)"
    using a by (simp_all add: MultiHeadedAttention_in_def)
  have prog: "MultiHeadedAttention_forward_st obj x =
          and_then (Linear_forward_st (W_query_of obj) x) (\<lambda>queries.
          and_then (Linear_forward_st (W_key_of obj) x) (\<lambda>keys.
          and_then (Linear_forward_st (W_value_of obj) x) (\<lambda>values.
          and_then (lift (view_st queries [b, n, num_heads p, head_dim p])) (\<lambda>queries.
          and_then (lift (view_st keys [b, n, num_heads p, head_dim p])) (\<lambda>keys.
          and_then (lift (view_st values [b, n, num_heads p, head_dim p])) (\<lambda>values.
          and_then (ret (transpose_st 1 2 queries)) (\<lambda>queries.
          and_then (ret (transpose_st 1 2 keys)) (\<lambda>keys.
          and_then (ret (transpose_st 1 2 values)) (\<lambda>values.
          and_then (compute_rope_st keys (cos_at obj) (sin_at obj)) (\<lambda>keys.
          and_then (compute_rope_st queries (cos_at obj) (sin_at obj)) (\<lambda>queries.
          and_then (float_op2 matmul queries (transpose_st 2 3 keys)) (\<lambda>attn_scores.
          and_then (to_bool (mask_at obj)) (\<lambda>mask_as_bool.
          and_then (lift (rows_to_st n mask_as_bool)) (\<lambda>mask_rows.
          and_then (lift (slice_to_st 1 n mask_rows)) (\<lambda>mask_bool.
          and_then (masked_fill_st attn_scores mask_bool NegInf) (\<lambda>_.
          and_then (div_scalar attn_scores (sqrt (real (last (view_shape keys))))) (\<lambda>scaled.
          and_then (softmax_st scaled) (\<lambda>attn_weights.
          and_then (float_op2 matmul attn_weights values) (\<lambda>context_vec.
          and_then (ret (transpose_st 1 2 context_vec)) (\<lambda>context_vec.
          and_then (float_op1 (\<lambda>t. reshape t [b, n, d_out p]) context_vec) (\<lambda>context_vec.
          and_then (Linear_forward_st (out_proj_of obj) context_vec) (\<lambda>context_vec.
          ret context_vec))))))))))))))))))))))"
    by (simp add: MultiHeadedAttention_forward_st_def v f)
  have pure: "MultiHeadedAttention_forward p xv =
          then_do (Linear_forward (W_query p) xv) (\<lambda>queries.
          then_do (Linear_forward (W_key p) xv) (\<lambda>keys.
          then_do (Linear_forward (W_value p) xv) (\<lambda>values.
          then_do (view queries [b, n, num_heads p, head_dim p]) (\<lambda>queries.
          then_do (view keys [b, n, num_heads p, head_dim p]) (\<lambda>keys.
          then_do (view values [b, n, num_heads p, head_dim p]) (\<lambda>values.
          then_do (compute_rope (transpose_dims 1 2 keys) (rope_cos p) (rope_sin p)) (\<lambda>keys'.
          then_do (compute_rope (transpose_dims 1 2 queries) (rope_cos p) (rope_sin p)) (\<lambda>queries'.
          then_do (matmul queries' (transpose_dims 2 3 keys')) (\<lambda>attn_scores.
          then_do (Inr (tmap (\<lambda>v. v \<noteq> 0) (mask p))) (\<lambda>mask_as_bool.
          then_do (rows_to n mask_as_bool) (\<lambda>mask_rows.
          then_do (slice_to 1 n mask_rows) (\<lambda>mask_bool.
          then_do (masked_fill (tmap Finite attn_scores) mask_bool NegInf) (\<lambda>filled.
          then_do (Inr (tmap (\<lambda>v. xdiv v (sqrt (real (last (shape keys'))))) filled)) (\<lambda>scaled.
          then_do (Inr (softmax scaled)) (\<lambda>attn_weights.
          then_do (matmul attn_weights (transpose_dims 1 2 values)) (\<lambda>context_vec.
          then_do (reshape (transpose_dims 1 2 context_vec) [b, n, d_out p]) (\<lambda>context_vec.
          then_do (Linear_forward (out_proj p) context_vec) (\<lambda>context_vec.
          Inr context_vec))))))))))))))))))"
    by (simp add: MultiHeadedAttention_forward_def v sh then_do_return)
  note init = holds_unchanged [OF _ x] holds_unchanged [OF _ buf(1)] holds_unchanged [OF _ buf(2)]
    holds_unchanged [OF _ buf(3)] Linear_in_unchanged [OF _ l(1)] Linear_in_unchanged [OF _ l(2)]
    Linear_in_unchanged [OF _ l(3)] Linear_in_unchanged [OF _ l(4)] transpose_st_holds
  show ?thesis
    unfolding computes_def prog pure
    apply (rule finishes_and_then [OF Linear_forward_st_finishes])
       apply (simp (no_asm_simp) add: init; fail)
      apply (simp (no_asm_simp) add: init; fail)
     apply (simp (no_asm_simp); fail)
    apply (rule finishes_and_then [OF Linear_forward_st_finishes])
       apply (simp (no_asm_simp) add: init; fail)
      apply (simp (no_asm_simp) add: init; fail)
     apply (simp (no_asm_simp); fail)
    apply (rule finishes_and_then [OF Linear_forward_st_finishes])
       apply (simp (no_asm_simp) add: init; fail)
      apply (simp (no_asm_simp) add: init; fail)
     apply (simp (no_asm_simp); fail)
    apply (rule finishes_lift [OF view_st_holds [where as = cell_floats]])
      apply (simp (no_asm_simp) add: init; fail)
     apply (simp (no_asm_simp); fail)
    apply (rule finishes_lift [OF view_st_holds [where as = cell_floats]])
      apply (simp (no_asm_simp) add: init; fail)
     apply (simp (no_asm_simp); fail)
    apply (rule finishes_lift [OF view_st_holds [where as = cell_floats]])
      apply (simp (no_asm_simp) add: init; fail)
     apply (simp (no_asm_simp); fail)
    apply (rule finishes_ret_step)
    apply (rule finishes_ret_step)
    apply (rule finishes_ret_step)
    apply (rule finishes_and_then [OF compute_rope_st_finishes])
        apply (simp (no_asm_simp) add: init; fail)
       apply (simp (no_asm_simp) add: init; fail)
      apply (simp (no_asm_simp) add: init; fail)
     apply (simp (no_asm_simp); fail)
    apply (rule finishes_and_then [OF compute_rope_st_finishes])
        apply (simp (no_asm_simp) add: init; fail)
       apply (simp (no_asm_simp) add: init; fail)
      apply (simp (no_asm_simp) add: init; fail)
     apply (simp (no_asm_simp); fail)
    apply (rule finishes_and_then [OF float_op2_finishes])
       apply (simp (no_asm_simp) add: init; fail)
      apply (simp (no_asm_simp) add: init; fail)
     apply (simp (no_asm_simp); fail)
    apply (rule finishes_and_then [OF to_bool_finishes])
      apply (simp (no_asm_simp) add: init; fail)
     apply (simp (no_asm_simp); fail)
    apply (rule finishes_lift [OF rows_to_st_holds [where as = cell_bools]])
      apply (simp (no_asm_simp) add: init; fail)
     apply (simp (no_asm_simp); fail)
    apply (rule finishes_lift [OF slice_to_st_holds [where as = cell_bools]])
      apply (simp (no_asm_simp) add: init; fail)
     apply (simp (no_asm_simp); fail)
    apply (rule finishes_masked_fill)
       apply (erule fresh_result_later, erule fresh_result_unchanged)
      apply assumption
     apply (simp (no_asm_simp); fail)
    apply (simp (no_asm_simp) only:)
    apply (rule finishes_and_then [OF div_scalar_finishes])
      apply (simp (no_asm_simp) add: init; fail)
     apply (simp (no_asm_simp); fail)
    apply (rule finishes_and_then [OF softmax_st_finishes])
      apply (simp (no_asm_simp) add: init; fail)
     apply (simp (no_asm_simp); fail)
    apply (rule finishes_and_then [OF float_op2_finishes])
       apply (simp (no_asm_simp) add: init; fail)
      apply (simp (no_asm_simp) add: init; fail)
     apply (simp (no_asm_simp); fail)
    apply (rule finishes_ret_step)
    apply (rule finishes_and_then [OF float_op1_finishes])
      apply (simp (no_asm_simp) add: init; fail)
     apply (simp (no_asm_simp); fail)
    apply (rule finishes_and_then [OF Linear_forward_st_finishes])
       apply (simp (no_asm_simp) add: init; fail)
      apply (simp (no_asm_simp) add: init; fail)
     apply (simp (no_asm_simp); fail)
    apply (rule finishes_ret_last)
     apply assumption
    apply assumption
    done
qed

lemma TransformerBlock_forward_chain:
  "TransformerBlock_forward p x =
     then_do (RMSNorm_forward (norm1 p) x) (\<lambda>x1.
     then_do (MultiHeadedAttention_forward (att p) x1) (\<lambda>a.
     then_do (add a x) (\<lambda>x2.
     then_do (RMSNorm_forward (norm2 p) x2) (\<lambda>x3.
     then_do (FeedForward_forward (ff p) x3) (\<lambda>f.
     then_do (add f x2) (\<lambda>y.
     Inr y))))))"
  by (simp add: TransformerBlock_forward_def then_do_return)

lemma TransformerBlock_forward_st_computes:
  assumes b: "TransformerBlock_in h obj p" and x: "holds cell_floats h x xv"
  shows "computes h (TransformerBlock_forward_st obj x) (TransformerBlock_forward p xv)"
proof -
  have m: "MultiHeadedAttention_in h (att_of obj) (att p)" "FeedForward_in h (ff_of obj) (ff p)"
    "RMSNorm_in h (norm1_of obj) (norm1 p)" "RMSNorm_in h (norm2_of obj) (norm2 p)"
    using b by (simp_all add: TransformerBlock_in_def)
  note init = holds_unchanged [OF _ x] MultiHeadedAttention_in_unchanged [OF _ m(1)]
    FeedForward_in_unchanged [OF _ m(2)] RMSNorm_in_unchanged [OF _ m(3)]
    RMSNorm_in_unchanged [OF _ m(4)]
  show ?thesis
    unfolding computes_def TransformerBlock_forward_st_def TransformerBlock_forward_chain
    apply (rule finishes_ret_step)
    apply (rule finishes_and_then [OF RMSNorm_forward_st_computes [unfolded computes_def]])
       apply (simp (no_asm_simp) add: init; fail)
      apply (simp (no_asm_simp) add: init; fail)
     apply (simp (no_asm_simp); fail)
    apply (rule finishes_and_then [OF MultiHeadedAttention_forward_st_computes [unfolded computes_def]])
       apply (simp (no_asm_simp) add: init; fail)
      apply (simp (no_asm_simp) add: init; fail)
     apply (simp (no_asm_simp); fail)
    apply (rule finishes_and_then [OF float_op2_finishes])
       apply (simp (no_asm_simp) add: init; fail)
      apply (simp (no_asm_simp) add: init; fail)
     apply (simp (no_asm_simp); fail)
    apply (rule finishes_ret_step)
    apply (rule finishes_and_then [OF RMSNorm_forward_st_computes [unfolded computes_def]])
       apply (simp (no_asm_simp) add: init; fail)
      apply (simp (no_asm_simp) add: init; fail)
     apply (simp (no_asm_simp); fail)
    apply (rule finishes_and_then [OF FeedForward_forward_st_computes [unfolded computes_def]])
       apply (simp (no_asm_simp) add: init; fail)
      apply (simp (no_asm_simp) add: init; fail)
     apply (simp (no_asm_simp); fail)
    apply (rule finishes_and_then [OF float_op2_finishes])
       apply (simp (no_asm_simp) add: init; fail)
      apply (simp (no_asm_simp) add: init; fail)
     apply (simp (no_asm_simp); fail)
    apply (rule finishes_ret_last)
     apply assumption
    apply assumption
    done
qed

section \<open>The forward passes are pure\<close>

lemma computes_outcome:
  assumes "computes h m v"
  shows "unchanged h (snd (m h))" and "outcome (m h) = v"
proof -
  obtain res h' where r: "m h = (res, h')" by (cases "m h")
  show "unchanged h (snd (m h))"
    using assms r by (cases res) (auto simp add: computes_def finishes_def fresh_result_unchanged)
  show "outcome (m h) = v"
  proof (cases res)
    case (Inl e)
    then show ?thesis using assms r by (simp add: computes_def finishes_def outcome_def)
  next
    case (Inr ref)
    then obtain t where t: "v = Inr t" "fresh_result cell_floats h h' ref t"
      using assms r by (auto simp add: computes_def finishes_def)
    from load_holds [OF fresh_result_holds [OF t(2)]] show ?thesis
      using r Inr t(1) by (simp add: outcome_def)
  qed
qed

lemma computes_pure_call:
  assumes "\<And>h'. unchanged h h' \<Longrightarrow> computes h' m v"
  shows "pure_call h m \<and> outcome (m h) = v"
proof -
  have c: "computes h m v" by (rule assms) simp
  note u = computes_outcome [OF c]
  from computes_outcome(2) [OF assms [OF u(1)]] u show ?thesis by (simp add: pure_call_def)
qed

lemma compute_rope_st_computes:
  assumes "holds cell_floats h x xv" "holds cell_floats h ct cv" "holds cell_floats h st sv"
  shows "computes h (compute_rope_st x ct st) (compute_rope xv cv sv)"
  unfolding computes_def using assms by (rule compute_rope_st_finishes)

lemma TransformerBlock_in_unchanged:
  "unchanged h h' \<Longrightarrow> TransformerBlock_in h obj p \<Longrightarrow> TransformerBlock_in h' obj p"
  by (auto simp add: TransformerBlock_in_def MultiHeadedAttention_in_unchanged
      FeedForward_in_unchanged RMSNorm_in_unchanged)

text \<open>
  Claim C8: every forward operation (\<open>RMSNorm.forward\<close>, \<open>FeedForward.forward\<close>,
  \<open>compute_rope\<close>, \<open>MultiHeadedAttention.forward\<close>, \<open>TransformerBlock.forward\<close>) is pure.
  Run on a store that holds the input tensor and the parameters and buffers of the module, the
  call leaves every storage that was allocated before it unchanged (the input, the weights, the
  mask, the cos and sin buffers, and everything else: the in-place \<open>masked_fill_\<close> writes to
  the score tensor that the call itself allocated), a second call on the store the first one
  leaves returns an equal output, and the output is the value that the forward pass on tensor
  values computes from the value of the input and the values of the parameters alone.
\<close>

theorem forward_operations_pure:
  "(RMSNorm_in h n np \<and> holds cell_floats h x xv \<longrightarrow>
      pure_call h (RMSNorm_forward_st n x) \<and>
      outcome (RMSNorm_forward_st n x h) = RMSNorm_forward np xv) \<and>
   (FeedForward_in h f fp \<and> holds cell_floats h x xv \<longrightarrow>
      pure_call h (FeedForward_forward_st f x) \<and>
      outcome (FeedForward_forward_st f x h) = FeedForward_forward fp xv) \<and>
   (holds cell_floats h q qv \<and> holds cell_floats h c cv \<and> holds cell_floats h s sv \<longrightarrow>
      pure_call h (compute_rope_st q c s) \<and>
      outcome (compute_rope_st q c s h) = compute_rope qv cv sv) \<and>
   (MultiHeadedAttention_in h a ap \<and> holds cell_floats h x xv \<longrightarrow>
      pure_call h (MultiHeadedAttention_forward_st a x) \<and>
      outcome (MultiHeadedAttention_forward_st a x h) = MultiHeadedAttention_forward ap xv) \<and>
   (TransformerBlock_in h b bp \<and> holds cell_floats h x xv \<longrightarrow>
      pure_call h (TransformerBlock_forward_st b x) \<and>
      outcome (TransformerBlock_forward_st b x h) = TransformerBlock_forward bp xv)"
proof (intro conjI impI; elim conjE)
  assume "RMSNorm_in h n np" "holds cell_floats h x xv"
  then show "pure_call h (RMSNorm_forward_st n x)"
    "outcome (RMSNorm_forward_st n x h) = RMSNorm_forward np xv"
    using computes_pure_call [of h "RMSNorm_forward_st n x" "RMSNorm_forward np xv"]
    by (simp_all add: RMSNorm_forward_st_computes RMSNorm_in_unchanged holds_unchanged)
next
  assume "FeedForward_in h f fp" "holds cell_floats h x xv"
  then show "pure_call h (FeedForward_forward_st f x)"
    "outcome (FeedForward_forward_st f x h) = FeedForward_forward fp xv"
    using computes_pure_call [of h "FeedForward_forward_st f x" "FeedForward_forward fp xv"]
    by (simp_all add: FeedForward_forward_st_computes FeedForward_in_unchanged holds_unchanged)
next
  assume "holds cell_floats h q qv" "holds cell_floats h c cv" "holds cell_floats h s sv"
  then show "pure_call h (compute_rope_st q c s)"
    "outcome (compute_rope_st q c s h) = compute_rope qv cv sv"
    using computes_pure_call [of h "compute_rope_st q c s" "compute_rope qv cv sv"]
    by (simp_all add: compute_rope_st_computes holds_unchanged)
next
  assume "MultiHeadedAttention_in h a ap" "holds cell_floats h x xv"
  then show "pure_call h (MultiHeadedAttention_forward_st a x)"
    "outcome (MultiHeadedAttention_forward_st a x h) = MultiHeadedAttention_forward ap xv"
    using computes_pure_call [of h "MultiHeadedAttention_forward_st a x"
        "MultiHeadedAttention_forward ap xv"]
    by (simp_all add: MultiHeadedAttention_forward_st_computes MultiHeadedAttention_in_unchanged
        holds_unchanged)
next
  assume "TransformerBlock_in h b bp" "holds cell_floats h x xv"
  then show "pure_call h (TransformerBlock_forward_st b x)"
    "outcome (TransformerBlock_forward_st b x h) = TransformerBlock_forward bp xv"
    using computes_pure_call [of h "TransformerBlock_forward_st b x"
        "TransformerBlock_forward bp xv"]
    by (simp_all add: TransformerBlock_forward_st_computes TransformerBlock_in_unchanged
        holds_unchanged)
qed

theorem forward_operations_pure_witness:
  "\<exists>blk y.
     TransformerBlock_init
       \<lparr>vocab_size = 4, context_length = 2, emb_dim = 2, n_heads = 1,
        ff_bias = False, n_layers = 1, hidden_dim = 2\<rparr>
       (\<lambda>_ _. 1) (\<lambda>_ _. 1) (\<lambda>_ _. 1) (\<lambda>_ _. 1)
       (\<lambda>_ _. 1, \<lambda>_. 0) (\<lambda>_ _. 1, \<lambda>_. 0) (\<lambda>_ _. 1, \<lambda>_. 0) = Inr blk \<and>
     (let x = \<lparr>shape = [1, 2, 2], elem = (\<lambda>_. 1)\<rparr>;
          q = \<lparr>shape = [1, 1, 2, 2], elem = (\<lambda>_. 1)\<rparr>;
          h = \<lparr>cells = (\<lambda>_. Floats x)
                 (1 := Floats q,
                  2 := Floats (weight_matrix (W_query (att blk))),
                  3 := Floats (weight_tensor (norm1 blk)),
                  4 := Floats (mask (att blk)),
                  5 := Floats (rope_cos (att blk)),
                  6 := Floats (rope_sin (att blk))),
               fresh = 7\<rparr>;
          xr = whole 0 [1, 2, 2];
          qr = whole 1 [1, 1, 2, 2];
          lo = \<lparr>in_features_of = 2, out_features_of = 2, W_at = whole 2 [2, 2],
                bias_at = None\<rparr>;
          no = \<lparr>eps_of = 1 / 100000, embd_dim_of = 2, weight_at = whole 3 [2]\<rparr>;
          ao = \<lparr>d_out_of = 2, num_heads_of = 1, head_dim_of = 2,
                W_query_of = lo, W_key_of = lo, W_value_of = lo, out_proj_of = lo,
                mask_at = whole 4 [2, 2],
                cos_at = whole 5 (shape (rope_cos (att blk))),
                sin_at = whole 6 (shape (rope_sin (att blk)))\<rparr>;
          fo = \<lparr>fc1_of = lo, fc2_of = lo, fc3_of = lo\<rparr>;
          bo = \<lparr>att_of = ao, ff_of = fo, norm1_of = no, norm2_of = no\<rparr>
      in holds cell_floats h xr x \<and> holds cell_floats h qr q \<and>
         RMSNorm_in h no (norm1 blk) \<and> FeedForward_in h fo (ff blk) \<and>
         MultiHeadedAttention_in h ao (att blk) \<and> TransformerBlock_in h bo blk \<and>
         pure_call h (RMSNorm_forward_st no xr) \<and>
         pure_call h (FeedForward_forward_st fo xr) \<and>
         pure_call h (compute_rope_st qr (cos_at ao) (sin_at ao)) \<and>
         pure_call h (MultiHeadedAttention_forward_st ao xr) \<and>
         pure_call h (TransformerBlock_forward_st bo xr) \<and>
         outcome (TransformerBlock_forward_st bo xr h) = Inr y)"
proof -
  let ?cfg = "\<lparr>vocab_size = 4, context_length = 2, emb_dim = 2, n_heads = 1,
        ff_bias = False, n_layers = 1, hidden_dim = 2\<rparr>"
  from MultiHeadedAttention_init_ok [of 1 2 2 2 "\<lambda>_ _. 1" "\<lambda>_ _. 1" "\<lambda>_ _. 1" "\<lambda>_ _. 1"]
  obtain m where
    m: "MultiHeadedAttention_init 2 2 2 1 (\<lambda>_ _. 1) (\<lambda>_ _. 1) (\<lambda>_ _. 1) (\<lambda>_ _. 1) = Inr m"
    by auto
  then obtain blk where
    init: "TransformerBlock_init ?cfg (\<lambda>_ _. 1) (\<lambda>_ _. 1) (\<lambda>_ _. 1) (\<lambda>_ _. 1)
       (\<lambda>_ _. 1, \<lambda>_. 0) (\<lambda>_ _. 1, \<lambda>_. 0) (\<lambda>_ _. 1, \<lambda>_. 0) = Inr blk"
    by (simp add: TransformerBlock_init_def)
  let ?lin = "Linear_init 2 2 False (\<lambda>_ _. 1) (\<lambda>_. 0)"
  note b = TransformerBlock_init_Inr [OF init]
  from b(1) have a: "MultiHeadedAttention_init 2 2 2 1 (\<lambda>_ _. 1) (\<lambda>_ _. 1) (\<lambda>_ _. 1) (\<lambda>_ _. 1)
      = Inr (att blk)" by simp
  note f = MultiHeadedAttention_init_Inr [OF a]
  have l: "W_query (att blk) = ?lin" "W_key (att blk) = ?lin" "W_value (att blk) = ?lin"
    "out_proj (att blk) = ?lin" "fc1 (ff blk) = ?lin" "fc2 (ff blk) = ?lin" "fc3 (ff blk) = ?lin"
    using f(8-11) b(2) by (simp_all add: FeedForward_init_def)
  have n: "norm1 blk = RMSNorm_init 2 (1 / 100000)" "norm2 blk = RMSNorm_init 2 (1 / 100000)"
    using b(3,4) by simp_all
  have d: "d_out (att blk) = 2" "num_heads (att blk) = 1" "head_dim (att blk) = 2"
    "mask (att blk) = triu (ones [2, 2]) 1"
    using f(5-7,12) by simp_all
  let ?x = "\<lparr>shape = [1, 2, 2], elem = (\<lambda>_. 1::real)\<rparr>"
  let ?q = "\<lparr>shape = [1, 1, 2, 2], elem = (\<lambda>_. 1::real)\<rparr>"
  let ?h = "\<lparr>cells = (\<lambda>_. Floats ?x)
                 (1 := Floats ?q,
                  2 := Floats (weight_matrix (W_query (att blk))),
                  3 := Floats (weight_tensor (norm1 blk)),
                  4 := Floats (mask (att blk)),
                  5 := Floats (rope_cos (att blk)),
                  6 := Floats (rope_sin (att blk))),
               fresh = 7\<rparr>"
  let ?xr = "whole 0 [1, 2, 2]"
  let ?qr = "whole 1 [1, 1, 2, 2]"
  let ?lo = "\<lparr>in_features_of = 2, out_features_of = 2, W_at = whole 2 [2, 2],
                bias_at = None\<rparr>"
  let ?no = "\<lparr>eps_of = 1 / 100000, embd_dim_of = 2, weight_at = whole 3 [2]\<rparr>"
  let ?ao = "\<lparr>d_out_of = 2, num_heads_of = 1, head_dim_of = 2,
                W_query_of = ?lo, W_key_of = ?lo, W_value_of = ?lo, out_proj_of = ?lo,
                mask_at = whole 4 [2, 2],
                cos_at = whole 5 (shape (rope_cos (att blk))),
                sin_at = whole 6 (shape (rope_sin (att blk)))\<rparr>"
  let ?fo = "\<lparr>fc1_of = ?lo, fc2_of = ?lo, fc3_of = ?lo\<rparr>"
  let ?bo = "\<lparr>att_of = ?ao, ff_of = ?fo, norm1_of = ?no, norm2_of = ?no\<rparr>"
  have ld: "fst (load cell_floats (whole k (shape t)) ?h) = Inr t"
    if "cells ?h k = Floats t" for k t
    using that by (simp add: load_def cell_floats_def del: fun_upd_apply)
  have hx: "holds cell_floats ?h ?xr ?x"
    using ld [of 0 ?x] by (simp add: holds_def)
  have hq: "holds cell_floats ?h ?qr ?q"
    using ld [of 1 ?q] by (simp add: holds_def)
  have hw: "holds cell_floats ?h (whole 2 [2, 2]) (weight_matrix ?lin)"
    using ld [of 2 "weight_matrix ?lin"] by (simp add: holds_def l weight_matrix_def Linear_init_def)
  have hn: "holds cell_floats ?h (whole 3 [2]) (weight_tensor (RMSNorm_init 2 (1 / 100000)))"
    using ld [of 3 "weight_tensor (RMSNorm_init 2 (1 / 100000))"]
    by (simp add: holds_def n weight_tensor_def RMSNorm_init_def)
  have hm: "holds cell_floats ?h (whole 4 [2, 2]) (mask (att blk))"
    using ld [of 4 "mask (att blk)"] by (simp add: holds_def d triu_def ones_def)
  have hc: "holds cell_floats ?h (whole 5 (shape (rope_cos (att blk)))) (rope_cos (att blk))"
    using ld [of 5 "rope_cos (att blk)"] by (simp add: holds_def)
  have hs: "holds cell_floats ?h (whole 6 (shape (rope_sin (att blk)))) (rope_sin (att blk))"
    using ld [of 6 "rope_sin (att blk)"] by (simp add: holds_def)
  have li: "Linear_in ?h ?lo ?lin"
    using hw by (simp add: Linear_in_def Linear_init_def)
  have rn: "RMSNorm_in ?h ?no (norm1 blk)" "RMSNorm_in ?h ?no (norm2 blk)"
    using hn by (simp_all add: RMSNorm_in_def n RMSNorm_init_def)
  have fi: "FeedForward_in ?h ?fo (ff blk)"
    using li by (simp add: FeedForward_in_def l)
  have ai: "MultiHeadedAttention_in ?h ?ao (att blk)"
    using li hm hc hs by (simp add: MultiHeadedAttention_in_def l d(1-3))
  have bi: "TransformerBlock_in ?h ?bo blk"
    using ai fi rn by (simp add: TransformerBlock_in_def)
  have sx: "shape ?x = [1, 2, 2]" and cl: "(2::nat) \<le> 2" by simp_all
  have cfg: "emb_dim ?cfg = 2" by simp
  from TransformerBlock_forward_residual [OF a b(2) cfg _ _ sx cl] obtain y where
    y: "TransformerBlock_forward blk ?x = Inr y"
    using n by (auto simp add: RMSNorm_init_def)
  note p = forward_operations_pure [where h = ?h and x = ?xr and xv = ?x and n = ?no
      and np = "norm1 blk" and f = ?fo and fp = "ff blk" and q = ?qr and qv = ?q
      and c = "cos_at ?ao" and cv = "rope_cos (att blk)" and s = "sin_at ?ao"
      and sv = "rope_sin (att blk)" and a = ?ao and ap = "att blk" and b = ?bo and bp = blk]
  have "pure_call ?h (RMSNorm_forward_st ?no ?xr)"
    "pure_call ?h (FeedForward_forward_st ?fo ?xr)"
    "pure_call ?h (compute_rope_st ?qr (cos_at ?ao) (sin_at ?ao))"
    "pure_call ?h (MultiHeadedAttention_forward_st ?ao ?xr)"
    "pure_call ?h (TransformerBlock_forward_st ?bo ?xr)"
    "outcome (TransformerBlock_forward_st ?bo ?xr ?h) = Inr y"
    using p hx hq rn(1) fi ai bi hc hs y by simp_all
  with init hx hq rn(1) fi ai bi show ?thesis
    unfolding Let_def by (intro exI [of _ blk] exI [of _ y] conjI)
qed

end
